theory Spec2Isabelle
  imports Complex_Main "HOL-Library.Word"
begin

unbundle bit_operations_syntax

section \<open>Data model\<close>

text \<open>
  The model follows \<^verbatim>\<open>src/io/model/modelreaderassimp.cpp\<close>. The scalar type of the
  importer (\<^verbatim>\<open>float\<close>) is kept as a type parameter \<open>'f\<close> with the constants 0 and 1.
  The import pipeline compares scalars with zero and hands matrices and vectors to the
  glm library, whose operations are parameters of the model (no law of arithmetic is
  assumed of them); the cache codec only copies the four bytes of a scalar, where \<open>'f\<close>
  is the 32-bit pattern of the float.
\<close>

type_synonym byte = "8 word"
type_synonym uint32 = "32 word"
type_synonym int32 = "32 word"
type_synonym float32 = "32 word"

type_synonym 'f vec2 = "'f \<times> 'f"
type_synonym 'f vec3 = "'f \<times> 'f \<times> 'f"
type_synonym 'f vec4 = "'f \<times> 'f \<times> 'f \<times> 'f"

text \<open>\<^verbatim>\<open>glm::mat4x4\<close>: four columns.\<close>
type_synonym 'f mat4 = "'f vec4 \<times> 'f vec4 \<times> 'f vec4 \<times> 'f vec4"

text \<open>\<^verbatim>\<open>aiMatrix4x4\<close>: four rows \<open>a\<close>, \<open>b\<close>, \<open>c\<close>, \<open>d\<close>, each \<open>(a1, a2, a3, a4)\<close>.\<close>
type_synonym 'f aiMatrix4x4 = "'f vec4 \<times> 'f vec4 \<times> 'f vec4 \<times> 'f vec4"

text \<open>
  \<^verbatim>\<open>opengl::Texture::Format\<close> and the \<^verbatim>\<open>GLenum\<close> data types that the codec knows;
  \<open>OtherFormat\<close> and \<open>GL_OTHER\<close> stand for every value that reaches the \<^verbatim>\<open>default\<close>
  branch of \<^verbatim>\<open>formatToString\<close> and \<^verbatim>\<open>dataTypeToString\<close>.
\<close>
datatype Format = Red | RG | RGB | BGR | RGBA | BGRA | DepthComponent | OtherFormat

datatype GLDataType =
  GL_BYTE | GL_UNSIGNED_BYTE | GL_SHORT | GL_UNSIGNED_SHORT | GL_INT | GL_UNSIGNED_INT
  | GL_FLOAT | GL_DOUBLE | GL_OTHER

text \<open>\<^verbatim>\<open>opengl::Texture\<close>, as far as the reader uses it.\<close>
record GLTexture =
  texName :: string
  dimensions :: "uint32 \<times> uint32 \<times> uint32"
  format :: Format
  internalFormat :: uint32
  dataType :: GLDataType
  pixelData :: "byte list"

text \<open>\<^verbatim>\<open>ModelGeometry::TextureEntry\<close>.\<close>
record TextureEntry =
  name :: string
  texture :: GLTexture

text \<open>
  \<^verbatim>\<open>ModelMesh::Vertex\<close>.
  Modelled from the spec: the declaration of \<^verbatim>\<open>ModelMesh::Vertex\<close> is not under src/; the
  record is position (4 floats), normal (3 floats), texture coordinate (2 floats) and
  tangent (3 floats), in this order.
\<close>
record 'f Vertex =
  location :: "'f vec4"
  normal :: "'f vec3"
  tex :: "'f vec2"
  tangent :: "'f vec3"

text \<open>
  \<^verbatim>\<open>ModelMesh::Texture\<close>. The pointer \<^verbatim>\<open>opengl::Texture* texture\<close> into the texture storage
  is the index of the storage entry that owns the texture; \<open>None\<close> is \<^verbatim>\<open>nullptr\<close>.
\<close>
record 'f MeshTexture =
  textureRef :: "nat option"
  type :: string
  hasTexture :: bool
  useForcedColor :: bool
  color :: "'f vec3"

text \<open>\<^verbatim>\<open>ModelMesh\<close> with its members \<^verbatim>\<open>_vertices\<close>, \<^verbatim>\<open>_indices\<close> and \<^verbatim>\<open>_textures\<close>.\<close>
record 'f ModelMesh =
  vertices :: "'f Vertex list"
  indices :: "uint32 list"
  textures :: "'f MeshTexture list"

record 'f ModelGeometry =
  meshes :: "'f ModelMesh list"
  textureStorage :: "TextureEntry list"

text \<open>
  Modelled from the spec: the declaration of \<^verbatim>\<open>ModelMesh::Texture\<close> is not under src/; a
  fresh descriptor references no texture, has both flags unset and a zero color (the
  code relies on it wherever it sets only one of the two flags).
\<close>
definition defaultTexture :: "'f::zero MeshTexture" where
  "defaultTexture =
     \<lparr>textureRef = None, type = [], hasTexture = False, useForcedColor = False,
      color = (0, 0, 0)\<rparr>"

subsection \<open>The scene of the external importer\<close>

record aiTexture =
  mWidth :: nat
  mHeight :: nat
  achFormatHint :: string
  pcData :: "byte list"

datatype aiTextureType = aiTextureType_DIFFUSE | aiTextureType_SPECULAR | aiTextureType_NORMALS

text \<open>
  \<^verbatim>\<open>aiMaterial\<close>: the texture paths of each type and the results of the \<^verbatim>\<open>Get\<close> calls the
  reader makes (\<open>None\<close> when the call does not return \<^verbatim>\<open>AI_SUCCESS\<close>).
\<close>
record 'f aiMaterial =
  texturesDiffuse :: "string list"
  texturesSpecular :: "string list"
  texturesNormals :: "string list"
  matOpacity :: "'f option"
  colorDiffuse4 :: "'f vec4 option"
  colorDiffuse3 :: "'f vec3 option"
  colorSpecular4 :: "'f vec4 option"
  colorSpecular3 :: "'f vec3 option"

fun GetTextures :: "'f aiMaterial \<Rightarrow> aiTextureType \<Rightarrow> string list" where
  "GetTextures m aiTextureType_DIFFUSE = texturesDiffuse m"
| "GetTextures m aiTextureType_SPECULAR = texturesSpecular m"
| "GetTextures m aiTextureType_NORMALS = texturesNormals m"

text \<open>
  \<^verbatim>\<open>aiMesh\<close>: \<^verbatim>\<open>mNumVertices\<close> is the length of \<open>mVertices\<close>, \<^verbatim>\<open>mNumFaces\<close> the length of
  \<open>mFaces\<close>, a face is the list of its indices; an optional array is \<open>None\<close> when its
  pointer is null.
\<close>
record 'f aiMesh =
  mName :: string
  mVertices :: "'f vec3 list"
  mNormals :: "'f vec3 list option"
  mTextureCoords0 :: "'f vec3 list option"
  mTangents :: "'f vec3 list option"
  mBitangents :: "'f vec3 list option"
  mFaces :: "uint32 list list"
  mMaterialIndex :: nat

datatype 'f aiNode =
  aiNode (nodeTransformation: "'f aiMatrix4x4") (nodeMeshes: "nat list")
    (nodeChildren: "'f aiNode list")

record 'f aiScene =
  mFlagsIncomplete :: bool
  mRootNode :: "'f aiNode option"
  mMeshes :: "'f aiMesh list"
  mMaterials :: "'f aiMaterial list"
  GetEmbeddedTexture :: "string \<Rightarrow> aiTexture option"

subsection \<open>External collaborators\<close>

datatype LoadResult = Loaded GLTexture | MissingReaderException | TextureLoadException

text \<open>
  The texture-decoding service (\<^verbatim>\<open>TextureReader::loadTexture\<close> from memory and from a file
  below the model directory), \<^verbatim>\<open>Texture::texelAsFloat(j, k).a\<close> and the importer's
  \<^verbatim>\<open>IsBlack\<close> tests are not part of the reader: they are parameters. So is glm:
  \<open>matMul\<close> is \<^verbatim>\<open>glm::mat4x4 * glm::mat4x4\<close>, \<open>matVec\<close> is \<^verbatim>\<open>glm::mat4x4 * glm::vec4\<close>, both
  computed in \<^verbatim>\<open>float\<close>, and \<open>defaultMat4x4\<close> is what a \<^verbatim>\<open>glm::mat4x4\<close> declared without
  an initialiser holds: the identity where \<^verbatim>\<open>GLM_FORCE_CTOR_INIT\<close> is defined, which glm.h
  does on every platform but \<^verbatim>\<open>__APPLE__\<close>; on that platform the matrix is not initialised
  and the parameter stands for whatever it holds.
\<close>
record 'f Services =
  loadTextureMemory :: "aiTexture \<Rightarrow> LoadResult"
  loadTextureFile :: "string \<Rightarrow> string \<Rightarrow> LoadResult"
  texelAlpha :: "GLTexture \<Rightarrow> nat \<Rightarrow> nat \<Rightarrow> 'f"
  IsBlack4 :: "'f vec4 \<Rightarrow> bool"
  IsBlack3 :: "'f vec3 \<Rightarrow> bool"
  matMul :: "'f mat4 \<Rightarrow> 'f mat4 \<Rightarrow> 'f mat4"
  matVec :: "'f mat4 \<Rightarrow> 'f vec4 \<Rightarrow> 'f vec4"
  defaultMat4x4 :: "'f mat4"

text \<open>
  What one import does besides building the result: the calls it makes to the
  texture-decoding service (by texture name) and the log lines it writes.
\<close>
datatype event = LoadTextureCall string | LWARNING string | LINFO string

record ImportState =
  storage :: "TextureEntry list"
  events :: "event list"

section \<open>Strings and array access\<close>

text \<open>\<^verbatim>\<open>c_str()\<close> as \<^verbatim>\<open>strcmp\<close> reads it: the characters before the first NUL.\<close>
definition c_str :: "string \<Rightarrow> string" where
  "c_str s = takeWhile (\<lambda>c. c \<noteq> CHR 0x00) s"

text \<open>Reading an array out of range is undefined in the source: \<open>None\<close>.\<close>
definition elemAt :: "'a list \<Rightarrow> nat \<Rightarrow> 'a option" where
  "elemAt xs i = (if i < length xs then Some (xs ! i) else None)"

text \<open>\<^verbatim>\<open>textureArray[j].texture->name()\<close>.\<close>
definition textureName :: "TextureEntry list \<Rightarrow> 'f MeshTexture \<Rightarrow> string option" where
  "textureName st t =
     (case textureRef t of
        None \<Rightarrow> None
      | Some i \<Rightarrow> map_option (\<lambda>e. texName (texture e)) (elemAt st i))"

section \<open>Transforms\<close>

text \<open>The conversion at the head of \<^verbatim>\<open>processNode\<close>: the rows become the columns' entries.\<close>
definition nodeTransform :: "'f aiMatrix4x4 \<Rightarrow> 'f mat4" where
  "nodeTransform t = (case t of ((a1, a2, a3, a4), (b1, b2, b3, b4), (c1, c2, c3, c4),
      (d1, d2, d3, d4)) \<Rightarrow>
     ((a1, b1, c1, d1), (a2, b2, c2, d2), (a3, b3, c3, d3), (a4, b4, c4, d4)))"

section \<open>loadMaterialTextures\<close>

text \<open>The scan of the current mesh's texture array for a texture of the same name.\<close>
fun loadedForMesh :: "TextureEntry list \<Rightarrow> 'f MeshTexture list \<Rightarrow> string \<Rightarrow> bool option" where
  "loadedForMesh st [] p = Some False"
| "loadedForMesh st (t # ts) p =
     (if hasTexture t then
        (case textureName st t of
           None \<Rightarrow> None
         | Some n \<Rightarrow> if c_str n = c_str p then Some True else loadedForMesh st ts p)
      else loadedForMesh st ts p)"

text \<open>
  The linear scan of the texture storage by name, from index \<open>j\<close> on; the same scan is
  in \<^verbatim>\<open>saveCachedFile\<close>.
\<close>
fun findByName :: "TextureEntry list \<Rightarrow> string \<Rightarrow> nat \<Rightarrow> nat option" where
  "findByName [] p j = None"
| "findByName (e # es) p j =
     (if c_str (name e) = c_str p then Some j else findByName es p (Suc j))"

text \<open>
  The transparency scan. The inner loop over \<open>k\<close> stops at the first non-zero alpha, the
  outer loop over \<open>j\<close> stops once \<^verbatim>\<open>isOpague\<close> is set. Both return the texels they read.
\<close>
fun scanInner :: "(nat \<Rightarrow> 'f::zero) \<Rightarrow> nat list \<Rightarrow> bool \<times> nat list" where
  "scanInner a [] = (False, [])"
| "scanInner a (k # ks) =
     (if a k \<noteq> 0 then (True, [k])
      else (fst (scanInner a ks), k # snd (scanInner a ks)))"

fun scanOuter ::
  "(nat \<Rightarrow> nat \<Rightarrow> 'f::zero) \<Rightarrow> nat list \<Rightarrow> nat list \<Rightarrow> bool \<Rightarrow> bool \<times> (nat \<times> nat) list" where
  "scanOuter a [] ks isOpague = (isOpague, [])"
| "scanOuter a (j # js) ks isOpague =
     (if isOpague then (isOpague, [])
      else (fst (scanOuter a js ks (isOpague \<or> fst (scanInner (a j) ks))),
            map (Pair j) (snd (scanInner (a j) ks))
              @ snd (scanOuter a js ks (isOpague \<or> fst (scanInner (a j) ks)))))"

definition scanTexture :: "'f::zero Services \<Rightarrow> GLTexture \<Rightarrow> bool \<times> (nat \<times> nat) list" where
  "scanTexture rd t = (case dimensions t of (x, y, z) \<Rightarrow>
     scanOuter (texelAlpha rd t) [0..<unat x] [0..<unat y] False)"

definition isOpague :: "'f::zero Services \<Rightarrow> GLTexture \<Rightarrow> bool" where
  "isOpague rd t = fst (scanTexture rd t)"

text \<open>The descriptor pushed on each of the five load failure paths.\<close>
definition forcedColorTexture :: "'f::zero MeshTexture" where
  "forcedColorTexture =
     defaultTexture\<lparr>textureRef := None, hasTexture := False, useForcedColor := True,
       type := ''color_diffuse''\<rparr>"

text \<open>
  The load itself: embedded and compressed, embedded and uncompressed (not supported),
  or a local file. The result is the events of the attempt and the texture, if any.
\<close>
definition loadResult :: "string \<Rightarrow> LoadResult \<Rightarrow> event list \<times> GLTexture option" where
  "loadResult p r =
     (case r of
        Loaded g \<Rightarrow> ([LoadTextureCall p], Some (g\<lparr>texName := p\<rparr>))
      | MissingReaderException \<Rightarrow>
          ([LoadTextureCall p,
            LWARNING ''Could not load unsupported texture: Replacing with flashy color.''],
           None)
      | TextureLoadException \<Rightarrow>
          ([LoadTextureCall p,
            LWARNING ''Failed to load texture: Replacing with flashy color.''], None))"

definition loadTexture ::
  "'f aiScene \<Rightarrow> 'f Services \<Rightarrow> string \<Rightarrow> string \<Rightarrow> event list \<times> GLTexture option" where
  "loadTexture scene rd modelDirectory p =
     (case GetEmbeddedTexture scene p of
        Some t \<Rightarrow>
          if mHeight t = 0 then loadResult p (loadTextureMemory rd t)
          else ([LWARNING
            ''Uncompressed embedded texture detected: Not supported! Replacing with flashy color.''],
            None)
      | None \<Rightarrow> loadResult p (loadTextureFile rd modelDirectory p))"

text \<open>
  \<^verbatim>\<open>loadMaterialTextures\<close>, one texture path of the channel per step. The result is the
  function's return value, the texture array of the mesh and the storage; \<open>None\<close> when a
  descriptor of the array references no storage entry (undefined in the source).
\<close>
fun loadMaterialTextures ::
  "'f::zero aiScene \<Rightarrow> 'f Services \<Rightarrow> string \<Rightarrow> string \<Rightarrow> string list \<Rightarrow>
     'f MeshTexture list \<Rightarrow> ImportState \<Rightarrow> (bool \<times> 'f MeshTexture list \<times> ImportState) option" where
  "loadMaterialTextures scene rd modelDirectory typeString [] textureArray s =
     Some (True, textureArray, s)"
| "loadMaterialTextures scene rd modelDirectory typeString (path # rest) textureArray s =
     (case loadedForMesh (storage s) textureArray path of
        None \<Rightarrow> None
      | Some True \<Rightarrow>
          loadMaterialTextures scene rd modelDirectory typeString rest textureArray s
      | Some False \<Rightarrow>
          (case findByName (storage s) path 0 of
             Some j \<Rightarrow>
               loadMaterialTextures scene rd modelDirectory typeString rest
                 (textureArray @
                    [defaultTexture\<lparr>type := typeString, textureRef := Some j,
                       hasTexture := True\<rparr>])
                 (s\<lparr>storage := (storage s)
                      [j := (storage s ! j)\<lparr>texture :=
                         (texture (storage s ! j))\<lparr>texName := c_str path\<rparr>\<rparr>]\<rparr>)
           | None \<Rightarrow>
               (case loadTexture scene rd modelDirectory (c_str path) of
                  (evs, None) \<Rightarrow>
                    Some (False, textureArray @ [forcedColorTexture],
                          s\<lparr>events := events s @ evs\<rparr>)
                | (evs, Some t) \<Rightarrow>
                    if \<not> isOpague rd t then
                      loadMaterialTextures scene rd modelDirectory typeString rest textureArray
                        (s\<lparr>events := events s @ evs\<rparr>)
                    else
                      loadMaterialTextures scene rd modelDirectory typeString rest
                        (textureArray @
                           [defaultTexture\<lparr>type := typeString,
                              textureRef := Some (length (storage s)), hasTexture := True\<rparr>])
                        (s\<lparr>storage := storage s @ [\<lparr>name = c_str path, texture = t\<rparr>],
                           events := events s @ evs\<rparr>))))"

section \<open>processMesh\<close>

text \<open>The importer's inline tests, inside the vertex loop (where \<^verbatim>\<open>mNumVertices > 0\<close>).\<close>
definition HasNormals :: "'f aiMesh \<Rightarrow> bool" where
  "HasNormals mesh = (mNormals mesh \<noteq> None \<and> mVertices mesh \<noteq> [])"

definition HasTextureCoords0 :: "'f aiMesh \<Rightarrow> bool" where
  "HasTextureCoords0 mesh = (mTextureCoords0 mesh \<noteq> None \<and> mVertices mesh \<noteq> [])"

definition HasTangentsAndBitangents :: "'f aiMesh \<Rightarrow> bool" where
  "HasTangentsAndBitangents mesh =
     (mTangents mesh \<noteq> None \<and> mBitangents mesh \<noteq> None \<and> mVertices mesh \<noteq> [])"

text \<open>Element \<open>i\<close> of an optional per-vertex array, zero when the mesh has no such array.\<close>
definition attributeAt :: "bool \<Rightarrow> 'f::zero vec3 list option \<Rightarrow> nat \<Rightarrow> 'f vec3 option" where
  "attributeAt has arr i =
     (if has then (case arr of None \<Rightarrow> None | Some xs \<Rightarrow> elemAt xs i) else Some (0, 0, 0))"

text \<open>The position \<open>(x, y, z, 1)\<close> of a vertex, and \<^verbatim>\<open>transform * position\<close>.\<close>
definition transformPosition :: "'f::{zero,one} Services \<Rightarrow> 'f mat4 \<Rightarrow> 'f vec3 \<Rightarrow> 'f vec4" where
  "transformPosition rd transform p =
     (case p of (x, y, z) \<Rightarrow> matVec rd transform (x, y, z, 1))"

text \<open>One iteration of the vertex loop.\<close>
definition vertexAt ::
  "'f::{zero,one} Services \<Rightarrow> 'f mat4 \<Rightarrow> 'f aiMesh \<Rightarrow> nat \<Rightarrow> 'f Vertex option" where
  "vertexAt rd transform mesh i =
     (case elemAt (mVertices mesh) i of
        None \<Rightarrow> None
      | Some p \<Rightarrow>
          (case attributeAt (HasNormals mesh) (mNormals mesh) i of
             None \<Rightarrow> None
           | Some n \<Rightarrow>
               (case attributeAt (HasTextureCoords0 mesh) (mTextureCoords0 mesh) i of
                  None \<Rightarrow> None
                | Some (u, v, w) \<Rightarrow>
                    (case attributeAt (HasTangentsAndBitangents mesh) (mTangents mesh) i of
                       None \<Rightarrow> None
                     | Some t \<Rightarrow>
                         Some \<lparr>location = transformPosition rd transform p, normal = n,
                               tex = (u, v), tangent = t\<rparr>))))"

definition buildVertices ::
  "'f::{zero,one} Services \<Rightarrow> 'f mat4 \<Rightarrow> 'f aiMesh \<Rightarrow> 'f Vertex list option" where
  "buildVertices rd transform mesh =
     those (map (vertexAt rd transform mesh) [0..<length (mVertices mesh)])"

definition buildIndices :: "'f aiMesh \<Rightarrow> uint32 list" where
  "buildIndices mesh = concat (mFaces mesh)"

definition colorTexture :: "string \<Rightarrow> 'f::zero vec3 \<Rightarrow> 'f MeshTexture" where
  "colorTexture typeString c =
     defaultTexture\<lparr>hasTexture := False, type := typeString, color := c\<rparr>"

text \<open>
  The three channels of \<^verbatim>\<open>processMesh\<close>. Each returns whether the mesh building goes on
  (\<open>False\<close>: \<^verbatim>\<open>loadMaterialTextures\<close> returned \<^verbatim>\<open>false\<close> and the mesh is returned at once).
\<close>
definition resolveDiffuse ::
  "'f::zero aiScene \<Rightarrow> 'f Services \<Rightarrow> string \<Rightarrow> 'f aiMaterial \<Rightarrow> 'f MeshTexture list \<Rightarrow>
     ImportState \<Rightarrow> (bool \<times> 'f MeshTexture list \<times> ImportState) option" where
  "resolveDiffuse scene rd modelDirectory material textureArray s =
     (if GetTextures material aiTextureType_DIFFUSE \<noteq> [] then
        loadMaterialTextures scene rd modelDirectory ''texture_diffuse''
          (GetTextures material aiTextureType_DIFFUSE) textureArray s
      else
        (case colorDiffuse4 material of
           Some (r, g, b, a) \<Rightarrow>
             if a \<noteq> 0 then Some (True, textureArray @ [colorTexture ''color_diffuse'' (r, g, b)], s)
             else Some (True, textureArray, s)
         | None \<Rightarrow>
             (case colorDiffuse3 material of
                Some c \<Rightarrow> Some (True, textureArray @ [colorTexture ''color_diffuse'' c], s)
              | None \<Rightarrow> Some (True, textureArray, s))))"

definition specularColor3 ::
  "'f::zero Services \<Rightarrow> 'f aiMaterial \<Rightarrow> 'f MeshTexture list \<Rightarrow> 'f MeshTexture list" where
  "specularColor3 rd material textureArray =
     (case colorSpecular3 material of
        Some c \<Rightarrow>
          if \<not> IsBlack3 rd c then textureArray @ [colorTexture ''color_specular'' c]
          else textureArray
      | None \<Rightarrow> textureArray)"

definition resolveSpecular ::
  "'f::zero aiScene \<Rightarrow> 'f Services \<Rightarrow> string \<Rightarrow> 'f aiMaterial \<Rightarrow> 'f MeshTexture list \<Rightarrow>
     ImportState \<Rightarrow> (bool \<times> 'f MeshTexture list \<times> ImportState) option" where
  "resolveSpecular scene rd modelDirectory material textureArray s =
     (if GetTextures material aiTextureType_SPECULAR \<noteq> [] then
        loadMaterialTextures scene rd modelDirectory ''texture_specular''
          (GetTextures material aiTextureType_SPECULAR) textureArray s
      else
        (case colorSpecular4 material of
           Some (r, g, b, a) \<Rightarrow>
             if \<not> IsBlack4 rd (r, g, b, a) then
               (if a \<noteq> 0 then
                  Some (True, textureArray @ [colorTexture ''color_specular'' (r, g, b)], s)
                else Some (True, textureArray, s))
             else Some (True, specularColor3 rd material textureArray, s)
         | None \<Rightarrow> Some (True, specularColor3 rd material textureArray, s)))"

definition resolveNormal ::
  "'f::zero aiScene \<Rightarrow> 'f Services \<Rightarrow> string \<Rightarrow> 'f aiMaterial \<Rightarrow> 'f MeshTexture list \<Rightarrow>
     ImportState \<Rightarrow> (bool \<times> 'f MeshTexture list \<times> ImportState) option" where
  "resolveNormal scene rd modelDirectory material textureArray s =
     (if GetTextures material aiTextureType_NORMALS \<noteq> [] then
        loadMaterialTextures scene rd modelDirectory ''texture_normal''
          (GetTextures material aiTextureType_NORMALS) textureArray s
      else Some (True, textureArray, s))"

text \<open>The material part of \<^verbatim>\<open>processMesh\<close>: the texture array of the mesh.\<close>
definition resolveMaterial ::
  "'f::zero aiScene \<Rightarrow> 'f Services \<Rightarrow> string \<Rightarrow> 'f aiMaterial \<Rightarrow> ImportState \<Rightarrow>
     ('f MeshTexture list \<times> ImportState) option" where
  "resolveMaterial scene rd modelDirectory material s =
     (if matOpacity material = Some 0 then Some ([], s)
      else
        (case resolveDiffuse scene rd modelDirectory material [] s of
           None \<Rightarrow> None
         | Some (success, ta1, s1) \<Rightarrow>
             if \<not> success then Some (ta1, s1)
             else
               (case resolveSpecular scene rd modelDirectory material ta1 s1 of
                  None \<Rightarrow> None
                | Some (success2, ta2, s2) \<Rightarrow>
                    if \<not> success2 then Some (ta2, s2)
                    else
                      (case resolveNormal scene rd modelDirectory material ta2 s2 of
                         None \<Rightarrow> None
                       | Some (success3, ta3, s3) \<Rightarrow> Some (ta3, s3)))))"

definition processMesh ::
  "'f::{zero,one} aiScene \<Rightarrow> 'f Services \<Rightarrow> string \<Rightarrow> 'f aiMesh \<Rightarrow> 'f mat4 \<Rightarrow> ImportState \<Rightarrow>
     ('f ModelMesh \<times> ImportState) option" where
  "processMesh scene rd modelDirectory mesh transform s =
     (case buildVertices rd transform mesh of
        None \<Rightarrow> None
      | Some vertexArray \<Rightarrow>
          (case elemAt (mMaterials scene) (mMaterialIndex mesh) of
             None \<Rightarrow> None
           | Some material \<Rightarrow>
               (case resolveMaterial scene rd modelDirectory material s of
                  None \<Rightarrow> None
                | Some (textureArray, s') \<Rightarrow>
                    Some (\<lparr>vertices = vertexArray, indices = buildIndices mesh,
                            textures = textureArray\<rparr>, s'))))"

section \<open>processNode and loadModel\<close>

text \<open>What \<^verbatim>\<open>processNode\<close> does with a mesh that \<^verbatim>\<open>processMesh\<close> returned.\<close>
definition keepOrDrop ::
  "bool \<Rightarrow> bool \<Rightarrow> 'f::zero aiMesh \<Rightarrow> 'f ModelMesh \<Rightarrow> 'f ModelMesh list \<times> ImportState \<Rightarrow>
     'f ModelMesh list \<times> ImportState" where
  "keepOrDrop forceRenderInvisible notifyInvisibleDropped mesh loadedMesh acc =
     (case acc of (meshArray, s) \<Rightarrow>
        if textures loadedMesh = [] then
          (if forceRenderInvisible then
             (meshArray @ [loadedMesh\<lparr>textures := [forcedColorTexture]\<rparr>], s)
           else if notifyInvisibleDropped then
             (meshArray,
              s\<lparr>events := events s @
                 [LINFO (''Invisible mesh '' @ [CHR 0x27] @ c_str (mName mesh) @ [CHR 0x27] @ '' dropped'')]\<rparr>)
           else (meshArray, s))
        else (meshArray @ [loadedMesh], s))"

text \<open>The loop over the meshes of a node.\<close>
primrec processNodeMeshes ::
  "'f::{zero,one} aiScene \<Rightarrow> 'f Services \<Rightarrow> bool \<Rightarrow> bool \<Rightarrow> string \<Rightarrow> nat list \<Rightarrow> 'f mat4 \<Rightarrow>
     'f ModelMesh list \<times> ImportState \<Rightarrow> ('f ModelMesh list \<times> ImportState) option" where
  "processNodeMeshes scene rd force notify modelDirectory [] globalTransform acc = Some acc"
| "processNodeMeshes scene rd force notify modelDirectory (i # rest) globalTransform acc =
     (case elemAt (mMeshes scene) i of
        None \<Rightarrow> None
      | Some mesh \<Rightarrow>
          (case processMesh scene rd modelDirectory mesh globalTransform (snd acc) of
             None \<Rightarrow> None
           | Some (loadedMesh, s') \<Rightarrow>
               processNodeMeshes scene rd force notify modelDirectory rest globalTransform
                 (keepOrDrop force notify mesh loadedMesh (fst acc, s'))))"

text \<open>
  \<^verbatim>\<open>processNode\<close>: the meshes of the node, then its children in order, each with the
  node's global transform as parent transform.
\<close>
primrec processNode ::
  "'f::{zero,one} aiScene \<Rightarrow> 'f Services \<Rightarrow> bool \<Rightarrow> bool \<Rightarrow> string \<Rightarrow> 'f aiNode \<Rightarrow> 'f mat4 \<Rightarrow>
     'f ModelMesh list \<times> ImportState \<Rightarrow> ('f ModelMesh list \<times> ImportState) option"
and processChildren ::
  "'f::{zero,one} aiScene \<Rightarrow> 'f Services \<Rightarrow> bool \<Rightarrow> bool \<Rightarrow> string \<Rightarrow> 'f aiNode list \<Rightarrow> 'f mat4 \<Rightarrow>
     'f ModelMesh list \<times> ImportState \<Rightarrow> ('f ModelMesh list \<times> ImportState) option" where
  "processNode scene rd force notify modelDirectory (aiNode t ms cs) parentTransform acc =
     (case processNodeMeshes scene rd force notify modelDirectory ms
             (matMul rd parentTransform (nodeTransform t)) acc of
        None \<Rightarrow> None
      | Some acc' \<Rightarrow>
          processChildren scene rd force notify modelDirectory cs
            (matMul rd parentTransform (nodeTransform t)) acc')"
| "processChildren scene rd force notify modelDirectory [] globalTransform acc = Some acc"
| "processChildren scene rd force notify modelDirectory (c # cs) globalTransform acc =
     (case processNode scene rd force notify modelDirectory c globalTransform acc of
        None \<Rightarrow> None
      | Some acc' \<Rightarrow> processChildren scene rd force notify modelDirectory cs globalTransform acc')"

text \<open>
  The failures of the reader: the two exceptions of the source with their messages, the
  \<^verbatim>\<open>MissingCaseException\<close> of the format tables, a failed allocation (a negative count
  used as a size), and \<open>UndefinedBehaviour\<close> where the source reads an array out of
  range, dereferences a null pointer or uses a value it never initialised.
\<close>
datatype error =
  ModelLoadException string | ModelSaveException string | MissingCaseException
  | AllocationFailure | UndefinedBehaviour

text \<open>
  \<^verbatim>\<open>loadModel\<close>. The importer's \<^verbatim>\<open>ReadFile\<close> is external: \<open>importResult\<close> is the scene it
  returned (\<open>None\<close> for a null pointer), \<open>errorString\<close> its \<^verbatim>\<open>GetErrorString()\<close>. The
  root transform is \<^verbatim>\<open>glm::mat4x4 rootTransform;\<close>, declared without an initialiser. The
  result is the geometry and what the import did.
\<close>
definition loadModel ::
  "'f::{zero,one} Services \<Rightarrow> 'f aiScene option \<Rightarrow> string \<Rightarrow> string \<Rightarrow> bool \<Rightarrow> bool \<Rightarrow>
     error + ('f ModelGeometry \<times> event list)" where
  "loadModel rd importResult errorString modelDirectory forceRenderInvisible
      notifyInvisibleDropped =
     (case importResult of
        None \<Rightarrow> Inl (ModelLoadException errorString)
      | Some scene \<Rightarrow>
          if mFlagsIncomplete scene then Inl (ModelLoadException errorString)
          else
            (case mRootNode scene of
               None \<Rightarrow> Inl (ModelLoadException errorString)
             | Some rootNode \<Rightarrow>
                 (case processNode scene rd forceRenderInvisible notifyInvisibleDropped
                         modelDirectory rootNode (defaultMat4x4 rd)
                         ([], \<lparr>storage = [], events = []\<rparr>) of
                    None \<Rightarrow> Inl UndefinedBehaviour
                  | Some (meshArray, s) \<Rightarrow>
                      Inr (\<lparr>meshes = meshArray, textureStorage = storage s\<rparr>, events s))))"

section \<open>Well-formed scenes and example data\<close>

text \<open>
  What the importer guarantees for a mesh: an optional per-vertex array that is present
  has an element for every vertex.
\<close>
definition arraysComplete :: "'f aiMesh \<Rightarrow> bool" where
  "arraysComplete mesh =
     (\<forall>arr \<in> set [mNormals mesh, mTextureCoords0 mesh, mTangents mesh].
        case arr of None \<Rightarrow> True | Some xs \<Rightarrow> length (mVertices mesh) \<le> length xs)"

text \<open>A triangle, and a material that is fully transparent but has a diffuse texture.\<close>
definition triangle :: "int aiMesh" where
  "triangle =
     \<lparr>mName = ''tri'', mVertices = [(0, 0, 0), (1, 0, 0), (0, 1, 0)], mNormals = None,
      mTextureCoords0 = None, mTangents = None, mBitangents = None, mFaces = [[0, 1, 2]],
      mMaterialIndex = 0\<rparr>"

definition woodMaterial :: "int aiMaterial" where
  "woodMaterial =
     \<lparr>texturesDiffuse = [''wood.png''], texturesSpecular = [], texturesNormals = [],
      matOpacity = None, colorDiffuse4 = None, colorDiffuse3 = None, colorSpecular4 = None,
      colorSpecular3 = None\<rparr>"

definition transparentMaterial :: "int aiMaterial" where
  "transparentMaterial = woodMaterial\<lparr>matOpacity := Some 0\<rparr>"

definition sceneOf :: "int aiNode \<Rightarrow> int aiMesh list \<Rightarrow> int aiMaterial list \<Rightarrow> int aiScene" where
  "sceneOf rootNode ms mats =
     \<lparr>mFlagsIncomplete = False, mRootNode = Some rootNode, mMeshes = ms, mMaterials = mats,
      GetEmbeddedTexture = (\<lambda>p. None)\<rparr>"

definition unitMatrix :: "'f::{zero,one} aiMatrix4x4" where
  "unitMatrix = ((1, 0, 0, 0), (0, 1, 0, 0), (0, 0, 1, 0), (0, 0, 0, 1))"

text \<open>The importer's matrix of a translation: the offsets are \<open>a4\<close>, \<open>b4\<close> and \<open>c4\<close>.\<close>
definition translationMatrix :: "'f::{zero,one} \<Rightarrow> 'f \<Rightarrow> 'f \<Rightarrow> 'f aiMatrix4x4" where
  "translationMatrix x y z = ((1, 0, 0, x), (0, 1, 0, y), (0, 0, 1, z), (0, 0, 0, 1))"

definition transparentScene :: "int aiScene" where
  "transparentScene = sceneOf (aiNode unitMatrix [0] []) [triangle] [transparentMaterial]"

text \<open>
  The arithmetic of the examples: \<^verbatim>\<open>float\<close> (IEEE 754 binary32, rounding to nearest, ties
  to even) on the floats whose value is an integer of magnitude below \<open>2^127\<close>. Such a
  float is its value; a sum or a product is the exact result rounded to 24 significant
  bits. \<open>ulp24 n\<close> is the distance between the floats around \<open>n\<close>.
\<close>
fun ulp24 :: "nat \<Rightarrow> nat" where
  "ulp24 n = (if n < 16777216 then 1 else 2 * ulp24 (n div 2))"

declare ulp24.simps [simp del]

definition float32Round :: "int \<Rightarrow> int" where
  "float32Round v =
     (let u = int (ulp24 (nat \<bar>v\<bar>)); q = \<bar>v\<bar> div u; r = \<bar>v\<bar> mod u
      in sgn v * ((if u < 2 * r \<or> (u = 2 * r \<and> odd q) then q + 1 else q) * u))"

definition fadd :: "int \<Rightarrow> int \<Rightarrow> int" where
  "fadd a b = float32Round (a + b)"

definition fmul :: "int \<Rightarrow> int \<Rightarrow> int" where
  "fmul a b = float32Round (a * b)"

text \<open>
  The products of glm (column major) in this arithmetic: a matrix times a vector is
  \<open>(c0 * x + c1 * y) + (c2 * z + c3 * w)\<close> on the columns, a matrix times a matrix is, column
  by column of the right factor, \<open>((a0 * b0 + a1 * b1) + a2 * b2) + a3 * b3\<close>. The identity
  is what a default-constructed matrix holds under \<^verbatim>\<open>GLM_FORCE_CTOR_INIT\<close>.
\<close>
definition vscale :: "int vec4 \<Rightarrow> int \<Rightarrow> int vec4" where
  "vscale c s = (case c of (x, y, z, w) \<Rightarrow> (fmul x s, fmul y s, fmul z s, fmul w s))"

definition vadd :: "int vec4 \<Rightarrow> int vec4 \<Rightarrow> int vec4" where
  "vadd u v = (case u of (x, y, z, w) \<Rightarrow> case v of (x', y', z', w') \<Rightarrow>
     (fadd x x', fadd y y', fadd z z', fadd w w'))"

definition glmMatVec :: "int mat4 \<Rightarrow> int vec4 \<Rightarrow> int vec4" where
  "glmMatVec m v = (case m of (c0, c1, c2, c3) \<Rightarrow> case v of (x, y, z, w) \<Rightarrow>
     vadd (vadd (vscale c0 x) (vscale c1 y)) (vadd (vscale c2 z) (vscale c3 w)))"

definition glmMatMul :: "int mat4 \<Rightarrow> int mat4 \<Rightarrow> int mat4" where
  "glmMatMul a b = (case a of (a0, a1, a2, a3) \<Rightarrow>
     (let column = (\<lambda>(x, y, z, w).
        vadd (vadd (vadd (vscale a0 x) (vscale a1 y)) (vscale a2 z)) (vscale a3 w))
      in case b of (b0, b1, b2, b3) \<Rightarrow> (column b0, column b1, column b2, column b3)))"

definition identity :: "'f::{zero,one} mat4" where
  "identity = ((1, 0, 0, 0), (0, 1, 0, 0), (0, 0, 1, 0), (0, 0, 0, 1))"

text \<open>
  A decoding service for the examples: \<^verbatim>\<open>wood.png\<close> is one opaque RGBA texel,
  \<^verbatim>\<open>clear.png\<close> one texel of alpha zero, \<^verbatim>\<open>model.xyz\<close> has no decoder and every other
  file fails to decode. The alpha of texel \<open>(j, k)\<close> is the fourth byte of the texel. The
  matrix products are those of glm in \<^verbatim>\<open>float\<close>, on a platform with \<^verbatim>\<open>GLM_FORCE_CTOR_INIT\<close>.
\<close>
definition texelOf :: "byte list \<Rightarrow> GLTexture" where
  "texelOf bs =
     \<lparr>texName = [], dimensions = (1, 1, 1), format = RGBA, internalFormat = 0x8058,
      dataType = GL_UNSIGNED_BYTE, pixelData = bs\<rparr>"

definition exampleServices :: "int Services" where
  "exampleServices =
     \<lparr>loadTextureMemory = (\<lambda>t. TextureLoadException),
      loadTextureFile = (\<lambda>dir p.
        if p = ''wood.png'' then Loaded (texelOf [150, 100, 50, 255])
        else if p = ''clear.png'' then Loaded (texelOf [150, 100, 50, 0])
        else if p = ''model.xyz'' then MissingReaderException
        else TextureLoadException),
      texelAlpha = (\<lambda>t j k. case dimensions t of (x, y, z) \<Rightarrow>
        int (unat (pixelData t ! (4 * (k * unat x + j) + 3)))),
      IsBlack4 = (\<lambda>c. case c of (r, g, b, a) \<Rightarrow> r = 0 \<and> g = 0 \<and> b = 0),
      IsBlack3 = (\<lambda>c. c = (0, 0, 0)),
      matMul = glmMatMul, matVec = glmMatVec, defaultMat4x4 = identity\<rparr>"

text \<open>
  A triangle with normals, texture coordinates, tangents and bitangents, a fully
  transparent material with a texture in each of the three channels and a diffuse color,
  and a scene of the two.
\<close>
definition shadedTriangle :: "int aiMesh" where
  "shadedTriangle =
     \<lparr>mName = ''shaded'', mVertices = [(0, 0, 0), (4, 0, 0), (0, 5, 0)],
      mNormals = Some [(0, 0, 1), (0, 1, 0), (1, 0, 0)],
      mTextureCoords0 = Some [(0, 0, 7), (1, 0, 8), (0, 1, 9)],
      mTangents = Some [(1, 0, 0), (0, 0, 1), (0, 1, 0)],
      mBitangents = Some [(0, 1, 0), (0, 1, 0), (0, 1, 0)], mFaces = [[0, 1, 2]],
      mMaterialIndex = 0\<rparr>"

definition veiledMaterial :: "int aiMaterial" where
  "veiledMaterial =
     \<lparr>texturesDiffuse = [''wood.png''], texturesSpecular = [''wood.png''],
      texturesNormals = [''wood.png''], matOpacity = Some 0,
      colorDiffuse4 = Some (1, 1, 1, 1), colorDiffuse3 = None, colorSpecular4 = None,
      colorSpecular3 = None\<rparr>"

definition veiledScene :: "int aiScene" where
  "veiledScene = sceneOf (aiNode unitMatrix [0] []) [shadedTriangle] [veiledMaterial]"

definition emptyState :: ImportState where
  "emptyState = \<lparr>storage = [], events = []\<rparr>"

section \<open>The flattening as the specification describes it\<close>

text \<open>
  The specification's words for the traversal: depth first; at each node the global
  transform is the parent's global transform times the node's local transform (the
  product of glm, the parent on the left); every
  mesh index the node owns is built with that transform; the children follow, with the
  node's global transform as their parent transform. \<open>flattenNode\<close> lists the pairs
  (transform, mesh index) in that order, \<open>runJobs\<close> builds the meshes of such a list.
\<close>
primrec flattenNode :: "'f Services \<Rightarrow> 'f mat4 \<Rightarrow> 'f aiNode \<Rightarrow> ('f mat4 \<times> nat) list"
and flattenChildren :: "'f Services \<Rightarrow> 'f mat4 \<Rightarrow> 'f aiNode list \<Rightarrow> ('f mat4 \<times> nat) list" where
  "flattenNode rd parentTransform (aiNode t ms cs) =
     map (Pair (matMul rd parentTransform (nodeTransform t))) ms
       @ flattenChildren rd (matMul rd parentTransform (nodeTransform t)) cs"
| "flattenChildren rd globalTransform [] = []"
| "flattenChildren rd globalTransform (c # cs) =
     flattenNode rd globalTransform c @ flattenChildren rd globalTransform cs"

primrec runJobs ::
  "'f::{zero,one} aiScene \<Rightarrow> 'f Services \<Rightarrow> bool \<Rightarrow> bool \<Rightarrow> string \<Rightarrow> ('f mat4 \<times> nat) list \<Rightarrow>
     'f ModelMesh list \<times> ImportState \<Rightarrow> ('f ModelMesh list \<times> ImportState) option" where
  "runJobs scene rd force notify modelDirectory [] acc = Some acc"
| "runJobs scene rd force notify modelDirectory (job # rest) acc =
     (case elemAt (mMeshes scene) (snd job) of
        None \<Rightarrow> None
      | Some mesh \<Rightarrow>
          (case processMesh scene rd modelDirectory mesh (fst job) (snd acc) of
             None \<Rightarrow> None
           | Some (loadedMesh, s') \<Rightarrow>
               runJobs scene rd force notify modelDirectory rest
                 (keepOrDrop force notify mesh loadedMesh (fst acc, s'))))"

text \<open>The mesh indices a node tree refers to.\<close>
primrec nodeMeshIndices :: "'f aiNode \<Rightarrow> nat list"
and childrenMeshIndices :: "'f aiNode list \<Rightarrow> nat list" where
  "nodeMeshIndices (aiNode t ms cs) = ms @ childrenMeshIndices cs"
| "childrenMeshIndices [] = []"
| "childrenMeshIndices (c # cs) = nodeMeshIndices c @ childrenMeshIndices cs"

text \<open>
  A scene as the importer hands it over when \<^verbatim>\<open>loadModel\<close> accepts it: complete, rooted,
  and every index in range.
\<close>
definition wellFormedScene :: "'f aiScene \<Rightarrow> bool" where
  "wellFormedScene scene =
     (\<not> mFlagsIncomplete scene
      \<and> (case mRootNode scene of
           None \<Rightarrow> False
         | Some rootNode \<Rightarrow> list_all (\<lambda>i. i < length (mMeshes scene)) (nodeMeshIndices rootNode))
      \<and> list_all (\<lambda>mesh. arraysComplete mesh \<and> mMaterialIndex mesh < length (mMaterials scene))
           (mMeshes scene))"

section \<open>Invariants of the import\<close>

text \<open>
  The descriptors of a texture array against a storage: a descriptor with \<open>hasTexture\<close>
  references an entry of the storage, one without references nothing, and no descriptor
  has both \<open>hasTexture\<close> and \<open>useForcedColor\<close>.
\<close>
definition descriptorOk :: "TextureEntry list \<Rightarrow> 'f MeshTexture \<Rightarrow> bool" where
  "descriptorOk st t =
     ((if hasTexture t then (case textureRef t of None \<Rightarrow> False | Some i \<Rightarrow> i < length st)
       else textureRef t = None)
      \<and> \<not> (hasTexture t \<and> useForcedColor t))"

text \<open>
  The storage of an import: names are C strings, pairwise different, and every texture
  carries the name of its entry.
\<close>
definition storageOk :: "TextureEntry list \<Rightarrow> bool" where
  "storageOk st =
     (distinct (map name st)
      \<and> list_all (\<lambda>e. c_str (name e) = name e \<and> texName (texture e) = name e) st)"

text \<open>The mesh that \<^verbatim>\<open>processMesh\<close> builds from the triangle when no texture is resolved.\<close>
definition triangleMesh :: "int ModelMesh" where
  "triangleMesh =
     \<lparr>vertices =
        [\<lparr>location = (0, 0, 0, 1), normal = (0, 0, 0), tex = (0, 0), tangent = (0, 0, 0)\<rparr>,
         \<lparr>location = (1, 0, 0, 1), normal = (0, 0, 0), tex = (0, 0), tangent = (0, 0, 0)\<rparr>,
         \<lparr>location = (0, 1, 0, 1), normal = (0, 0, 0), tex = (0, 0), tangent = (0, 0, 0)\<rparr>],
      indices = [0, 1, 2], textures = []\<rparr>"

text \<open>
  The scenario of the specification: an identity root with one child translated by
  \<open>(1, 0, 0)\<close>, each owning one mesh, both meshes with the texture \<^verbatim>\<open>wood.png\<close>; and the
  geometry the import makes of it.
\<close>
definition woodScene :: "int aiScene" where
  "woodScene =
     sceneOf (aiNode unitMatrix [0] [aiNode (translationMatrix 1 0 0) [1] []])
       [triangle, triangle\<lparr>mName := ''tri2''\<rparr>] [woodMaterial]"

definition woodDescriptor :: "int MeshTexture" where
  "woodDescriptor =
     \<lparr>textureRef = Some 0, type = ''texture_diffuse'', hasTexture = True, useForcedColor = False,
      color = (0, 0, 0)\<rparr>"

definition woodEntry :: TextureEntry where
  "woodEntry = \<lparr>name = ''wood.png'', texture = (texelOf [150, 100, 50, 255])\<lparr>texName := ''wood.png''\<rparr>\<rparr>"

definition woodGeometry :: "int ModelGeometry" where
  "woodGeometry =
     \<lparr>meshes =
        [triangleMesh\<lparr>textures := [woodDescriptor]\<rparr>,
         \<lparr>vertices =
            [\<lparr>location = (1, 0, 0, 1), normal = (0, 0, 0), tex = (0, 0), tangent = (0, 0, 0)\<rparr>,
             \<lparr>location = (2, 0, 0, 1), normal = (0, 0, 0), tex = (0, 0), tangent = (0, 0, 0)\<rparr>,
             \<lparr>location = (1, 1, 0, 1), normal = (0, 0, 0), tex = (0, 0), tangent = (0, 0, 0)\<rparr>],
          indices = [0, 1, 2], textures = [woodDescriptor]\<rparr>],
      textureStorage = [woodEntry]\<rparr>"

text \<open>
  A triangle mesh of the result with the texture \<^verbatim>\<open>wood.png\<close> and the given positions; a
  scene whose root is translated by \<open>(0, 2, 0)\<close> and whose child is scaled by 2; and the
  scenario of the specification with a vertex at \<open>x = 16777216\<close>, the first \<^verbatim>\<open>float\<close> whose
  successor is not a \<^verbatim>\<open>float\<close>.
\<close>
definition texturedTriangle :: "int vec4 list \<Rightarrow> int ModelMesh" where
  "texturedTriangle ps =
     \<lparr>vertices = map (\<lambda>p. \<lparr>location = p, normal = (0, 0, 0), tex = (0, 0),
                            tangent = (0, 0, 0)\<rparr>) ps,
      indices = [0, 1, 2], textures = [woodDescriptor]\<rparr>"

definition scalingMatrix :: "'f::{zero,one} \<Rightarrow> 'f aiMatrix4x4" where
  "scalingMatrix k = ((k, 0, 0, 0), (0, k, 0, 0), (0, 0, k, 0), (0, 0, 0, 1))"

definition nestedScene :: "int aiScene" where
  "nestedScene =
     sceneOf (aiNode (translationMatrix 0 2 0) [0] [aiNode (scalingMatrix 2) [1] []])
       [triangle, triangle\<lparr>mName := ''tri2''\<rparr>] [woodMaterial]"

definition nestedGeometry :: "int ModelGeometry" where
  "nestedGeometry =
     \<lparr>meshes = [texturedTriangle [(0, 2, 0, 1), (1, 2, 0, 1), (0, 3, 0, 1)],
                texturedTriangle [(0, 2, 0, 1), (2, 2, 0, 1), (0, 4, 0, 1)]],
      textureStorage = [woodEntry]\<rparr>"

definition farTriangle :: "int aiMesh" where
  "farTriangle = triangle\<lparr>mVertices := [(16777216, 0, 0), (1, 0, 0), (0, 1, 0)]\<rparr>"

definition farScene :: "int aiScene" where
  "farScene =
     sceneOf (aiNode unitMatrix [0] [aiNode (translationMatrix 1 0 0) [1] []])
       [farTriangle, farTriangle] [woodMaterial]"

definition farGeometry :: "int ModelGeometry" where
  "farGeometry =
     \<lparr>meshes = [texturedTriangle [(16777216, 0, 0, 1), (1, 0, 0, 1), (0, 1, 0, 1)],
                texturedTriangle [(16777216, 0, 0, 1), (2, 0, 0, 1), (1, 1, 0, 1)]],
      textureStorage = [woodEntry]\<rparr>"

text \<open>
  A texture name is storable when loading it yields a texture that is not fully
  transparent: only then does the resolver add an entry to the storage.
\<close>
definition storable :: "'f::zero aiScene \<Rightarrow> 'f Services \<Rightarrow> string \<Rightarrow> string \<Rightarrow> bool" where
  "storable scene rd modelDirectory n =
     (case snd (loadTexture scene rd modelDirectory n) of
        None \<Rightarrow> False
      | Some t \<Rightarrow> isOpague rd t)"

text \<open>
  A texture array resolves the name \<open>p\<close> in a storage when the storage has an entry of
  that name (the first one, compared as C strings) and the array has a descriptor with a
  texture that references this entry.
\<close>
definition resolvesTo :: "TextureEntry list \<Rightarrow> 'f MeshTexture list \<Rightarrow> string \<Rightarrow> bool" where
  "resolvesTo st ta p =
     (case findByName st p 0 of
        None \<Rightarrow> False
      | Some j \<Rightarrow> list_ex (\<lambda>d. hasTexture d \<and> textureRef d = Some j) ta)"

text \<open>
  The state of an import: the storage is well formed, no stored texture is fully
  transparent, the texture of every entry was loaded exactly once, and every other load
  was of a name that is not storable.
\<close>
fun eventOk ::
  "'f::zero aiScene \<Rightarrow> 'f Services \<Rightarrow> string \<Rightarrow> TextureEntry list \<Rightarrow> event \<Rightarrow> bool" where
  "eventOk scene rd modelDirectory st (LoadTextureCall n) =
     (n \<in> name ` set st \<or> \<not> storable scene rd modelDirectory n)"
| "eventOk scene rd modelDirectory st (LWARNING msg) = True"
| "eventOk scene rd modelDirectory st (LINFO msg) = True"

definition importInv :: "'f::zero aiScene \<Rightarrow> 'f Services \<Rightarrow> string \<Rightarrow> ImportState \<Rightarrow> bool" where
  "importInv scene rd modelDirectory s =
     (storageOk (storage s)
      \<and> list_all (\<lambda>e. isOpague rd (texture e)) (storage s)
      \<and> list_all (\<lambda>e. count_list (events s) (LoadTextureCall (name e)) = 1) (storage s)
      \<and> list_all (eventOk scene rd modelDirectory (storage s)) (events s))"

text \<open>
  What a channel of \<^verbatim>\<open>processMesh\<close> returns from a state of an import: a state of an
  import whose storage extends the old one, and a texture array that extends the old
  one and ends with the forced-color descriptor when the channel failed.
\<close>
definition resolverResult ::
  "'f::zero aiScene \<Rightarrow> 'f Services \<Rightarrow> string \<Rightarrow> 'f MeshTexture list \<Rightarrow> ImportState \<Rightarrow>
     (bool \<times> 'f MeshTexture list \<times> ImportState) option \<Rightarrow> bool" where
  "resolverResult scene rd modelDirectory ta s r =
     (case r of
        None \<Rightarrow> False
      | Some (ok, ta', s') \<Rightarrow>
          importInv scene rd modelDirectory s'
          \<and> list_all (descriptorOk (storage s')) ta'
          \<and> take (length (storage s)) (storage s') = storage s
          \<and> take (length ta) ta' = ta
          \<and> (ok \<or> (ta' \<noteq> [] \<and> last ta' = forcedColorTexture)))"

text \<open>The meshes built so far, with the state of the import.\<close>
definition accOk ::
  "'f::zero aiScene \<Rightarrow> 'f Services \<Rightarrow> string \<Rightarrow> 'f ModelMesh list \<times> ImportState \<Rightarrow> bool" where
  "accOk scene rd modelDirectory acc =
     (importInv scene rd modelDirectory (snd acc)
      \<and> list_all (\<lambda>m. list_all (descriptorOk (storage (snd acc))) (textures m)) (fst acc))"

text \<open>
  A material whose second diffuse texture cannot be decoded, with a third diffuse texture
  and a specular texture after it; a material whose specular texture has no decoder, with
  a normal texture after it; and what the import makes of two triangles with them.
\<close>
definition brokenMaterial :: "int aiMaterial" where
  "brokenMaterial =
     woodMaterial\<lparr>texturesDiffuse := [''wood.png'', ''broken.png'', ''later.png''],
       texturesSpecular := [''shiny.png'']\<rparr>"

definition undecodedMaterial :: "int aiMaterial" where
  "undecodedMaterial =
     woodMaterial\<lparr>texturesSpecular := [''model.xyz''], texturesNormals := [''later.png'']\<rparr>"

definition brokenScene :: "int aiScene" where
  "brokenScene =
     sceneOf (aiNode unitMatrix [0, 1] []) [triangle, triangle\<lparr>mMaterialIndex := 1\<rparr>]
       [brokenMaterial, undecodedMaterial]"

definition brokenGeometry :: "int ModelGeometry" where
  "brokenGeometry =
     \<lparr>meshes = [triangleMesh\<lparr>textures := [woodDescriptor, forcedColorTexture]\<rparr>,
                triangleMesh\<lparr>textures := [woodDescriptor, forcedColorTexture]\<rparr>],
      textureStorage = [woodEntry]\<rparr>"

definition brokenEvents :: "event list" where
  "brokenEvents =
     [LoadTextureCall ''wood.png'', LoadTextureCall ''broken.png'',
      LWARNING ''Failed to load texture: Replacing with flashy color.'']"

definition undecodedEvents :: "event list" where
  "undecodedEvents =
     brokenEvents @
     [LoadTextureCall ''model.xyz'',
      LWARNING ''Could not load unsupported texture: Replacing with flashy color.'']"

section \<open>The transparency scan as the specification describes it\<close>

text \<open>
  The texels in the order of the scan (\<open>j\<close> outside, \<open>k\<close> inside), and the part of a list
  up to and including its first element with a property: what an early exit reads.
\<close>
definition texelOrder :: "nat \<Rightarrow> nat \<Rightarrow> (nat \<times> nat) list" where
  "texelOrder nx ny = concat (map (\<lambda>j. map (Pair j) [0..<ny]) [0..<nx])"

definition upToFirst :: "('a \<Rightarrow> bool) \<Rightarrow> 'a list \<Rightarrow> 'a list" where
  "upToFirst P xs = takeWhile (\<lambda>x. \<not> P x) xs @ take 1 (dropWhile (\<lambda>x. \<not> P x) xs)"

text \<open>
  Two triangles with the fully transparent texture \<^verbatim>\<open>clear.png\<close>, and a texture of two by
  two texels of which only \<open>(0, 1)\<close> and \<open>(1, 1)\<close> are not transparent.
\<close>
definition clearMaterial :: "int aiMaterial" where
  "clearMaterial = woodMaterial\<lparr>texturesDiffuse := [''clear.png'']\<rparr>"

definition clearScene :: "int aiScene" where
  "clearScene = sceneOf (aiNode unitMatrix [0, 0] []) [triangle] [clearMaterial]"

definition clearGeometry :: "int ModelGeometry" where
  "clearGeometry =
     \<lparr>meshes = [triangleMesh\<lparr>textures := [forcedColorTexture]\<rparr>,
                triangleMesh\<lparr>textures := [forcedColorTexture]\<rparr>],
      textureStorage = []\<rparr>"

definition striped :: GLTexture where
  "striped =
     \<lparr>texName = ''striped.png'', dimensions = (2, 2, 1), format = RGBA, internalFormat = 0x8058,
      dataType = GL_UNSIGNED_BYTE,
      pixelData = [1, 1, 1, 0,  2, 2, 2, 0,  3, 3, 3, 255,  4, 4, 4, 255]\<rparr>"

section \<open>The cache codec\<close>

subsection \<open>Bytes\<close>

definition CurrentCacheVersion :: byte where
  "CurrentCacheVersion = 1"

text \<open>
  Four bytes in the byte order of the host; the model takes the least significant byte
  first. A \<^verbatim>\<open>float\<close> is copied as its four bytes.
\<close>
definition enc32 :: "32 word \<Rightarrow> byte list" where
  "enc32 w = [ucast w, ucast (drop_bit 8 w), ucast (drop_bit 16 w), ucast (drop_bit 24 w)]"

fun dec32 :: "byte list \<Rightarrow> 32 word" where
  "dec32 [a, b, c, d] =
     ucast a OR push_bit 8 (ucast b) OR push_bit 16 (ucast c) OR push_bit 24 (ucast d)"
| "dec32 bs = 0"

definition byte_of_char :: "char \<Rightarrow> byte" where
  "byte_of_char c = of_nat (of_char c)"

definition char_of_byte :: "byte \<Rightarrow> char" where
  "char_of_byte b = char_of (unat b)"

definition encBool :: "bool \<Rightarrow> byte list" where
  "encBool b = [if b then 1 else 0]"

text \<open>
  \<^verbatim>\<open>ModelMesh::Vertex\<close> as it lies in memory: its twelve floats in the order of the record.
\<close>
definition vertexWords :: "float32 Vertex \<Rightarrow> float32 list" where
  "vertexWords v =
     (case location v of (l0, l1, l2, l3) \<Rightarrow>
      case normal v of (n0, n1, n2) \<Rightarrow>
      case tex v of (t0, t1) \<Rightarrow>
      case tangent v of (g0, g1, g2) \<Rightarrow>
        [l0, l1, l2, l3, n0, n1, n2, t0, t1, g0, g1, g2])"

definition vertexBytes :: "float32 Vertex \<Rightarrow> byte list" where
  "vertexBytes v = concat (map enc32 (vertexWords v))"

definition sizeofVertex :: nat where
  "sizeofVertex = 48"

primrec words32 :: "nat \<Rightarrow> byte list \<Rightarrow> 32 word list" where
  "words32 0 bs = []"
| "words32 (Suc n) bs = dec32 (take 4 bs) # words32 n (drop 4 bs)"

definition vertexOfBytes :: "byte list \<Rightarrow> float32 Vertex" where
  "vertexOfBytes bs =
     (let ws = words32 12 bs in
      \<lparr>location = (ws ! 0, ws ! 1, ws ! 2, ws ! 3), normal = (ws ! 4, ws ! 5, ws ! 6),
       tex = (ws ! 7, ws ! 8), tangent = (ws ! 9, ws ! 10, ws ! 11)\<rparr>)"

subsection \<open>The format tables\<close>

definition stringToFormat :: "string \<Rightarrow> error + Format" where
  "stringToFormat fmt =
     (if fmt = ''Red '' then Inr Red
      else if fmt = ''RG  '' then Inr RG
      else if fmt = ''RGB '' then Inr RGB
      else if fmt = ''BGR '' then Inr BGR
      else if fmt = ''RGBA'' then Inr RGBA
      else if fmt = ''BGRA'' then Inr BGRA
      else if fmt = ''Dept'' then Inr DepthComponent
      else Inl MissingCaseException)"

text \<open>
  \<^verbatim>\<open>formatString.replace(0, subString.length(), subString)\<close> on a string of
  \<^verbatim>\<open>FORMAT_STRING_SIZE\<close> spaces.
\<close>
definition padded :: "string \<Rightarrow> string" where
  "padded subString = subString @ drop (length subString) (replicate 4 CHR '' '')"

fun formatToString :: "Format \<Rightarrow> error + string" where
  "formatToString Red = Inr (padded ''Red'')"
| "formatToString RG = Inr (padded ''RG'')"
| "formatToString RGB = Inr (padded ''RGB'')"
| "formatToString BGR = Inr (padded ''BGR'')"
| "formatToString RGBA = Inr (padded ''RGBA'')"
| "formatToString BGRA = Inr (padded ''BGRA'')"
| "formatToString DepthComponent = Inr (padded ''Dept'')"
| "formatToString OtherFormat = Inl MissingCaseException"

definition stringToDataType :: "string \<Rightarrow> error + GLDataType" where
  "stringToDataType dt =
     (if dt = ''byte'' then Inr GL_BYTE
      else if dt = ''ubyt'' then Inr GL_UNSIGNED_BYTE
      else if dt = ''shor'' then Inr GL_SHORT
      else if dt = ''usho'' then Inr GL_UNSIGNED_SHORT
      else if dt = ''int '' then Inr GL_INT
      else if dt = ''uint'' then Inr GL_UNSIGNED_INT
      else if dt = ''floa'' then Inr GL_FLOAT
      else if dt = ''doub'' then Inr GL_DOUBLE
      else Inl MissingCaseException)"

fun dataTypeToString :: "GLDataType \<Rightarrow> error + string" where
  "dataTypeToString GL_BYTE = Inr (padded ''byte'')"
| "dataTypeToString GL_UNSIGNED_BYTE = Inr (padded ''ubyt'')"
| "dataTypeToString GL_SHORT = Inr (padded ''shor'')"
| "dataTypeToString GL_UNSIGNED_SHORT = Inr (padded ''usho'')"
| "dataTypeToString GL_INT = Inr (padded ''int'')"
| "dataTypeToString GL_UNSIGNED_INT = Inr (padded ''uint'')"
| "dataTypeToString GL_FLOAT = Inr (padded ''floa'')"
| "dataTypeToString GL_DOUBLE = Inr (padded ''doub'')"
| "dataTypeToString GL_OTHER = Inl MissingCaseException"

text \<open>
  Modelled from the spec: \<^verbatim>\<open>opengl::Texture::expectedPixelDataSize\<close> is not under src/; the
  byte count written before the raw pixel buffer is the size of that buffer.
\<close>
definition expectedPixelDataSize :: "GLTexture \<Rightarrow> nat" where
  "expectedPixelDataSize t = length (pixelData t)"

subsection \<open>saveCachedFile\<close>

text \<open>
  The output stream: whether it is still good, what the file holds, and how many bytes
  the destination accepts (\<open>None\<close>: any number). A write that does not fit fails, and a
  stream that is not good ignores every further write.
\<close>
record ofstream =
  good :: bool
  content :: "byte list"
  capacity :: "nat option"

definition streamWrite :: "ofstream \<Rightarrow> byte list \<Rightarrow> ofstream" where
  "streamWrite f bs =
     (if good f \<and> (case capacity f of None \<Rightarrow> True
                    | Some n \<Rightarrow> length (content f) + length bs \<le> n)
      then f\<lparr>content := content f @ bs\<rparr>
      else f\<lparr>good := False\<rparr>)"

datatype destination = CannotOpen | Device "nat option"

text \<open>
  The loops of \<^verbatim>\<open>saveCachedFile\<close>: the writes of each element in turn, up to the first
  exception.
\<close>
primrec saveEach :: "('a \<Rightarrow> error + byte list list) \<Rightarrow> 'a list \<Rightarrow> error + byte list list" where
  "saveEach f [] = Inr []"
| "saveEach f (x # xs) =
     (case f x of
        Inl e \<Rightarrow> Inl e
      | Inr ws \<Rightarrow> (case saveEach f xs of Inl e \<Rightarrow> Inl e | Inr ws' \<Rightarrow> Inr (ws @ ws')))"

text \<open>
  The \<^verbatim>\<open>fileStream.write\<close> calls for one texture entry, in order, or the exception that
  ends them. A count is an \<^verbatim>\<open>int32_t\<close>: the size modulo \<open>2^32\<close>.
\<close>
definition saveTextureEntry :: "TextureEntry \<Rightarrow> error + byte list list" where
  "saveTextureEntry e =
     (let nameSize = (of_nat (length (name e)) :: int32) in
      if nameSize = 0 then
        Inl (ModelSaveException ''Error writing cache: No texture name was loaded'')
      else
        (case formatToString (format (texture e)) of
           Inl err \<Rightarrow> Inl err
         | Inr fmt \<Rightarrow>
             (case dataTypeToString (dataType (texture e)) of
                Inl err \<Rightarrow> Inl err
              | Inr dt \<Rightarrow>
                  (let pixelSize = (of_nat (expectedPixelDataSize (texture e)) :: int32) in
                   if pixelSize = 0 then
                     Inl (ModelSaveException ''Error writing cache: No texture size loaded'')
                   else
                     (case dimensions (texture e) of (x, y, z) \<Rightarrow>
                        Inr [enc32 nameSize,
                             map byte_of_char (take (nat (sint nameSize)) (name e)),
                             enc32 x, enc32 y, enc32 z,
                             map byte_of_char (take 4 fmt),
                             enc32 (internalFormat (texture e)),
                             map byte_of_char (take 4 dt),
                             enc32 pixelSize,
                             take (nat (sint pixelSize)) (pixelData (texture e))])))))"

text \<open>
  The writes for one texture descriptor of a mesh. A descriptor with \<open>hasTexture\<close> is
  written with the index of the first storage entry whose name equals the name of the
  descriptor's texture.
\<close>
definition saveMeshTexture ::
  "TextureEntry list \<Rightarrow> float32 MeshTexture \<Rightarrow> error + byte list list" where
  "saveMeshTexture st t =
     (let typeSize = (of_nat (length (type t)) :: int32) in
      if typeSize = 0 then
        Inl (ModelSaveException ''Error writing cache: No texture type loaded'')
      else
        (case color t of (r, g, b) \<Rightarrow>
           (let ws = [enc32 typeSize, map byte_of_char (take (nat (sint typeSize)) (type t)),
                      encBool (hasTexture t), encBool (useForcedColor t),
                      enc32 r, enc32 g, enc32 b] in
            if hasTexture t then
              (case textureName st t of
                 None \<Rightarrow> Inl UndefinedBehaviour
               | Some n \<Rightarrow>
                   (case findByName st n 0 of
                      Some te \<Rightarrow> Inr (ws @ [enc32 (of_nat te)])
                    | None \<Rightarrow>
                        Inl (ModelSaveException
                          ''Error writing cache: Could not find texture in textureStorage'')))
            else Inr ws)))"

definition saveMesh :: "TextureEntry list \<Rightarrow> float32 ModelMesh \<Rightarrow> error + byte list list" where
  "saveMesh st m =
     (let nVertices = (of_nat (length (vertices m)) :: int32) in
      if nVertices = 0 then
        Inl (ModelSaveException ''Error writing cache: No vertices were loaded'')
      else
        (let nIndices = (of_nat (length (indices m)) :: int32) in
         if nIndices = 0 then
           Inl (ModelSaveException ''Error writing cache: No indices were loaded'')
         else
           (let nTextures = (of_nat (length (textures m)) :: int32) in
            if nTextures = 0 then
              Inl (ModelSaveException ''Error writing cache: No textures were loaded'')
            else
              (case saveEach (saveMeshTexture st) (take (unat nTextures) (textures m)) of
                 Inl err \<Rightarrow> Inl err
               | Inr ws \<Rightarrow>
                   Inr ([enc32 nVertices] @ map vertexBytes (take (unat nVertices) (vertices m))
                        @ [enc32 nIndices] @ map enc32 (take (unat nIndices) (indices m))
                        @ [enc32 nTextures] @ ws)))))"

text \<open>All writes of \<^verbatim>\<open>saveCachedFile\<close> after the file was opened.\<close>
definition cacheWrites :: "float32 ModelGeometry \<Rightarrow> error + byte list list" where
  "cacheWrites model =
     (let nTextureEntries = (of_nat (length (textureStorage model)) :: int32) in
      case saveEach saveTextureEntry (take (unat nTextureEntries) (textureStorage model)) of
        Inl err \<Rightarrow> Inl err
      | Inr ws \<Rightarrow>
          (let nMeshes = (of_nat (length (meshes model)) :: int32) in
           if nMeshes = 0 then
             Inl (ModelSaveException ''Error writing cache: No meshes were loaded'')
           else
             (case saveEach (saveMesh (textureStorage model))
                     (take (unat nMeshes) (meshes model)) of
                Inl err \<Rightarrow> Inl err
              | Inr ws' \<Rightarrow>
                  Inr ([[CurrentCacheVersion], enc32 nTextureEntries] @ ws
                       @ [enc32 nMeshes] @ ws'))))"

text \<open>
  \<^verbatim>\<open>saveCachedFile\<close> on the file name and what opening the file gives: the exception, or
  \<^verbatim>\<open>fileStream.good()\<close> at the end together with what the file then holds.
\<close>
definition saveCachedFile ::
  "string \<Rightarrow> destination \<Rightarrow> float32 ModelGeometry \<Rightarrow> error + (bool \<times> byte list)" where
  "saveCachedFile cachedFile dest model =
     (case dest of
        CannotOpen \<Rightarrow>
          Inl (ModelSaveException (''Error opening file '' @ [CHR 0x27] @ cachedFile
            @ [CHR 0x27] @ '' for saving model cache''))
      | Device cap \<Rightarrow>
          (case cacheWrites model of
             Inl err \<Rightarrow> Inl err
           | Inr ws \<Rightarrow>
               (let f = foldl streamWrite \<lparr>good = True, content = [], capacity = cap\<rparr> ws
                in Inr (good f, content f))))"

subsection \<open>loadCachedFile\<close>

text \<open>
  The input stream is the bytes that are left. \<^verbatim>\<open>read\<close> of \<open>n\<close> bytes into a buffer that
  holds \<open>init\<close>: when fewer than \<open>n\<close> bytes are left they are all read, the rest of the
  buffer keeps its content, and nothing is left for any later read.
\<close>
type_synonym ifstream = "byte list"

definition streamRead :: "nat \<Rightarrow> byte list \<Rightarrow> ifstream \<Rightarrow> byte list \<times> ifstream" where
  "streamRead n init s =
     (if n \<le> length s then (take n s, drop n s) else (s @ drop (length s) init, []))"

text \<open>
  A read into a four-byte variable that holds zero. (\<^verbatim>\<open>rawInternalFormat\<close>, the vertex
  and the mesh index are not initialised in the source; when their read falls short the
  next count reads as zero or the next format tag is unknown, and nothing is returned.)
\<close>
definition readInt32 :: "ifstream \<Rightarrow> 32 word \<times> ifstream" where
  "readInt32 s = (case streamRead 4 (replicate 4 0) s of (bs, s') \<Rightarrow> (dec32 bs, s'))"

text \<open>
  A read into a \<^verbatim>\<open>bool\<close> that holds \<^verbatim>\<open>false\<close>: the bytes 0 and 1 are the two values, any
  other byte is no value of the type.
\<close>
definition readBool :: "ifstream \<Rightarrow> error + (bool \<times> ifstream)" where
  "readBool s =
     (case streamRead 1 [0] s of (bs, s') \<Rightarrow>
        if bs = [0] then Inr (False, s')
        else if bs = [1] then Inr (True, s')
        else Inl UndefinedBehaviour)"

definition readVertex :: "ifstream \<Rightarrow> float32 Vertex \<times> ifstream" where
  "readVertex s =
     (case streamRead sizeofVertex (replicate sizeofVertex 0) s of (bs, s') \<Rightarrow>
        (vertexOfBytes bs, s'))"

text \<open>\<^verbatim>\<open>reserve\<close>, \<^verbatim>\<open>resize\<close> and \<^verbatim>\<open>new[]\<close> with a negative count fail.\<close>
definition allocates :: "int32 \<Rightarrow> bool" where
  "allocates n = (0 \<le> sint n)"

text \<open>The loops of \<^verbatim>\<open>loadCachedFile\<close>: \<open>n\<close> elements in turn, up to the first exception.\<close>
primrec loadEach ::
  "(ifstream \<Rightarrow> error + ('a \<times> ifstream)) \<Rightarrow> nat \<Rightarrow> ifstream \<Rightarrow> error + ('a list \<times> ifstream)" where
  "loadEach f 0 s = Inr ([], s)"
| "loadEach f (Suc n) s =
     (case f s of
        Inl e \<Rightarrow> Inl e
      | Inr (x, s') \<Rightarrow>
          (case loadEach f n s' of
             Inl e \<Rightarrow> Inl e
           | Inr (xs, s'') \<Rightarrow> Inr (x # xs, s'')))"

text \<open>
  One texture entry. The texture is constructed from the dimensions, the formats and the
  data; \<^verbatim>\<open>loadCachedFile\<close> does not set its name, which is that of a fresh texture.
\<close>
definition loadTextureEntry :: "ifstream \<Rightarrow> error + (TextureEntry \<times> ifstream)" where
  "loadTextureEntry s0 =
     (case readInt32 s0 of (nameSize, s1) \<Rightarrow>
      if nameSize = 0 then Inl (ModelLoadException ''No texture name was loaded'')
      else if \<not> allocates nameSize then Inl AllocationFailure
      else
        (case streamRead (unat nameSize) (replicate (unat nameSize) 0) s1 of (nameBytes, s2) \<Rightarrow>
         case readInt32 s2 of (x, s3) \<Rightarrow>
         case readInt32 s3 of (y, s4) \<Rightarrow>
         case readInt32 s4 of (z, s5) \<Rightarrow>
         case streamRead 4 (replicate 4 0) s5 of (formatBytes, s6) \<Rightarrow>
         (case stringToFormat (map char_of_byte formatBytes) of
            Inl err \<Rightarrow> Inl err
          | Inr fmt \<Rightarrow>
              (case readInt32 s6 of (rawInternalFormat, s7) \<Rightarrow>
               case streamRead 4 (replicate 4 0) s7 of (dataTypeBytes, s8) \<Rightarrow>
               (case stringToDataType (map char_of_byte dataTypeBytes) of
                  Inl err \<Rightarrow> Inl err
                | Inr dt \<Rightarrow>
                    (case readInt32 s8 of (textureSize, s9) \<Rightarrow>
                     if textureSize = 0 then
                       Inl (ModelLoadException ''No texture size was loaded'')
                     else if \<not> allocates textureSize then Inl AllocationFailure
                     else
                       (case streamRead (unat textureSize) (replicate (unat textureSize) 0) s9
                        of (data, s10) \<Rightarrow>
                          Inr (\<lparr>name = map char_of_byte nameBytes,
                                texture = \<lparr>texName = [], dimensions = (x, y, z), format = fmt,
                                  internalFormat = rawInternalFormat, dataType = dt,
                                  pixelData = data\<rparr>\<rparr>, s10))))))))"

text \<open>
  One texture descriptor of a mesh; \<open>n\<close> is the size of the texture storage read before.
  The index is read into a variable that is not initialised: using it after a read that
  fell short is undefined.
\<close>
definition loadMeshTexture :: "nat \<Rightarrow> ifstream \<Rightarrow> error + (float32 MeshTexture \<times> ifstream)" where
  "loadMeshTexture n s0 =
     (case readInt32 s0 of (typeSize, s1) \<Rightarrow>
      if typeSize = 0 then Inl (ModelLoadException ''No texture type was loaded'')
      else if \<not> allocates typeSize then Inl AllocationFailure
      else
        (case streamRead (unat typeSize) (replicate (unat typeSize) 0) s1 of (typeBytes, s2) \<Rightarrow>
         (case readBool s2 of
            Inl err \<Rightarrow> Inl err
          | Inr (hasTex, s3) \<Rightarrow>
              (case readBool s3 of
                 Inl err \<Rightarrow> Inl err
               | Inr (forced, s4) \<Rightarrow>
                   (case readInt32 s4 of (r, s5) \<Rightarrow>
                    case readInt32 s5 of (g, s6) \<Rightarrow>
                    case readInt32 s6 of (b, s7) \<Rightarrow>
                      (let t = \<lparr>textureRef = None, type = map char_of_byte typeBytes,
                                 hasTexture = hasTex, useForcedColor = forced,
                                 color = (r, g, b)\<rparr> in
                       if hasTex then
                         (if length s7 < 4 then Inl UndefinedBehaviour
                          else
                            (case readInt32 s7 of (index, s8) \<Rightarrow>
                               if n \<le> unat index then
                                 Inl (ModelLoadException
                                   ''Texture index is outside of textureStorage'')
                               else Inr (t\<lparr>textureRef := Some (unat index)\<rparr>, s8)))
                       else Inr (t, s7)))))))"

definition loadMesh :: "nat \<Rightarrow> ifstream \<Rightarrow> error + (float32 ModelMesh \<times> ifstream)" where
  "loadMesh n s0 =
     (case readInt32 s0 of (nVertices, s1) \<Rightarrow>
      if nVertices = 0 then Inl (ModelLoadException ''No vertices were loaded'')
      else if \<not> allocates nVertices then Inl AllocationFailure
      else
        (case loadEach (\<lambda>s. Inr (readVertex s)) (unat nVertices) s1 of
           Inl err \<Rightarrow> Inl err
         | Inr (vertexArray, s2) \<Rightarrow>
             (case readInt32 s2 of (nIndices, s3) \<Rightarrow>
              if nIndices = 0 then Inl (ModelLoadException ''No indices were loaded'')
              else if \<not> allocates nIndices then Inl AllocationFailure
              else
                (case loadEach (\<lambda>s. Inr (readInt32 s)) (unat nIndices) s3 of
                   Inl err \<Rightarrow> Inl err
                 | Inr (indexArray, s4) \<Rightarrow>
                     (case readInt32 s4 of (nTextures, s5) \<Rightarrow>
                      if nTextures = 0 then Inl (ModelLoadException ''No textures were loaded'')
                      else if \<not> allocates nTextures then Inl AllocationFailure
                      else
                        (case loadEach (loadMeshTexture n) (unat nTextures) s5 of
                           Inl err \<Rightarrow> Inl err
                         | Inr (textureArray, s6) \<Rightarrow>
                             Inr (\<lparr>vertices = vertexArray, indices = indexArray,
                                   textures = textureArray\<rparr>, s6)))))))"

text \<open>
  \<^verbatim>\<open>loadCachedFile\<close> on the content of the file, \<open>None\<close> when the file cannot be opened.
  The \<^verbatim>\<open>LINFO\<close> message for an empty texture storage is left out.
\<close>
definition loadCachedFile :: "byte list option \<Rightarrow> error + float32 ModelGeometry" where
  "loadCachedFile file =
     (case file of
        None \<Rightarrow> Inl (ModelLoadException ''Could not open file'')
      | Some s0 \<Rightarrow>
          (case streamRead 1 [0] s0 of (version, s1) \<Rightarrow>
           if version \<noteq> [CurrentCacheVersion] then
             Inl (ModelLoadException
               ''The format of the cached file has changed: deleting old cache'')
           else
             (case readInt32 s1 of (nTextureEntries, s2) \<Rightarrow>
              if \<not> allocates nTextureEntries then Inl AllocationFailure
              else
                (case loadEach loadTextureEntry (unat nTextureEntries) s2 of
                   Inl err \<Rightarrow> Inl err
                 | Inr (textureStorageArray, s3) \<Rightarrow>
                     (case readInt32 s3 of (nMeshes, s4) \<Rightarrow>
                      if nMeshes = 0 then Inl (ModelLoadException ''No meshes were loaded'')
                      else if \<not> allocates nMeshes then Inl AllocationFailure
                      else
                        (case loadEach (loadMesh (length textureStorageArray)) (unat nMeshes) s4
                         of
                           Inl err \<Rightarrow> Inl err
                         | Inr (meshArray, s5) \<Rightarrow>
                             Inr \<lparr>meshes = meshArray,
                                  textureStorage = textureStorageArray\<rparr>))))))"

section \<open>The cache format of the specification\<close>

text \<open>
  The layout of section 4.5 of the specification, written from its words: a version
  byte, the texture entries and the meshes, each sequence behind its count, a descriptor
  with \<open>hasTexture\<close> followed by the index of the entry it references. Nothing is
  checked here: the layout of a geometry with an empty sequence has a zero count.
\<close>
fun formatCode :: "Format \<Rightarrow> string" where
  "formatCode Red = ''Red ''"
| "formatCode RG = ''RG  ''"
| "formatCode RGB = ''RGB ''"
| "formatCode BGR = ''BGR ''"
| "formatCode RGBA = ''RGBA''"
| "formatCode BGRA = ''BGRA''"
| "formatCode DepthComponent = ''Dept''"
| "formatCode OtherFormat = []"

fun dataTypeCode :: "GLDataType \<Rightarrow> string" where
  "dataTypeCode GL_BYTE = ''byte''"
| "dataTypeCode GL_UNSIGNED_BYTE = ''ubyt''"
| "dataTypeCode GL_SHORT = ''shor''"
| "dataTypeCode GL_UNSIGNED_SHORT = ''usho''"
| "dataTypeCode GL_INT = ''int ''"
| "dataTypeCode GL_UNSIGNED_INT = ''uint''"
| "dataTypeCode GL_FLOAT = ''floa''"
| "dataTypeCode GL_DOUBLE = ''doub''"
| "dataTypeCode GL_OTHER = []"

definition layEntry :: "TextureEntry \<Rightarrow> byte list" where
  "layEntry e =
     (case dimensions (texture e) of (x, y, z) \<Rightarrow>
        enc32 (of_nat (length (name e))) @ map byte_of_char (name e)
        @ enc32 x @ enc32 y @ enc32 z
        @ map byte_of_char (formatCode (format (texture e)))
        @ enc32 (internalFormat (texture e))
        @ map byte_of_char (dataTypeCode (dataType (texture e)))
        @ enc32 (of_nat (length (pixelData (texture e)))) @ pixelData (texture e))"

definition layTexture :: "float32 MeshTexture \<Rightarrow> byte list" where
  "layTexture t =
     (case color t of (r, g, b) \<Rightarrow>
        enc32 (of_nat (length (type t))) @ map byte_of_char (type t)
        @ [if hasTexture t then 1 else 0] @ [if useForcedColor t then 1 else 0]
        @ enc32 r @ enc32 g @ enc32 b
        @ (if hasTexture t
           then (case textureRef t of None \<Rightarrow> [] | Some i \<Rightarrow> enc32 (of_nat i))
           else []))"

definition layMesh :: "float32 ModelMesh \<Rightarrow> byte list" where
  "layMesh m =
     enc32 (of_nat (length (vertices m))) @ concat (map vertexBytes (vertices m))
     @ enc32 (of_nat (length (indices m))) @ concat (map enc32 (indices m))
     @ enc32 (of_nat (length (textures m))) @ concat (map layTexture (textures m))"

definition layout :: "byte \<Rightarrow> float32 ModelGeometry \<Rightarrow> byte list" where
  "layout version g =
     [version]
     @ enc32 (of_nat (length (textureStorage g))) @ concat (map layEntry (textureStorage g))
     @ enc32 (of_nat (length (meshes g))) @ concat (map layMesh (meshes g))"

text \<open>
  What can be laid out: every size is a non-negative \<^verbatim>\<open>int32\<close>, every format and data
  type has a code, and a descriptor with \<open>hasTexture\<close> has an index of 32 bits.
\<close>
definition int32Size :: "nat \<Rightarrow> bool" where
  "int32Size n = (n < 2 ^ 31)"

definition entryLayoutable :: "TextureEntry \<Rightarrow> bool" where
  "entryLayoutable e =
     (int32Size (length (name e)) \<and> int32Size (length (pixelData (texture e)))
      \<and> format (texture e) \<noteq> OtherFormat \<and> dataType (texture e) \<noteq> GL_OTHER)"

definition textureLayoutable :: "'f MeshTexture \<Rightarrow> bool" where
  "textureLayoutable t =
     (int32Size (length (type t))
      \<and> (if hasTexture t then (case textureRef t of None \<Rightarrow> False | Some i \<Rightarrow> i < 2 ^ 32)
         else True))"

definition meshLayoutable :: "'f ModelMesh \<Rightarrow> bool" where
  "meshLayoutable m =
     (int32Size (length (vertices m)) \<and> int32Size (length (indices m))
      \<and> int32Size (length (textures m)) \<and> list_all textureLayoutable (textures m))"

definition layoutable :: "'f ModelGeometry \<Rightarrow> bool" where
  "layoutable g =
     (int32Size (length (textureStorage g)) \<and> int32Size (length (meshes g))
      \<and> list_all entryLayoutable (textureStorage g) \<and> list_all meshLayoutable (meshes g))"

text \<open>
  The defects of the specification: a count of zero where the format requires an element
  (the number of texture entries may be zero), and a stored texture index outside the
  texture entries.
\<close>
definition entryZero :: "TextureEntry \<Rightarrow> bool" where
  "entryZero e = (name e = [] \<or> pixelData (texture e) = [])"

definition meshZero :: "'f ModelMesh \<Rightarrow> bool" where
  "meshZero m =
     (vertices m = [] \<or> indices m = [] \<or> textures m = []
      \<or> list_ex (\<lambda>t. type t = []) (textures m))"

definition zeroCount :: "'f ModelGeometry \<Rightarrow> bool" where
  "zeroCount g =
     (meshes g = [] \<or> list_ex entryZero (textureStorage g) \<or> list_ex meshZero (meshes g))"

definition indexOutside :: "nat \<Rightarrow> 'f MeshTexture \<Rightarrow> bool" where
  "indexOutside n t =
     (hasTexture t \<and> (case textureRef t of None \<Rightarrow> False | Some i \<Rightarrow> n \<le> i))"

definition indexOutOfRange :: "'f ModelGeometry \<Rightarrow> bool" where
  "indexOutOfRange g =
     list_ex (\<lambda>m. list_ex (indexOutside (length (textureStorage g))) (textures m)) (meshes g)"

text \<open>
  A descriptor, a mesh and a geometry with none of these defects, for a storage of \<open>n\<close>
  entries.
\<close>
definition textureOk :: "nat \<Rightarrow> 'f MeshTexture \<Rightarrow> bool" where
  "textureOk n t = (type t \<noteq> [] \<and> \<not> indexOutside n t)"

definition meshOk :: "nat \<Rightarrow> 'f ModelMesh \<Rightarrow> bool" where
  "meshOk n m =
     (vertices m \<noteq> [] \<and> indices m \<noteq> [] \<and> textures m \<noteq> []
      \<and> list_all (textureOk n) (textures m))"

definition geometryOk :: "'f ModelGeometry \<Rightarrow> bool" where
  "geometryOk g =
     (meshes g \<noteq> [] \<and> list_all (\<lambda>e. \<not> entryZero e) (textureStorage g)
      \<and> list_all (meshOk (length (textureStorage g))) (meshes g))"

text \<open>
  The reference of a descriptor for a storage of \<open>n\<close> entries: an entry of the storage
  when the descriptor has \<open>hasTexture\<close>, and none otherwise.
\<close>
definition referenceOk :: "nat \<Rightarrow> 'f MeshTexture \<Rightarrow> bool" where
  "referenceOk n t =
     (if hasTexture t then (case textureRef t of None \<Rightarrow> False | Some i \<Rightarrow> i < n)
      else textureRef t = None)"

text \<open>
  The error kinds of the specification. In the source a \<open>CacheReadError\<close> and a
  \<open>CacheCorruptionError\<close> are both a \<^verbatim>\<open>ModelLoadException\<close>, told apart by the message,
  and a \<open>CacheWriteError\<close> is a \<^verbatim>\<open>ModelSaveException\<close>.
\<close>
definition corruptionMessages :: "string list" where
  "corruptionMessages =
     [''The format of the cached file has changed: deleting old cache'',
      ''No texture name was loaded'', ''No texture size was loaded'',
      ''No meshes were loaded'', ''No vertices were loaded'', ''No indices were loaded'',
      ''No textures were loaded'', ''No texture type was loaded'',
      ''Texture index is outside of textureStorage'']"

definition CacheCorruptionError :: "error + 'a \<Rightarrow> bool" where
  "CacheCorruptionError r =
     (case r of
        Inl e \<Rightarrow> (case e of ModelLoadException m \<Rightarrow> m \<in> set corruptionMessages | _ \<Rightarrow> False)
      | Inr x \<Rightarrow> False)"

definition CacheReadError :: "error + 'a \<Rightarrow> bool" where
  "CacheReadError r = (r = Inl (ModelLoadException ''Could not open file''))"

definition CacheWriteError :: "error + 'a \<Rightarrow> bool" where
  "CacheWriteError r =
     (case r of
        Inl e \<Rightarrow> (case e of ModelSaveException m \<Rightarrow> True | _ \<Rightarrow> False)
      | Inr x \<Rightarrow> False)"

text \<open>
  What \<^verbatim>\<open>loadCachedFile\<close> makes of a geometry that was laid out: the textures have no
  name, and a descriptor without \<open>hasTexture\<close> has no reference.
\<close>
definition cachedEntry :: "TextureEntry \<Rightarrow> TextureEntry" where
  "cachedEntry e = e\<lparr>texture := (texture e)\<lparr>texName := []\<rparr>\<rparr>"

definition cachedTexture :: "'f MeshTexture \<Rightarrow> 'f MeshTexture" where
  "cachedTexture t = (if hasTexture t then t else t\<lparr>textureRef := None\<rparr>)"

definition cachedMesh :: "'f ModelMesh \<Rightarrow> 'f ModelMesh" where
  "cachedMesh m = m\<lparr>textures := map cachedTexture (textures m)\<rparr>"

definition cachedGeometry :: "'f ModelGeometry \<Rightarrow> 'f ModelGeometry" where
  "cachedGeometry g =
     \<lparr>meshes = map cachedMesh (meshes g), textureStorage = map cachedEntry (textureStorage g)\<rparr>"

text \<open>
  The index that \<^verbatim>\<open>saveCachedFile\<close> writes for a descriptor: that of the first entry whose
  name is, as a C string, the name of the descriptor's texture; and the geometry with
  every descriptor referencing the entry of that index.
\<close>
definition writtenIndex :: "TextureEntry list \<Rightarrow> 'f MeshTexture \<Rightarrow> nat option" where
  "writtenIndex st t =
     (case textureName st t of None \<Rightarrow> None | Some n \<Rightarrow> findByName st n 0)"

definition resolvedTexture :: "TextureEntry list \<Rightarrow> 'f MeshTexture \<Rightarrow> 'f MeshTexture" where
  "resolvedTexture st t = (if hasTexture t then t\<lparr>textureRef := writtenIndex st t\<rparr> else t)"

definition resolvedMesh :: "TextureEntry list \<Rightarrow> 'f ModelMesh \<Rightarrow> 'f ModelMesh" where
  "resolvedMesh st m = m\<lparr>textures := map (resolvedTexture st) (textures m)\<rparr>"

definition resolvedGeometry :: "'f ModelGeometry \<Rightarrow> 'f ModelGeometry" where
  "resolvedGeometry g = g\<lparr>meshes := map (resolvedMesh (textureStorage g)) (meshes g)\<rparr>"

text \<open>
  The scan by name finds an entry for every descriptor with \<open>hasTexture\<close> (\<open>namesFound\<close>),
  and it is the entry that the descriptor references (\<open>namesResolve\<close>).
\<close>
definition textureFound :: "TextureEntry list \<Rightarrow> 'f MeshTexture \<Rightarrow> bool" where
  "textureFound st t = (if hasTexture t then writtenIndex st t \<noteq> None else True)"

definition meshFound :: "TextureEntry list \<Rightarrow> 'f ModelMesh \<Rightarrow> bool" where
  "meshFound st m = list_all (textureFound st) (textures m)"

definition namesFound :: "'f ModelGeometry \<Rightarrow> bool" where
  "namesFound g = list_all (meshFound (textureStorage g)) (meshes g)"

definition textureResolves :: "TextureEntry list \<Rightarrow> 'f MeshTexture \<Rightarrow> bool" where
  "textureResolves st t =
     (if hasTexture t then textureRef t \<noteq> None \<and> writtenIndex st t = textureRef t else True)"

definition namesResolve :: "'f ModelGeometry \<Rightarrow> bool" where
  "namesResolve g =
     list_all (\<lambda>m. list_all (textureResolves (textureStorage g)) (textures m)) (meshes g)"

text \<open>
  What \<^verbatim>\<open>saveCachedFile\<close> can read: every size is a non-negative \<^verbatim>\<open>int32\<close>, every format
  and data type is one of the tables, and a descriptor with \<open>hasTexture\<close> points to a
  texture of the storage.
\<close>
definition textureEncodable :: "TextureEntry list \<Rightarrow> 'f MeshTexture \<Rightarrow> bool" where
  "textureEncodable st t =
     (int32Size (length (type t))
      \<and> (if hasTexture t then textureName st t \<noteq> None else True))"

definition meshEncodable :: "TextureEntry list \<Rightarrow> 'f ModelMesh \<Rightarrow> bool" where
  "meshEncodable st m =
     (int32Size (length (vertices m)) \<and> int32Size (length (indices m))
      \<and> int32Size (length (textures m)) \<and> list_all (textureEncodable st) (textures m))"

definition encodable :: "'f ModelGeometry \<Rightarrow> bool" where
  "encodable g =
     (int32Size (length (textureStorage g)) \<and> int32Size (length (meshes g))
      \<and> list_all entryLayoutable (textureStorage g)
      \<and> list_all (meshEncodable (textureStorage g)) (meshes g))"

definition notFound :: error where
  "notFound =
     ModelSaveException ''Error writing cache: Could not find texture in textureStorage''"

section \<open>Examples of caches\<close>

text \<open>
  A geometry for the cache: one texture entry and two meshes of one triangle, the first
  with a descriptor that references the entry, the second with a forced color. The floats
  are bit patterns (\<open>0x3F800000\<close> is 1).
\<close>
definition cacheVertices :: "float32 Vertex list" where
  "cacheVertices =
     [\<lparr>location = (0, 0, 0, 0x3F800000), normal = (0, 0, 0x3F800000), tex = (0, 0),
        tangent = (0x3F800000, 0, 0)\<rparr>,
      \<lparr>location = (0x3F800000, 0, 0, 0x3F800000), normal = (0, 0, 0x3F800000),
        tex = (0x3F800000, 0), tangent = (0x3F800000, 0, 0)\<rparr>,
      \<lparr>location = (0, 0x3F800000, 0, 0x3F800000), normal = (0, 0, 0x3F800000),
        tex = (0, 0x3F800000), tangent = (0x3F800000, 0, 0)\<rparr>]"

definition cacheEntry :: "string \<Rightarrow> string \<Rightarrow> byte list \<Rightarrow> TextureEntry" where
  "cacheEntry n tn bs = \<lparr>name = n, texture = (texelOf bs)\<lparr>texName := tn\<rparr>\<rparr>"

definition texturedBy :: "nat \<Rightarrow> float32 MeshTexture" where
  "texturedBy i =
     \<lparr>textureRef = Some i, type = ''texture_diffuse'', hasTexture = True,
      useForcedColor = False, color = (0, 0, 0)\<rparr>"

definition forcedColor :: "float32 MeshTexture" where
  "forcedColor =
     \<lparr>textureRef = None, type = ''color_diffuse'', hasTexture = False, useForcedColor = True,
      color = (0x3F800000, 0, 0x3F800000)\<rparr>"

definition cacheMesh :: "float32 MeshTexture list \<Rightarrow> float32 ModelMesh" where
  "cacheMesh ts = \<lparr>vertices = cacheVertices, indices = [0, 1, 2], textures = ts\<rparr>"

definition cacheGeometry :: "float32 ModelGeometry" where
  "cacheGeometry =
     \<lparr>meshes = [cacheMesh [texturedBy 0], cacheMesh [forcedColor]],
      textureStorage = [cacheEntry ''wood.png'' ''wood.png'' [150, 100, 50, 255]]\<rparr>"

text \<open>
  Variants of the geometry: without texture entries, without meshes, with a descriptor
  whose index is outside the storage, and with a descriptor that has both flags set.
\<close>
definition colorGeometry :: "float32 ModelGeometry" where
  "colorGeometry = \<lparr>meshes = [cacheMesh [forcedColor]], textureStorage = []\<rparr>"

definition emptyGeometry :: "float32 ModelGeometry" where
  "emptyGeometry = cacheGeometry\<lparr>meshes := []\<rparr>"

definition danglingGeometry :: "float32 ModelGeometry" where
  "danglingGeometry = cacheGeometry\<lparr>meshes := [cacheMesh [texturedBy 1]]\<rparr>"

definition bothFlagsGeometry :: "float32 ModelGeometry" where
  "bothFlagsGeometry =
     \<lparr>meshes = [cacheMesh [(texturedBy 0)\<lparr>useForcedColor := True\<rparr>]],
      textureStorage = [cacheEntry ''wood.png'' [] [150, 100, 50, 255]]\<rparr>"

text \<open>
  Two texture entries whose textures carry each other's name, and a mesh that references
  the second entry.
\<close>
definition swappedGeometry :: "float32 ModelGeometry" where
  "swappedGeometry =
     \<lparr>meshes = [cacheMesh [texturedBy 1]],
      textureStorage =
        [cacheEntry ''a.png'' ''b.png'' [150, 100, 50, 255],
         cacheEntry ''b.png'' ''a.png'' [10, 20, 30, 255]]\<rparr>"

section \<open>Properties\<close>

subsection \<open>Vertex and index buffers\<close>

lemma those_map_Some:
  "(\<forall>x \<in> set xs. f x \<noteq> None) \<Longrightarrow> those (map f xs) = Some (map (\<lambda>x. the (f x)) xs)"
  by (induction xs) auto

lemma attributeAt_complete:
  "(case arr of None \<Rightarrow> True | Some xs \<Rightarrow> n \<le> length xs) \<Longrightarrow> (has \<Longrightarrow> arr \<noteq> None) \<Longrightarrow> i < n \<Longrightarrow>
     attributeAt has arr i \<noteq> None"
  by (cases arr; cases has) (simp_all add: attributeAt_def elemAt_def del: not_None_eq)

lemma float32Round_exact [simp]: "\<bar>v\<bar> < 16777216 \<Longrightarrow> float32Round v = v"
proof -
  assume a: "\<bar>v\<bar> < 16777216"
  then have "ulp24 (nat \<bar>v\<bar>) = 1" by (simp add: ulp24.simps)
  then show ?thesis by (simp add: float32Round_def Let_def mult_sgn_abs)
qed

lemma exampleServices_glm:
  "matMul exampleServices = glmMatMul" "matVec exampleServices = glmMatVec"
  "defaultMat4x4 exampleServices = identity"
  by (simp_all add: exampleServices_def)

lemmas glm_eval =
  exampleServices_glm glmMatVec_def glmMatMul_def vadd_def vscale_def fadd_def fmul_def
  identity_def

lemma attributeAt_present:
  "attributeAt True (Some xs) i = elemAt xs i" "attributeAt False arr i = Some (0, 0, 0)"
  by (simp_all add: attributeAt_def)

lemma vertexAt_complete:
  assumes "arraysComplete mesh" and "i < length (mVertices mesh)"
  shows "vertexAt rd transform mesh i = Some
           \<lparr>location = (case mVertices mesh ! i of (x, y, z) \<Rightarrow> matVec rd transform (x, y, z, 1)),
            normal = (case mNormals mesh of None \<Rightarrow> (0, 0, 0) | Some ns \<Rightarrow> ns ! i),
            tex = (case mTextureCoords0 mesh of None \<Rightarrow> (0, 0)
                   | Some cs \<Rightarrow> (case cs ! i of (u, v, w) \<Rightarrow> (u, v))),
            tangent = (case mTangents mesh of None \<Rightarrow> (0, 0, 0)
                       | Some ts \<Rightarrow> if mBitangents mesh = None then (0, 0, 0) else ts ! i)\<rparr>"
proof -
  from assms(2) have v: "mVertices mesh \<noteq> []" by auto
  from assms have n: "attributeAt (HasNormals mesh) (mNormals mesh) i
      = Some (case mNormals mesh of None \<Rightarrow> (0, 0, 0) | Some ns \<Rightarrow> ns ! i)"
    by (cases "mNormals mesh")
       (auto simp: arraysComplete_def HasNormals_def attributeAt_def elemAt_def)
  from assms have t: "attributeAt (HasTextureCoords0 mesh) (mTextureCoords0 mesh) i
      = Some (case mTextureCoords0 mesh of None \<Rightarrow> (0, 0, 0) | Some cs \<Rightarrow> cs ! i)"
    by (cases "mTextureCoords0 mesh")
       (auto simp: arraysComplete_def HasTextureCoords0_def attributeAt_def elemAt_def)
  from assms have g: "attributeAt (HasTangentsAndBitangents mesh) (mTangents mesh) i
      = Some (case mTangents mesh of None \<Rightarrow> (0, 0, 0)
              | Some ts \<Rightarrow> if mBitangents mesh = None then (0, 0, 0) else ts ! i)"
    by (cases "mTangents mesh")
       (auto simp: arraysComplete_def HasTangentsAndBitangents_def attributeAt_def elemAt_def)
  from assms(2) show ?thesis
    unfolding vertexAt_def n t g
    by (cases "mTextureCoords0 mesh")
       (auto simp: elemAt_def transformPosition_def split: prod.splits)
qed

lemma buildVertices_complete:
  assumes "arraysComplete mesh"
  shows "buildVertices rd transform mesh = Some (map (\<lambda>i.
           \<lparr>location = (case mVertices mesh ! i of (x, y, z) \<Rightarrow> matVec rd transform (x, y, z, 1)),
            normal = (case mNormals mesh of None \<Rightarrow> (0, 0, 0) | Some ns \<Rightarrow> ns ! i),
            tex = (case mTextureCoords0 mesh of None \<Rightarrow> (0, 0)
                   | Some cs \<Rightarrow> (case cs ! i of (u, v, w) \<Rightarrow> (u, v))),
            tangent = (case mTangents mesh of None \<Rightarrow> (0, 0, 0)
                       | Some ts \<Rightarrow> if mBitangents mesh = None then (0, 0, 0) else ts ! i)\<rparr>)
           [0..<length (mVertices mesh)])"
proof -
  let ?n = "length (mVertices mesh)"
  let ?f = "vertexAt rd transform mesh"
  have "\<forall>i \<in> set [0..<?n]. ?f i \<noteq> None"
    using vertexAt_complete[OF assms, of _ rd transform] by simp
  then have "buildVertices rd transform mesh = Some (map (\<lambda>i. the (?f i)) [0..<?n])"
    unfolding buildVertices_def by (rule those_map_Some)
  moreover have "map (\<lambda>i. the (?f i)) [0..<?n] = map (\<lambda>i.
           \<lparr>location = (case mVertices mesh ! i of (x, y, z) \<Rightarrow> matVec rd transform (x, y, z, 1)),
            normal = (case mNormals mesh of None \<Rightarrow> (0, 0, 0) | Some ns \<Rightarrow> ns ! i),
            tex = (case mTextureCoords0 mesh of None \<Rightarrow> (0, 0)
                   | Some cs \<Rightarrow> (case cs ! i of (u, v, w) \<Rightarrow> (u, v))),
            tangent = (case mTangents mesh of None \<Rightarrow> (0, 0, 0)
                       | Some ts \<Rightarrow> if mBitangents mesh = None then (0, 0, 0) else ts ! i)\<rparr>)
           [0..<?n]"
    using vertexAt_complete[OF assms, of _ rd transform] by simp
  ultimately show ?thesis by simp
qed

lemma buildVertices_total:
  assumes "arraysComplete mesh"
  shows "\<exists>vs. buildVertices rd transform mesh = Some vs"
  using buildVertices_complete[OF assms] by blast

subsection \<open>Fully transparent materials\<close>

text \<open>
  C6. A mesh whose material has an opacity attribute equal to zero is returned by
  \<^verbatim>\<open>processMesh\<close> at once: the texture list is empty whatever textures and colors the
  material has, and the storage and the log are untouched (no channel was resolved). The
  vertex buffer is populated: vertex \<open>i\<close> has the position \<^verbatim>\<open>transform * (x, y, z, 1)\<close>, the
  normal, the first two texture coordinates and the tangent of source vertex \<open>i\<close>, each
  zero when the mesh has no such array (the tangent also when it has no bitangents). The
  index buffer is the indices of the faces in order.
\<close>
theorem processMesh_opacity_zero:
  assumes "arraysComplete mesh"
    and "elemAt (mMaterials scene) (mMaterialIndex mesh) = Some material"
    and "matOpacity material = Some 0"
  shows "processMesh scene rd modelDirectory mesh transform s =
           Some (\<lparr>vertices = map (\<lambda>i.
                    \<lparr>location = (case mVertices mesh ! i of
                                   (x, y, z) \<Rightarrow> matVec rd transform (x, y, z, 1)),
                     normal = (case mNormals mesh of None \<Rightarrow> (0, 0, 0) | Some ns \<Rightarrow> ns ! i),
                     tex = (case mTextureCoords0 mesh of None \<Rightarrow> (0, 0)
                            | Some cs \<Rightarrow> (case cs ! i of (u, v, w) \<Rightarrow> (u, v))),
                     tangent = (case mTangents mesh of None \<Rightarrow> (0, 0, 0)
                                | Some ts \<Rightarrow>
                                    if mBitangents mesh = None then (0, 0, 0) else ts ! i)\<rparr>)
                    [0..<length (mVertices mesh)],
                  indices = concat (mFaces mesh), textures = []\<rparr>, s)"
  using buildVertices_complete[OF assms(1), of rd transform] assms(2,3)
  by (simp add: processMesh_def resolveMaterial_def buildIndices_def)

theorem processMesh_opacity_zero_witness:
  "arraysComplete shadedTriangle
   \<and> elemAt (mMaterials veiledScene) (mMaterialIndex shadedTriangle) = Some veiledMaterial
   \<and> matOpacity veiledMaterial = Some 0
   \<and> texturesDiffuse veiledMaterial = [''wood.png'']
   \<and> texturesSpecular veiledMaterial = [''wood.png'']
   \<and> texturesNormals veiledMaterial = [''wood.png'']
   \<and> processMesh veiledScene exampleServices ''models'' shadedTriangle
         (nodeTransform (translationMatrix 1 2 3)) emptyState =
       Some (\<lparr>vertices =
               [\<lparr>location = (1, 2, 3, 1), normal = (0, 0, 1), tex = (0, 0), tangent = (1, 0, 0)\<rparr>,
                \<lparr>location = (5, 2, 3, 1), normal = (0, 1, 0), tex = (1, 0), tangent = (0, 0, 1)\<rparr>,
                \<lparr>location = (1, 7, 3, 1), normal = (1, 0, 0), tex = (0, 1), tangent = (0, 1, 0)\<rparr>],
              indices = [0, 1, 2], textures = []\<rparr>, emptyState)"
proof -
  have a: "arraysComplete shadedTriangle"
    by (simp add: arraysComplete_def shadedTriangle_def)
  have b: "elemAt (mMaterials veiledScene) (mMaterialIndex shadedTriangle) = Some veiledMaterial"
    by (simp add: veiledScene_def sceneOf_def shadedTriangle_def elemAt_def)
  have c: "matOpacity veiledMaterial = Some 0"
    by (simp add: veiledMaterial_def)
  have d: "texturesDiffuse veiledMaterial = [''wood.png'']"
    "texturesSpecular veiledMaterial = [''wood.png'']"
    "texturesNormals veiledMaterial = [''wood.png'']"
    by (simp_all add: veiledMaterial_def)
  have three: "[0..<3] = [0, Suc 0, 2]"
    by (simp add: upt_rec)
  from processMesh_opacity_zero[OF a b c, of exampleServices "''models''"
      "nodeTransform (translationMatrix 1 2 3)" emptyState]
  have "processMesh veiledScene exampleServices ''models'' shadedTriangle
         (nodeTransform (translationMatrix 1 2 3)) emptyState =
       Some (\<lparr>vertices =
               [\<lparr>location = (1, 2, 3, 1), normal = (0, 0, 1), tex = (0, 0), tangent = (1, 0, 0)\<rparr>,
                \<lparr>location = (5, 2, 3, 1), normal = (0, 1, 0), tex = (1, 0), tangent = (0, 0, 1)\<rparr>,
                \<lparr>location = (1, 7, 3, 1), normal = (1, 0, 0), tex = (0, 1), tangent = (0, 1, 0)\<rparr>],
              indices = [0, 1, 2], textures = []\<rparr>, emptyState)"
    by (simp add: shadedTriangle_def three glm_eval exampleServices_def nodeTransform_def
          translationMatrix_def)
  with a b c d show ?thesis by blast
qed

subsection \<open>Evaluation of the definitions on concrete inputs\<close>

lemmas mesh_eval =
  processMesh_def buildVertices_def buildIndices_def vertexAt_def attributeAt_def elemAt_def
  HasNormals_def HasTextureCoords0_def HasTangentsAndBitangents_def transformPosition_def
  glmMatVec_def glmMatMul_def vadd_def vscale_def fadd_def fmul_def identity_def nodeTransform_def
  resolveMaterial_def
  resolveDiffuse_def resolveSpecular_def resolveNormal_def specularColor3_def colorTexture_def
  keepOrDrop_def loadModel_def

lemmas texture_eval =
  loadTexture_def loadResult_def isOpague_def scanTexture_def c_str_def textureName_def
  forcedColorTexture_def defaultTexture_def

lemmas example_eval =
  triangle_def woodMaterial_def transparentMaterial_def sceneOf_def unitMatrix_def
  transparentScene_def texelOf_def exampleServices_def emptyState_def

subsection \<open>The traversal\<close>

lemma runJobs_append:
  "runJobs scene rd force notify dir (xs @ ys) acc =
     (case runJobs scene rd force notify dir xs acc of
        None \<Rightarrow> None
      | Some acc' \<Rightarrow> runJobs scene rd force notify dir ys acc')"
  by (induction xs arbitrary: acc) (auto split: option.splits)

lemma processNodeMeshes_runJobs:
  "processNodeMeshes scene rd force notify dir ms T acc =
     runJobs scene rd force notify dir (map (Pair T) ms) acc"
  by (induction ms arbitrary: acc) (auto split: option.splits)

lemma processChildren_runJobs_aux:
  assumes "\<And>c parent acc. c \<in> set cs \<Longrightarrow>
      processNode scene rd force notify dir c parent acc =
        runJobs scene rd force notify dir (flattenNode rd parent c) acc"
  shows "processChildren scene rd force notify dir cs T acc =
     runJobs scene rd force notify dir (flattenChildren rd T cs) acc"
  using assms by (induction cs arbitrary: acc) (auto simp: runJobs_append split: option.splits)

lemma processNode_runJobs:
  "processNode scene rd force notify dir node parent acc =
     runJobs scene rd force notify dir (flattenNode rd parent node) acc"
proof (induction node arbitrary: parent acc)
  case (aiNode t ms cs)
  show ?case
    by (simp add: runJobs_append processNodeMeshes_runJobs
          processChildren_runJobs_aux[OF aiNode.IH] split: option.splits)
qed

lemma runJobs_invariant:
  assumes step: "\<And>T i mesh ms s m s'. I (ms, s) \<Longrightarrow> elemAt (mMeshes scene) i = Some mesh \<Longrightarrow>
      processMesh scene rd dir mesh T s = Some (m, s') \<Longrightarrow>
      I (keepOrDrop force notify mesh m (ms, s'))"
    and "I acc" and "runJobs scene rd force notify dir jobs acc = Some acc'"
  shows "I acc'"
  using assms(2,3)
proof (induction jobs arbitrary: acc)
  case Nil
  then show ?case by simp
next
  case (Cons job rest)
  from Cons.prems(2) obtain mesh m s' where
    a: "elemAt (mMeshes scene) (snd job) = Some mesh"
    and b: "processMesh scene rd dir mesh (fst job) (snd acc) = Some (m, s')"
    and c: "runJobs scene rd force notify dir rest (keepOrDrop force notify mesh m (fst acc, s'))
              = Some acc'"
    by (auto split: option.splits)
  have "I (fst acc, snd acc)" using Cons.prems(1) by simp
  from step[OF this a b] Cons.IH c show ?case by blast
qed

lemma keepOrDrop_nonempty:
  "\<forall>m \<in> set ms. textures m \<noteq> [] \<Longrightarrow>
     \<forall>m \<in> set (fst (keepOrDrop force notify mesh loadedMesh (ms, s))). textures m \<noteq> []"
  by (auto simp: keepOrDrop_def)

lemma loadModel_nonempty:
  fixes rd :: "'f::{zero,one} Services"
  assumes "loadModel rd importResult err dir force notify = Inr (g, evs)"
  shows "\<forall>m \<in> set (meshes g). textures m \<noteq> []"
proof -
  from assms obtain scene rootNode s where
    r: "processNode scene rd force notify dir rootNode (defaultMat4x4 rd) ([], \<lparr>storage = [], events = []\<rparr>)
          = Some (meshes g, s)"
    by (auto simp: loadModel_def split: option.splits if_splits)
  have "\<forall>m \<in> set (fst (meshes g, s)). textures m \<noteq> []"
  proof (rule runJobs_invariant[where I = "\<lambda>acc. \<forall>m \<in> set (fst acc). textures m \<noteq> []",
          OF _ _ r[unfolded processNode_runJobs]])
    fix T :: "'f mat4" and i and mesh :: "'f aiMesh" and ms :: "'f ModelMesh list"
      and s s' :: ImportState and m :: "'f ModelMesh"
    assume "\<forall>m \<in> set (fst (ms, s)). textures m \<noteq> []"
    then show "\<forall>m \<in> set (fst (keepOrDrop force notify mesh m (ms, s'))). textures m \<noteq> []"
      using keepOrDrop_nonempty[of ms force notify mesh m s'] by simp
  qed simp
  then show ?thesis by simp
qed


subsection \<open>The invisible-mesh policy\<close>

text \<open>
  C8. When \<^verbatim>\<open>processMesh\<close> returns a mesh with an empty texture list, \<^verbatim>\<open>processNode\<close>
  appends exactly one descriptor with \<open>useForcedColor\<close> and the type \<^verbatim>\<open>color_diffuse\<close> and
  keeps the mesh if \<open>forceRenderInvisible\<close> is set; otherwise it drops the mesh and logs
  the notice with the name of the source mesh exactly when \<open>notifyInvisibleDropped\<close> is
  set. Every mesh of the geometry that \<^verbatim>\<open>loadModel\<close> returns has a non-empty texture list.
\<close>
theorem invisible_mesh_policy:
  fixes rd :: "'f::{zero,one} Services"
  shows "(elemAt (mMeshes scene) i = Some mesh
          \<and> processMesh scene rd dir mesh T s = Some (loadedMesh, s')
          \<and> textures loadedMesh = [] \<longrightarrow>
            processNodeMeshes scene rd force notify dir (i # rest) T (ms, s) =
              processNodeMeshes scene rd force notify dir rest T
                (if force then (ms @ [loadedMesh\<lparr>textures := [forcedColorTexture]\<rparr>], s')
                 else if notify then
                   (ms, s'\<lparr>events := events s' @
                      [LINFO (''Invisible mesh '' @ [CHR 0x27] @ c_str (mName mesh) @ [CHR 0x27]
                         @ '' dropped'')]\<rparr>)
                 else (ms, s')))
       \<and> useForcedColor (forcedColorTexture :: 'f MeshTexture)
       \<and> \<not> hasTexture (forcedColorTexture :: 'f MeshTexture)
       \<and> type (forcedColorTexture :: 'f MeshTexture) = ''color_diffuse''
       \<and> (loadModel rd importResult err dir force notify = Inr (g, evs) \<longrightarrow>
            (\<forall>m \<in> set (meshes g). textures m \<noteq> []))"
  using loadModel_nonempty[of rd importResult err dir force notify g evs]
  by (auto simp: keepOrDrop_def forcedColorTexture_def defaultTexture_def)

lemma processMesh_triangle:
  "processMesh transparentScene exampleServices ''models'' triangle identity emptyState
     = Some (triangleMesh, emptyState)"
  by (simp add: mesh_eval example_eval triangleMesh_def)

theorem invisible_mesh_policy_witness:
  "elemAt (mMeshes transparentScene) 0 = Some triangle
   \<and> processMesh transparentScene exampleServices ''models'' triangle identity emptyState
       = Some (triangleMesh, emptyState)
   \<and> textures triangleMesh = []
   \<and> processNodeMeshes transparentScene exampleServices True False ''models'' [0] identity
        ([], emptyState)
       = Some ([triangleMesh\<lparr>textures := [forcedColorTexture]\<rparr>], emptyState)
   \<and> processNodeMeshes transparentScene exampleServices False True ''models'' [0] identity
        ([], emptyState)
       = Some ([], emptyState\<lparr>events := [LINFO ''Invisible mesh 'tri' dropped'']\<rparr>)
   \<and> processNodeMeshes transparentScene exampleServices False False ''models'' [0] identity
        ([], emptyState)
       = Some ([], emptyState)
   \<and> loadModel exampleServices (Some transparentScene) [] ''models'' True False
       = Inr (\<lparr>meshes = [triangleMesh\<lparr>textures := [forcedColorTexture]\<rparr>],
               textureStorage = []\<rparr>, [])
   \<and> textures (triangleMesh\<lparr>textures := [forcedColorTexture :: int MeshTexture]\<rparr>) \<noteq> []"
proof -
  have a: "elemAt (mMeshes transparentScene) 0 = Some triangle"
    by (simp add: elemAt_def example_eval)
  have c: "textures triangleMesh = []"
    by (simp add: triangleMesh_def)
  have ev: "events emptyState = []"
    by (simp add: emptyState_def)
  note p = invisible_mesh_policy[of transparentScene 0 triangle exampleServices "''models''"
      identity emptyState triangleMesh emptyState _ _ "[]" "[]"]
  have l: "loadModel exampleServices (Some transparentScene) [] ''models'' True False
       = Inr (\<lparr>meshes = [triangleMesh\<lparr>textures := [forcedColorTexture]\<rparr>],
               textureStorage = []\<rparr>, [])"
    using p[of True False] a c processMesh_triangle
    by (simp add: loadModel_def transparentScene_def sceneOf_def unitMatrix_def nodeTransform_def
          glm_eval emptyState_def)
  show ?thesis
    using p[of True False] p[of False True] p[of False False] a c ev l processMesh_triangle
    by (simp add: c_str_def triangle_def)
qed

subsection \<open>Transforms and vertex positions\<close>

lemma those_map_nth:
  "those (map f xs) = Some ys \<Longrightarrow>
     length ys = length xs \<and> (\<forall>i < length xs. f (xs ! i) = Some (ys ! i))"
proof (induction xs arbitrary: ys)
  case Nil
  then show ?case by simp
next
  case (Cons x xs)
  then show ?case
    by (auto split: option.splits simp: nth_Cons')
qed

lemma vertexAt_location:
  "vertexAt rd transform mesh i = Some v \<Longrightarrow>
     i < length (mVertices mesh)
     \<and> location v = transformPosition rd transform (mVertices mesh ! i)"
  by (auto simp: vertexAt_def elemAt_def split: option.splits prod.splits if_splits)

lemma buildVertices_location:
  assumes "buildVertices rd transform mesh = Some vs"
  shows "map location vs = map (transformPosition rd transform) (mVertices mesh)"
proof (rule nth_equalityI)
  let ?n = "length (mVertices mesh)"
  from those_map_nth[OF assms[unfolded buildVertices_def]]
  have len: "length vs = ?n"
    and el: "\<And>i. i < ?n \<Longrightarrow> vertexAt rd transform mesh i = Some (vs ! i)"
    by auto
  show "length (map location vs) = length (map (transformPosition rd transform) (mVertices mesh))"
    using len by simp
  fix i assume "i < length (map location vs)"
  then have i: "i < ?n" using len by simp
  from vertexAt_location[OF el[OF i]] i len
  show "map location vs ! i = map (transformPosition rd transform) (mVertices mesh) ! i"
    by simp
qed

lemma processMesh_location:
  "processMesh scene rd dir mesh transform s = Some (m, s') \<Longrightarrow>
     map location (vertices m) = map (transformPosition rd transform) (mVertices mesh)"
  by (auto simp: processMesh_def buildVertices_location split: option.splits)

lemma keepOrDrop_kept:
  "fst (keepOrDrop force notify mesh m (ms, s)) = ms
   \<or> (\<exists>m'. fst (keepOrDrop force notify mesh m (ms, s)) = ms @ [m']
         \<and> vertices m' = vertices m \<and> indices m' = indices m)"
  by (auto simp: keepOrDrop_def)

lemma woodScene_loadModel:
  "loadModel exampleServices (Some woodScene) [] ''models'' False False
     = Inr (woodGeometry, [LoadTextureCall ''wood.png''])"
  by (simp add: mesh_eval texture_eval example_eval woodScene_def woodGeometry_def woodEntry_def
        woodDescriptor_def triangleMesh_def translationMatrix_def)

lemma flattenChildren_concat:
  "flattenChildren rd T cs = concat (map (flattenNode rd T) cs)"
  by (induction cs) auto

lemma two_node_scenario:
  fixes rd :: "'f::{zero,one} Services"
  assumes root: "mRootNode scene = Some (aiNode t0 [i0] [aiNode t1 [i1] []])"
    and m0: "elemAt (mMeshes scene) i0 = Some mesh0"
    and m1: "elemAt (mMeshes scene) i1 = Some mesh1"
    and load: "loadModel rd (Some scene) err dir force notify = Inr (g, evs)"
    and len: "length (meshes g) = 2"
  shows "map location (vertices (meshes g ! 0))
           = map (\<lambda>(x, y, z).
               matVec rd (matMul rd (defaultMat4x4 rd) (nodeTransform t0)) (x, y, z, 1))
               (mVertices mesh0)
       \<and> map location (vertices (meshes g ! 1))
           = map (\<lambda>(x, y, z).
               matVec rd (matMul rd (matMul rd (defaultMat4x4 rd) (nodeTransform t0))
                 (nodeTransform t1)) (x, y, z, 1))
               (mVertices mesh1)"
proof -
  let ?T0 = "matMul rd (defaultMat4x4 rd) (nodeTransform t0)"
  let ?T1 = "matMul rd ?T0 (nodeTransform t1)"
  let ?init = "([], \<lparr>storage = [], events = []\<rparr>) :: 'f ModelMesh list \<times> ImportState"
  from load root obtain sfin where
    run: "runJobs scene rd force notify dir [(?T0, i0), (?T1, i1)] ?init = Some (meshes g, sfin)"
    by (auto simp: loadModel_def processNode_runJobs split: if_splits option.splits)
  from run m0 obtain l0 s1 where
    p0: "processMesh scene rd dir mesh0 ?T0 (snd ?init) = Some (l0, s1)"
    and run1: "runJobs scene rd force notify dir [(?T1, i1)]
                 (keepOrDrop force notify mesh0 l0 ([], s1)) = Some (meshes g, sfin)"
    by (auto split: option.splits)
  obtain ms1 s1' where k0: "keepOrDrop force notify mesh0 l0 ([], s1) = (ms1, s1')"
    by (cases "keepOrDrop force notify mesh0 l0 ([], s1)")
  from run1 m1 k0 obtain l1 s2 where
    p1: "processMesh scene rd dir mesh1 ?T1 s1' = Some (l1, s2)"
    and fin: "keepOrDrop force notify mesh1 l1 (ms1, s2) = (meshes g, sfin)"
    by (auto split: option.splits)
  from keepOrDrop_kept[of force notify mesh0 l0 "[]" s1] k0
  have c0: "ms1 = [] \<or> (\<exists>m'. ms1 = [m'] \<and> vertices m' = vertices l0)"
    by auto
  from keepOrDrop_kept[of force notify mesh1 l1 ms1 s2] fin
  have c1: "meshes g = ms1 \<or> (\<exists>m'. meshes g = ms1 @ [m'] \<and> vertices m' = vertices l1)"
    by auto
  from c0 c1 len obtain a b where
    g: "meshes g = [a, b]" and a: "vertices a = vertices l0" and b: "vertices b = vertices l1"
    by auto
  from processMesh_location[OF p0] processMesh_location[OF p1] g a b
  show ?thesis
    by (simp add: transformPosition_def[abs_def])
qed

lemma float32Round_0 [simp]: "float32Round 0 = 0"
  by simp

lemma glmMatMul_unit:
  "glmMatMul identity (nodeTransform unitMatrix) = identity"
  "glmMatMul identity (nodeTransform (translationMatrix 1 0 0))
     = nodeTransform (translationMatrix 1 0 0)"
  by (simp_all add: glm_eval nodeTransform_def unitMatrix_def translationMatrix_def)

lemma glmMatVec_identity:
  assumes "float32Round x = x" "float32Round y = y" "float32Round z = z"
  shows "glmMatVec identity (x, y, z, 1) = (x, y, z, 1)"
  using assms by (simp add: glm_eval)

lemma glmMatVec_translation:
  assumes "float32Round x = x" "float32Round y = y" "float32Round z = z"
  shows "glmMatVec (nodeTransform (translationMatrix 1 0 0)) (x, y, z, 1)
           = (float32Round (x + 1), y, z, 1)"
  using assms by (simp add: glm_eval nodeTransform_def translationMatrix_def)

text \<open>
  C3. \<^verbatim>\<open>processNode\<close> is the depth-first traversal of the specification: it builds the
  meshes of \<open>flattenNode\<close>, where the global transform of a node is glm's product of its
  parent's global transform, on the left, and its local transform, and \<^verbatim>\<open>loadModel\<close>
  starts it at the root with a default-constructed matrix (the identity under
  \<^verbatim>\<open>GLM_FORCE_CTOR_INIT\<close>). Every vertex position that \<^verbatim>\<open>processMesh\<close> produces is glm's
  product of the transform and the source position with homogeneous coordinate 1. For a
  root with one child, one mesh each and both kept, the positions of the two meshes are
  these products for the two global transforms. In \<^verbatim>\<open>float\<close> arithmetic, on integer
  coordinates, with an identity root and a child translated by \<open>(1, 0, 0)\<close>: the root's
  mesh has the source positions, and the child's mesh has them with \<open>x + 1\<close> rounded to a
  \<^verbatim>\<open>float\<close> for \<open>x\<close>.
\<close>
theorem flattening_transforms:
  fixes rd :: "'f::{zero,one} Services" and fl :: "int Services"
  shows
   "processNode scene rd force notify dir node parentTransform acc
      = runJobs scene rd force notify dir (flattenNode rd parentTransform node) acc
    \<and> flattenNode rd parentTransform (aiNode t ms cs)
        = map (Pair (matMul rd parentTransform (nodeTransform t))) ms
            @ concat (map (flattenNode rd (matMul rd parentTransform (nodeTransform t))) cs)
    \<and> (loadModel rd (Some scene) err dir force notify = Inr (g, evs) \<longrightarrow>
         (\<exists>rootNode s. mRootNode scene = Some rootNode
            \<and> runJobs scene rd force notify dir (flattenNode rd (defaultMat4x4 rd) rootNode)
                 ([], \<lparr>storage = [], events = []\<rparr>) = Some (meshes g, s)))
    \<and> (processMesh scene rd dir mesh transform s0 = Some (m, s1) \<longrightarrow>
         map location (vertices m)
           = map (\<lambda>(x, y, z). matVec rd transform (x, y, z, 1)) (mVertices mesh))
    \<and> (mRootNode scene = Some (aiNode t0 [i0] [aiNode t1 [i1] []])
       \<and> elemAt (mMeshes scene) i0 = Some mesh0 \<and> elemAt (mMeshes scene) i1 = Some mesh1
       \<and> loadModel rd (Some scene) err dir force notify = Inr (g, evs)
       \<and> length (meshes g) = 2 \<longrightarrow>
         map location (vertices (meshes g ! 0))
           = map (\<lambda>(x, y, z).
               matVec rd (matMul rd (defaultMat4x4 rd) (nodeTransform t0)) (x, y, z, 1))
               (mVertices mesh0)
         \<and> map location (vertices (meshes g ! 1))
           = map (\<lambda>(x, y, z).
               matVec rd (matMul rd (matMul rd (defaultMat4x4 rd) (nodeTransform t0))
                 (nodeTransform t1)) (x, y, z, 1))
               (mVertices mesh1))
    \<and> (matMul fl = glmMatMul \<and> matVec fl = glmMatVec \<and> defaultMat4x4 fl = identity
       \<and> mRootNode sc = Some (aiNode unitMatrix [j0] [aiNode (translationMatrix 1 0 0) [j1] []])
       \<and> elemAt (mMeshes sc) j0 = Some rootMesh \<and> elemAt (mMeshes sc) j1 = Some childMesh
       \<and> loadModel fl (Some sc) err dir force notify = Inr (h, evs')
       \<and> length (meshes h) = 2
       \<and> list_all (\<lambda>(x, y, z). float32Round x = x \<and> float32Round y = y \<and> float32Round z = z)
            (mVertices rootMesh @ mVertices childMesh) \<longrightarrow>
         map location (vertices (meshes h ! 0))
           = map (\<lambda>(x, y, z). (x, y, z, 1)) (mVertices rootMesh)
         \<and> map location (vertices (meshes h ! 1))
           = map (\<lambda>(x, y, z). (float32Round (x + 1), y, z, 1)) (mVertices childMesh))"
proof (intro conjI impI)
  show "processNode scene rd force notify dir node parentTransform acc
      = runJobs scene rd force notify dir (flattenNode rd parentTransform node) acc"
    by (rule processNode_runJobs)
  show "flattenNode rd parentTransform (aiNode t ms cs)
        = map (Pair (matMul rd parentTransform (nodeTransform t))) ms
            @ concat (map (flattenNode rd (matMul rd parentTransform (nodeTransform t))) cs)"
    by (simp add: flattenChildren_concat)
next
  assume "loadModel rd (Some scene) err dir force notify = Inr (g, evs)"
  then show "\<exists>rootNode s. mRootNode scene = Some rootNode
            \<and> runJobs scene rd force notify dir (flattenNode rd (defaultMat4x4 rd) rootNode)
                 ([], \<lparr>storage = [], events = []\<rparr>) = Some (meshes g, s)"
    by (auto simp: loadModel_def processNode_runJobs split: if_splits option.splits)
next
  assume "processMesh scene rd dir mesh transform s0 = Some (m, s1)"
  from processMesh_location[OF this]
  show "map location (vertices m)
           = map (\<lambda>(x, y, z). matVec rd transform (x, y, z, 1)) (mVertices mesh)"
    by (simp add: transformPosition_def[abs_def])
next
  assume a: "mRootNode scene = Some (aiNode t0 [i0] [aiNode t1 [i1] []])
       \<and> elemAt (mMeshes scene) i0 = Some mesh0 \<and> elemAt (mMeshes scene) i1 = Some mesh1
       \<and> loadModel rd (Some scene) err dir force notify = Inr (g, evs)
       \<and> length (meshes g) = 2"
  then show "map location (vertices (meshes g ! 0))
           = map (\<lambda>(x, y, z).
               matVec rd (matMul rd (defaultMat4x4 rd) (nodeTransform t0)) (x, y, z, 1))
               (mVertices mesh0)"
    and "map location (vertices (meshes g ! 1))
           = map (\<lambda>(x, y, z).
               matVec rd (matMul rd (matMul rd (defaultMat4x4 rd) (nodeTransform t0))
                 (nodeTransform t1)) (x, y, z, 1))
               (mVertices mesh1)"
    using two_node_scenario[of scene t0 i0 t1 i1 mesh0 mesh1 rd err dir force notify g evs]
    by auto
next
  assume a: "matMul fl = glmMatMul \<and> matVec fl = glmMatVec \<and> defaultMat4x4 fl = identity
       \<and> mRootNode sc = Some (aiNode unitMatrix [j0] [aiNode (translationMatrix 1 0 0) [j1] []])
       \<and> elemAt (mMeshes sc) j0 = Some rootMesh \<and> elemAt (mMeshes sc) j1 = Some childMesh
       \<and> loadModel fl (Some sc) err dir force notify = Inr (h, evs')
       \<and> length (meshes h) = 2
       \<and> list_all (\<lambda>(x, y, z). float32Round x = x \<and> float32Round y = y \<and> float32Round z = z)
            (mVertices rootMesh @ mVertices childMesh)"
  then have fl: "matMul fl = glmMatMul" "matVec fl = glmMatVec" "defaultMat4x4 fl = identity"
    and r: "\<forall>p \<in> set (mVertices rootMesh). case p of (x, y, z) \<Rightarrow>
              float32Round x = x \<and> float32Round y = y \<and> float32Round z = z"
    and c: "\<forall>p \<in> set (mVertices childMesh). case p of (x, y, z) \<Rightarrow>
              float32Round x = x \<and> float32Round y = y \<and> float32Round z = z"
    by (simp_all add: list_all_iff)
  from a two_node_scenario[of sc unitMatrix j0 "translationMatrix 1 0 0" j1 rootMesh childMesh
      fl err dir force notify h evs']
  have l: "map location (vertices (meshes h ! 0))
           = map (\<lambda>(x, y, z). glmMatVec identity (x, y, z, 1)) (mVertices rootMesh)"
    "map location (vertices (meshes h ! 1))
           = map (\<lambda>(x, y, z). glmMatVec (nodeTransform (translationMatrix 1 0 0)) (x, y, z, 1))
               (mVertices childMesh)"
    by (simp_all add: fl glmMatMul_unit)
  from r show "map location (vertices (meshes h ! 0))
           = map (\<lambda>(x, y, z). (x, y, z, 1)) (mVertices rootMesh)"
    unfolding l by (auto simp: glmMatVec_identity)
  from c show "map location (vertices (meshes h ! 1))
           = map (\<lambda>(x, y, z). (float32Round (x + 1), y, z, 1)) (mVertices childMesh)"
    unfolding l by (auto simp: glmMatVec_translation)
qed

theorem flattening_transforms_witness:
  "loadModel exampleServices (Some nestedScene) [] ''models'' False False
     = Inr (nestedGeometry, [LoadTextureCall ''wood.png''])
   \<and> mRootNode nestedScene
       = Some (aiNode (translationMatrix 0 2 0) [0] [aiNode (scalingMatrix 2) [1] []])
   \<and> elemAt (mMeshes nestedScene) 0 = Some triangle
   \<and> elemAt (mMeshes nestedScene) 1 = Some (triangle\<lparr>mName := ''tri2''\<rparr>)
   \<and> length (meshes nestedGeometry) = 2
   \<and> mVertices triangle = [(0, 0, 0), (1, 0, 0), (0, 1, 0)]
   \<and> map location (vertices (meshes nestedGeometry ! 0))
       = [(0, 2, 0, 1), (1, 2, 0, 1), (0, 3, 0, 1)]
   \<and> map location (vertices (meshes nestedGeometry ! 1))
       = [(0, 2, 0, 1), (2, 2, 0, 1), (0, 4, 0, 1)]
   \<and> map (\<lambda>(x, y, z). matVec exampleServices
           (matMul exampleServices (matMul exampleServices (defaultMat4x4 exampleServices)
              (nodeTransform (translationMatrix 0 2 0))) (nodeTransform (scalingMatrix 2)))
           (x, y, z, 1)) (mVertices (triangle\<lparr>mName := ''tri2''\<rparr>))
       = [(0, 2, 0, 1), (2, 2, 0, 1), (0, 4, 0, 1)]
   \<and> matMul exampleServices = glmMatMul \<and> matVec exampleServices = glmMatVec
   \<and> defaultMat4x4 exampleServices = identity
   \<and> loadModel exampleServices (Some woodScene) [] ''models'' False False
       = Inr (woodGeometry, [LoadTextureCall ''wood.png''])
   \<and> mRootNode woodScene = Some (aiNode unitMatrix [0] [aiNode (translationMatrix 1 0 0) [1] []])
   \<and> elemAt (mMeshes woodScene) 0 = Some triangle
   \<and> elemAt (mMeshes woodScene) 1 = Some (triangle\<lparr>mName := ''tri2''\<rparr>)
   \<and> length (meshes woodGeometry) = 2
   \<and> list_all (\<lambda>(x, y, z). float32Round x = x \<and> float32Round y = y \<and> float32Round z = z)
        (mVertices triangle @ mVertices (triangle\<lparr>mName := ''tri2''\<rparr>))
   \<and> map location (vertices (meshes woodGeometry ! 0)) = [(0, 0, 0, 1), (1, 0, 0, 1), (0, 1, 0, 1)]
   \<and> map location (vertices (meshes woodGeometry ! 1)) = [(1, 0, 0, 1), (2, 0, 0, 1), (1, 1, 0, 1)]
   \<and> map (\<lambda>(x, y, z). (float32Round (x + 1), y, z, 1)) (mVertices (triangle\<lparr>mName := ''tri2''\<rparr>))
       = [(1, 0, 0, 1), (2, 0, 0, 1), (1, 1, 0, 1)]"
proof -
  note t = flattening_transforms[where rd = exampleServices and fl = exampleServices
      and err = "[]" and dir = "''models''" and force = False and notify = False]
  note general = t[THEN conjunct2, THEN conjunct2, THEN conjunct2, THEN conjunct2,
      THEN conjunct1, rule_format]
  note floats = t[THEN conjunct2, THEN conjunct2, THEN conjunct2, THEN conjunct2,
      THEN conjunct2, rule_format]
  have ln: "loadModel exampleServices (Some nestedScene) [] ''models'' False False
     = Inr (nestedGeometry, [LoadTextureCall ''wood.png''])"
    by (simp add: mesh_eval texture_eval example_eval nestedScene_def nestedGeometry_def
        woodEntry_def woodDescriptor_def texturedTriangle_def translationMatrix_def
        scalingMatrix_def)
  have rn: "mRootNode nestedScene
       = Some (aiNode (translationMatrix 0 2 0) [0] [aiNode (scalingMatrix 2) [1] []])"
    by (simp add: nestedScene_def sceneOf_def)
  have en: "elemAt (mMeshes nestedScene) 0 = Some triangle"
    "elemAt (mMeshes nestedScene) 1 = Some (triangle\<lparr>mName := ''tri2''\<rparr>)"
    by (simp_all add: nestedScene_def sceneOf_def elemAt_def)
  have nn: "length (meshes nestedGeometry) = 2"
    by (simp add: nestedGeometry_def)
  have v: "mVertices triangle = [(0, 0, 0), (1, 0, 0), (0, 1, 0)]"
    by (simp add: triangle_def)
  have g0: "map location (vertices (meshes nestedGeometry ! 0))
       = [(0, 2, 0, 1), (1, 2, 0, 1), (0, 3, 0, 1)]"
    and g1: "map location (vertices (meshes nestedGeometry ! 1))
       = [(0, 2, 0, 1), (2, 2, 0, 1), (0, 4, 0, 1)]"
    by (simp_all add: nestedGeometry_def texturedTriangle_def)
  from general[OF conjI[OF rn conjI[OF en(1) conjI[OF en(2) conjI[OF ln nn]]]],
      THEN conjunct2, symmetric]
  have p: "map (\<lambda>(x, y, z). matVec exampleServices
           (matMul exampleServices (matMul exampleServices (defaultMat4x4 exampleServices)
              (nodeTransform (translationMatrix 0 2 0))) (nodeTransform (scalingMatrix 2)))
           (x, y, z, 1)) (mVertices (triangle\<lparr>mName := ''tri2''\<rparr>))
       = [(0, 2, 0, 1), (2, 2, 0, 1), (0, 4, 0, 1)]"
    unfolding g1 by simp
  have fl: "matMul exampleServices = glmMatMul" "matVec exampleServices = glmMatVec"
    "defaultMat4x4 exampleServices = identity"
    by (simp_all add: exampleServices_def)
  have lw: "loadModel exampleServices (Some woodScene) [] ''models'' False False
     = Inr (woodGeometry, [LoadTextureCall ''wood.png''])"
    by (rule woodScene_loadModel)
  have rw: "mRootNode woodScene
      = Some (aiNode unitMatrix [0] [aiNode (translationMatrix 1 0 0) [1] []])"
    by (simp add: woodScene_def sceneOf_def)
  have ew: "elemAt (mMeshes woodScene) 0 = Some triangle"
    "elemAt (mMeshes woodScene) 1 = Some (triangle\<lparr>mName := ''tri2''\<rparr>)"
    by (simp_all add: woodScene_def sceneOf_def elemAt_def)
  have nw: "length (meshes woodGeometry) = 2"
    by (simp add: woodGeometry_def)
  have rep: "list_all (\<lambda>(x, y, z). float32Round x = x \<and> float32Round y = y \<and> float32Round z = z)
        (mVertices triangle @ mVertices (triangle\<lparr>mName := ''tri2''\<rparr>))"
    by (simp add: triangle_def)
  have w0: "map location (vertices (meshes woodGeometry ! 0))
      = [(0, 0, 0, 1), (1, 0, 0, 1), (0, 1, 0, 1)]"
    and w1: "map location (vertices (meshes woodGeometry ! 1))
      = [(1, 0, 0, 1), (2, 0, 0, 1), (1, 1, 0, 1)]"
    by (simp_all add: woodGeometry_def triangleMesh_def)
  from floats[OF conjI[OF fl(1) conjI[OF fl(2) conjI[OF fl(3) conjI[OF rw conjI[OF ew(1)
      conjI[OF ew(2) conjI[OF lw conjI[OF nw rep]]]]]]]], THEN conjunct2, symmetric]
  have q: "map (\<lambda>(x, y, z). (float32Round (x + 1), y, z, 1))
        (mVertices (triangle\<lparr>mName := ''tri2''\<rparr>))
       = [(1, 0, 0, 1), (2, 0, 0, 1), (1, 1, 0, 1)]"
    unfolding w1 by (simp add: v)
  show ?thesis
    by (intro conjI ln rn en nn v g0 g1 p fl lw rw ew rep w0 w1 q nw)
qed

text \<open>
  The scenario of the specification with the vertex \<open>(16777216, 0, 0)\<close> in both meshes:
  the child's mesh has that vertex at \<open>x = 16777216\<close> as well, an offset of zero, because
  \<open>16777217\<close> is not a \<^verbatim>\<open>float\<close>.
\<close>
theorem far_vertex_not_offset:
  "loadModel exampleServices (Some farScene) [] ''models'' False False
     = Inr (farGeometry, [LoadTextureCall ''wood.png''])
   \<and> mRootNode farScene = Some (aiNode unitMatrix [0] [aiNode (translationMatrix 1 0 0) [1] []])
   \<and> map mVertices (mMeshes farScene)
       = [[(16777216, 0, 0), (1, 0, 0), (0, 1, 0)], [(16777216, 0, 0), (1, 0, 0), (0, 1, 0)]]
   \<and> map location (vertices (meshes farGeometry ! 0))
       = [(16777216, 0, 0, 1), (1, 0, 0, 1), (0, 1, 0, 1)]
   \<and> map location (vertices (meshes farGeometry ! 1))
       = [(16777216, 0, 0, 1), (2, 0, 0, 1), (1, 1, 0, 1)]
   \<and> (16777216 :: int) + 1 \<noteq> 16777216"
proof -
  have u: "ulp24 16777216 = 2" "ulp24 16777217 = 2"
    by (simp_all add: ulp24.simps)
  have r: "float32Round 16777216 = 16777216" "float32Round 16777217 = 16777216"
    by (simp_all add: float32Round_def u Let_def)
  have "loadModel exampleServices (Some farScene) [] ''models'' False False
     = Inr (farGeometry, [LoadTextureCall ''wood.png''])"
    by (simp add: mesh_eval texture_eval example_eval farScene_def farGeometry_def farTriangle_def
        woodEntry_def woodDescriptor_def texturedTriangle_def translationMatrix_def r)
  then show ?thesis
    by (simp add: farScene_def sceneOf_def farTriangle_def triangle_def farGeometry_def
        texturedTriangle_def)
qed

subsection \<open>The texture resolver\<close>

lemma c_str_idem [simp]: "c_str (c_str s) = c_str s"
  by (simp add: c_str_def takeWhile_idem)

lemma findByName_None:
  "findByName st p j = None \<longleftrightarrow> (\<forall>e \<in> set st. c_str (name e) \<noteq> c_str p)"
  by (induction st arbitrary: j) auto

lemma findByName_Some:
  "findByName st p j0 = Some j \<Longrightarrow>
     j0 \<le> j \<and> j - j0 < length st \<and> c_str (name (st ! (j - j0))) = c_str p
     \<and> (\<forall>k < j - j0. c_str (name (st ! k)) \<noteq> c_str p)"
proof (induction st arbitrary: j0)
  case Nil
  then show ?case by simp
next
  case (Cons e es)
  show ?case
  proof (cases "c_str (name e) = c_str p")
    case True
    with Cons.prems show ?thesis by simp
  next
    case False
    with Cons.prems have f: "findByName es p (Suc j0) = Some j" by simp
    from Cons.IH[OF f] have a: "Suc j0 \<le> j" and b: "j - Suc j0 < length es"
      and c: "c_str (name (es ! (j - Suc j0))) = c_str p"
      and d: "\<forall>k < j - Suc j0. c_str (name (es ! k)) \<noteq> c_str p"
      by auto
    from a have e: "j - j0 = Suc (j - Suc j0)" by simp
    show ?thesis
      using a b c d False unfolding e by (auto simp: nth_Cons')
  qed
qed

lemma findByName_zero:
  "findByName st p 0 = Some j \<Longrightarrow> j < length st \<and> c_str (name (st ! j)) = c_str p"
  using findByName_Some[of st p 0 j] by simp

lemma descriptorOk_append:
  "descriptorOk st t \<Longrightarrow> descriptorOk (st @ new) t"
  by (auto simp: descriptorOk_def split: option.splits)

lemma descriptorOk_length:
  "length st' = length st \<Longrightarrow> descriptorOk st t \<Longrightarrow> descriptorOk st' t"
  by (auto simp: descriptorOk_def split: option.splits)

lemma loadedForMesh_defined:
  "list_all (descriptorOk st) ta \<Longrightarrow> loadedForMesh st ta p \<noteq> None"
proof (induction ta)
  case Nil
  then show ?case by simp
next
  case (Cons t ts)
  then show ?case
    by (cases "textureRef t"; cases "hasTexture t")
       (simp_all add: descriptorOk_def textureName_def elemAt_def del: not_None_eq)
qed

lemma storage_update_id:
  assumes "storageOk st" and "findByName st p 0 = Some j"
  shows "st[j := (st ! j)\<lparr>texture := (texture (st ! j))\<lparr>texName := c_str p\<rparr>\<rparr>] = st"
proof -
  from findByName_zero[OF assms(2)] have j: "j < length st" and n: "c_str (name (st ! j)) = c_str p"
    by auto
  from j have "st ! j \<in> set st" by simp
  with assms(1) have "c_str (name (st ! j)) = name (st ! j)"
    and "texName (texture (st ! j)) = name (st ! j)"
    by (auto simp: storageOk_def list_all_iff)
  with n have "texName (texture (st ! j)) = c_str p" by simp
  then have "(st ! j)\<lparr>texture := (texture (st ! j))\<lparr>texName := c_str p\<rparr>\<rparr> = st ! j"
    by (metis GLTexture.surjective GLTexture.update_convs(1) TextureEntry.surjective
        TextureEntry.update_convs(2))
  then show ?thesis by (simp add: list_update_id)
qed

lemma loadTexture_name:
  "loadTexture scene rd dir p = (evs, Some t) \<Longrightarrow> texName t = p"
  by (auto simp: loadTexture_def loadResult_def split: option.splits if_splits LoadResult.splits)

lemma storageOk_snoc:
  assumes "storageOk st" and "findByName st p 0 = None" and "texName t = c_str p"
  shows "storageOk (st @ [\<lparr>name = c_str p, texture = t\<rparr>])"
proof -
  from assms(2) have "\<forall>e \<in> set st. c_str (name e) \<noteq> c_str p"
    by (simp add: findByName_None)
  moreover from assms(1) have "\<forall>e \<in> set st. c_str (name e) = name e"
    by (auto simp: storageOk_def list_all_iff)
  ultimately have "c_str p \<notin> name ` set st" by force
  with assms(1,3) show ?thesis
    by (auto simp: storageOk_def)
qed

lemma loadTexture_events:
  "loadTexture scene rd dir p = (evs, res) \<Longrightarrow>
     (res \<noteq> None \<longrightarrow> evs = [LoadTextureCall p])
     \<and> (\<forall>n. LoadTextureCall n \<in> set evs \<longrightarrow> n = p)"
  by (auto simp: loadTexture_def loadResult_def split: option.splits if_splits LoadResult.splits)

lemma count_list_0: "x \<notin> set xs \<Longrightarrow> count_list xs x = 0"
  by (induction xs) auto

lemma not_named:
  assumes "storageOk st" and "findByName st p 0 = None"
  shows "c_str p \<notin> name ` set st"
proof -
  from assms(2) have "\<forall>e \<in> set st. c_str (name e) \<noteq> c_str p"
    by (simp add: findByName_None)
  moreover from assms(1) have "\<forall>e \<in> set st. c_str (name e) = name e"
    by (auto simp: storageOk_def list_all_iff)
  ultimately show ?thesis by force
qed

lemma eventOk_mono:
  "eventOk scene rd dir st ev \<Longrightarrow> eventOk scene rd dir (st @ new) ev"
  by (cases ev) auto

lemma importInv_not_stored:
  assumes inv: "importInv scene rd dir s"
    and nf: "findByName (storage s) path 0 = None"
    and l: "loadTexture scene rd dir (c_str path) = (evs, res)"
    and ns: "\<not> storable scene rd dir (c_str path)"
  shows "importInv scene rd dir (s\<lparr>events := events s @ evs\<rparr>)"
proof -
  from inv have ok: "storageOk (storage s)" by (simp add: importInv_def)
  from not_named[OF ok nf] have nn: "c_str path \<notin> name ` set (storage s)" .
  from loadTexture_events[OF l] have only: "\<forall>n. LoadTextureCall n \<in> set evs \<longrightarrow> n = c_str path"
    by simp
  have cnt: "\<forall>e \<in> set (storage s). count_list evs (LoadTextureCall (name e)) = 0"
  proof
    fix e assume "e \<in> set (storage s)"
    with nn have "name e \<noteq> c_str path" by force
    with only have "LoadTextureCall (name e) \<notin> set evs" by blast
    then show "count_list evs (LoadTextureCall (name e)) = 0" by (rule count_list_0)
  qed
  have new: "list_all (eventOk scene rd dir (storage s)) evs"
    unfolding list_all_iff
  proof
    fix ev assume "ev \<in> set evs"
    with only ns show "eventOk scene rd dir (storage s) ev" by (cases ev) auto
  qed
  from inv have a: "list_all (\<lambda>e. isOpague rd (texture e)) (storage s)"
    and b: "list_all (\<lambda>e. count_list (events s) (LoadTextureCall (name e)) = 1) (storage s)"
    and c: "list_all (eventOk scene rd dir (storage s)) (events s)"
    by (simp_all add: importInv_def)
  from b cnt have b': "list_all (\<lambda>e. count_list (events s @ evs) (LoadTextureCall (name e)) = 1)
      (storage s)"
    by (simp add: list_all_iff)
  from ok a b' c new show ?thesis
    by (simp add: importInv_def)
qed

lemma importInv_stored:
  assumes inv: "importInv scene rd dir s"
    and nf: "findByName (storage s) path 0 = None"
    and l: "loadTexture scene rd dir (c_str path) = (evs, Some t)"
    and op: "isOpague rd t"
  shows "importInv scene rd dir
           (s\<lparr>storage := storage s @ [\<lparr>name = c_str path, texture = t\<rparr>],
              events := events s @ evs\<rparr>)"
proof -
  let ?e = "\<lparr>name = c_str path, texture = t\<rparr>"
  from inv have ok: "storageOk (storage s)"
    and a: "list_all (\<lambda>e. isOpague rd (texture e)) (storage s)"
    and b: "list_all (\<lambda>e. count_list (events s) (LoadTextureCall (name e)) = 1) (storage s)"
    and c: "list_all (eventOk scene rd dir (storage s)) (events s)"
    by (simp_all add: importInv_def)
  from not_named[OF ok nf] have nn: "c_str path \<notin> name ` set (storage s)" .
  from loadTexture_events[OF l] have evs: "evs = [LoadTextureCall (c_str path)]" by blast
  have st: "storable scene rd dir (c_str path)"
    using l op by (simp add: storable_def)
  have old: "LoadTextureCall (c_str path) \<notin> set (events s)"
  proof
    assume "LoadTextureCall (c_str path) \<in> set (events s)"
    with c have "eventOk scene rd dir (storage s) (LoadTextureCall (c_str path))"
      unfolding list_all_iff by blast
    with nn st show False by simp
  qed
  have 1: "storageOk (storage s @ [?e])"
    using storageOk_snoc[OF ok nf loadTexture_name[OF l]] .
  have 2: "list_all (\<lambda>e. isOpague rd (texture e)) (storage s @ [?e])"
    using a op by simp
  have 3: "list_all (\<lambda>e. count_list (events s @ evs) (LoadTextureCall (name e)) = 1) (storage s)"
    unfolding list_all_iff
  proof
    fix e assume e: "e \<in> set (storage s)"
    with nn have "name e \<noteq> c_str path" by force
    with b e show "count_list (events s @ evs) (LoadTextureCall (name e)) = 1"
      by (simp add: list_all_iff evs)
  qed
  have 4: "count_list (events s @ evs) (LoadTextureCall (c_str path)) = 1"
    using old by (simp add: evs count_list_0)
  have 5: "list_all (eventOk scene rd dir (storage s @ [?e])) (events s)"
    using c by (auto simp: list_all_iff intro: eventOk_mono)
  have 6: "eventOk scene rd dir (storage s @ [?e]) (LoadTextureCall (c_str path))"
    by simp
  from 1 2 3 4 5 6 show ?thesis
    by (simp add: importInv_def evs)
qed

lemma importInv_info:
  "importInv scene rd dir s \<Longrightarrow> importInv scene rd dir (s\<lparr>events := events s @ [LINFO msg]\<rparr>)"
  by (simp add: importInv_def list_all_iff)

text \<open>What holds of the storage and of a texture array during an import.\<close>
lemma loadMaterialTextures_invariant:
  fixes rd :: "'f::zero Services"
  assumes "importInv scene rd dir s"
    and "list_all (descriptorOk (storage s)) ta"
  shows "\<exists>ok ta' s'. loadMaterialTextures scene rd dir typeString paths ta s = Some (ok, ta', s')
           \<and> importInv scene rd dir s'
           \<and> list_all (descriptorOk (storage s')) ta'
           \<and> (\<exists>new. storage s' = storage s @ new)
           \<and> (\<exists>add. ta' = ta @ add)
           \<and> (\<not> ok \<longrightarrow> (\<exists>ta0. ta' = ta0 @ [forcedColorTexture]))"
  using assms
proof (induction paths arbitrary: ta s)
  case Nil
  then show ?case by auto
next
  case (Cons path rest)
  let ?st = "storage s"
  from Cons.prems(1) have sok: "storageOk ?st" by (simp add: importInv_def)
  from loadedForMesh_defined[OF Cons.prems(2)] obtain b where
    b: "loadedForMesh ?st ta path = Some b" by blast
  show ?case
  proof (cases b)
    case True
    with b Cons.IH[OF Cons.prems] show ?thesis by simp
  next
    case False
    note nb = False
    show ?thesis
    proof (cases "findByName ?st path 0")
      case (Some j)
      let ?d = "defaultTexture\<lparr>type := typeString, textureRef := Some j, hasTexture := True\<rparr>
                  :: 'f MeshTexture"
      from findByName_zero[OF Some] have "descriptorOk ?st ?d"
        by (simp add: descriptorOk_def defaultTexture_def)
      with Cons.prems(2) have ta: "list_all (descriptorOk ?st) (ta @ [?d])" by simp
      have upd: "s\<lparr>storage := (storage s)[j := (storage s ! j)\<lparr>texture :=
                   (texture (storage s ! j))\<lparr>texName := c_str path\<rparr>\<rparr>]\<rparr> = s"
        by (simp add: storage_update_id[OF sok Some])
      from Cons.IH[OF Cons.prems(1) ta] obtain ok ta' s' where
        r: "loadMaterialTextures scene rd dir typeString rest (ta @ [?d]) s = Some (ok, ta', s')"
        and i: "importInv scene rd dir s'"
          "list_all (descriptorOk (storage s')) ta'" "\<exists>new. storage s' = storage s @ new"
          "\<exists>add. ta' = (ta @ [?d]) @ add" "\<not> ok \<longrightarrow> (\<exists>ta0. ta' = ta0 @ [forcedColorTexture])"
        by blast
      have "loadMaterialTextures scene rd dir typeString (path # rest) ta s = Some (ok, ta', s')"
        using b nb Some r by (simp add: upd)
      with i show ?thesis by auto
    next
      case None
      note nf = None
      obtain evs res where l: "loadTexture scene rd dir (c_str path) = (evs, res)"
        by (cases "loadTexture scene rd dir (c_str path)")
      show ?thesis
      proof (cases res)
        case None
        have "loadMaterialTextures scene rd dir typeString (path # rest) ta s
                = Some (False, ta @ [forcedColorTexture], s\<lparr>events := events s @ evs\<rparr>)"
          using b nb nf l None by simp
        moreover have "descriptorOk ?st (forcedColorTexture :: 'f MeshTexture)"
          by (simp add: descriptorOk_def forcedColorTexture_def defaultTexture_def)
        moreover have "importInv scene rd dir (s\<lparr>events := events s @ evs\<rparr>)"
          using importInv_not_stored[OF Cons.prems(1) nf l] l None by (simp add: storable_def)
        ultimately show ?thesis using Cons.prems by auto
      next
        case (Some t)
        show ?thesis
        proof (cases "isOpague rd t")
          case False
          have e: "loadMaterialTextures scene rd dir typeString (path # rest) ta s
                = loadMaterialTextures scene rd dir typeString rest ta (s\<lparr>events := events s @ evs\<rparr>)"
            using b nb nf l Some False by simp
          have "importInv scene rd dir (s\<lparr>events := events s @ evs\<rparr>)"
            using importInv_not_stored[OF Cons.prems(1) nf l] l Some False
            by (simp add: storable_def)
          from Cons.IH[OF this, of ta] Cons.prems(2)
          show ?thesis unfolding e by simp
        next
          case True
          let ?d = "defaultTexture\<lparr>type := typeString, textureRef := Some (length ?st),
                      hasTexture := True\<rparr> :: 'f MeshTexture"
          let ?s = "s\<lparr>storage := ?st @ [\<lparr>name = c_str path, texture = t\<rparr>],
                      events := events s @ evs\<rparr>"
          have e: "loadMaterialTextures scene rd dir typeString (path # rest) ta s
                = loadMaterialTextures scene rd dir typeString rest (ta @ [?d]) ?s"
            using b nb nf l Some True by simp
          have 1: "importInv scene rd dir ?s"
            using importInv_stored[OF Cons.prems(1) nf l[unfolded Some] True] .
          have "descriptorOk (storage ?s) ?d"
            by (simp add: descriptorOk_def defaultTexture_def)
          moreover have "list_all (descriptorOk (storage ?s)) ta"
            using Cons.prems(2) by (auto simp: list_all_iff intro: descriptorOk_append)
          ultimately have 3: "list_all (descriptorOk (storage ?s)) (ta @ [?d])" by simp
          from Cons.IH[OF 1 3] obtain ok ta' s' where
            r: "loadMaterialTextures scene rd dir typeString rest (ta @ [?d]) ?s = Some (ok, ta', s')"
            and i: "importInv scene rd dir s'"
              "list_all (descriptorOk (storage s')) ta'" "\<exists>new. storage s' = storage ?s @ new"
              "\<exists>add. ta' = (ta @ [?d]) @ add" "\<not> ok \<longrightarrow> (\<exists>ta0. ta' = ta0 @ [forcedColorTexture])"
            by blast
          from r i show ?thesis unfolding e by auto
        qed
      qed
    qed
  qed
qed

subsection \<open>Invariants of processMesh and of the traversal\<close>

lemma descriptorOk_take:
  "take (length st) st' = st \<Longrightarrow> descriptorOk st t \<Longrightarrow> descriptorOk st' t"
  by (metis append_take_drop_id descriptorOk_append)

lemma loadMaterialTextures_result:
  fixes rd :: "'f::zero Services"
  assumes "importInv scene rd dir s" and "list_all (descriptorOk (storage s)) ta"
  shows "resolverResult scene rd dir ta s
           (loadMaterialTextures scene rd dir typeString paths ta s)"
proof -
  from loadMaterialTextures_invariant[OF assms, of typeString paths] obtain ok ta' s' where
    r: "loadMaterialTextures scene rd dir typeString paths ta s = Some (ok, ta', s')"
    and i: "importInv scene rd dir s'" "list_all (descriptorOk (storage s')) ta'"
      "\<exists>new. storage s' = storage s @ new" "\<exists>add. ta' = ta @ add"
      "\<not> ok \<longrightarrow> (\<exists>ta0. ta' = ta0 @ [forcedColorTexture])"
    by blast
  from i(3) have a: "take (length (storage s)) (storage s') = storage s" by auto
  from i(4) have b: "take (length ta) ta' = ta" by auto
  from i(5) have c: "ok \<or> (ta' \<noteq> [] \<and> last ta' = forcedColorTexture)" by auto
  from i(1,2) a b c show ?thesis
    unfolding r resolverResult_def by simp
qed

lemma resolverResult_same:
  fixes rd :: "'f::zero Services"
  assumes "importInv scene rd dir s" and "list_all (descriptorOk (storage s)) (ta @ add)"
  shows "resolverResult scene rd dir ta s (Some (True, ta @ add, s))"
  using assms by (simp add: resolverResult_def)

lemma descriptorOk_colorTexture:
  "descriptorOk st (colorTexture typeString c)"
  by (simp add: descriptorOk_def colorTexture_def defaultTexture_def)

lemma descriptorOk_forcedColorTexture:
  "descriptorOk st forcedColorTexture"
  by (simp add: descriptorOk_def forcedColorTexture_def defaultTexture_def)

lemma resolveDiffuse_result:
  fixes rd :: "'f::zero Services"
  assumes "importInv scene rd dir s" and "list_all (descriptorOk (storage s)) ta"
  shows "resolverResult scene rd dir ta s (resolveDiffuse scene rd dir material ta s)"
proof (cases "GetTextures material aiTextureType_DIFFUSE \<noteq> []")
  case True
  then show ?thesis
    using loadMaterialTextures_result[OF assms] by (simp add: resolveDiffuse_def)
next
  case False
  then show ?thesis
    using resolverResult_same[OF assms(1), of ta "[]"]
      resolverResult_same[OF assms(1), of ta "[colorTexture ''color_diffuse'' c]" for c] assms(2)
    by (auto simp: resolveDiffuse_def descriptorOk_colorTexture split: option.splits)
qed

lemma resolveSpecular_result:
  fixes rd :: "'f::zero Services"
  assumes "importInv scene rd dir s" and "list_all (descriptorOk (storage s)) ta"
  shows "resolverResult scene rd dir ta s (resolveSpecular scene rd dir material ta s)"
proof (cases "GetTextures material aiTextureType_SPECULAR \<noteq> []")
  case True
  then show ?thesis
    using loadMaterialTextures_result[OF assms] by (simp add: resolveSpecular_def)
next
  case False
  then show ?thesis
    using resolverResult_same[OF assms(1), of ta "[]"]
      resolverResult_same[OF assms(1), of ta "[colorTexture ''color_specular'' c]" for c] assms(2)
    by (auto simp: resolveSpecular_def specularColor3_def descriptorOk_colorTexture
          split: option.splits)
qed

lemma resolveNormal_result:
  fixes rd :: "'f::zero Services"
  assumes "importInv scene rd dir s" and "list_all (descriptorOk (storage s)) ta"
  shows "resolverResult scene rd dir ta s (resolveNormal scene rd dir material ta s)"
proof (cases "GetTextures material aiTextureType_NORMALS \<noteq> []")
  case True
  then show ?thesis
    using loadMaterialTextures_result[OF assms] by (simp add: resolveNormal_def)
next
  case False
  then show ?thesis
    using resolverResult_same[OF assms(1), of ta "[]"] assms(2)
    by (simp add: resolveNormal_def)
qed

lemma resolverResultE:
  assumes "resolverResult scene rd dir ta s r"
  obtains ok ta' s' where "r = Some (ok, ta', s')" and "importInv scene rd dir s'"
    and "list_all (descriptorOk (storage s')) ta'"
    and "take (length (storage s)) (storage s') = storage s"
    and "take (length ta) ta' = ta"
    and "ok \<or> (ta' \<noteq> [] \<and> last ta' = forcedColorTexture)"
  using assms by (auto simp: resolverResult_def split: option.splits)

lemma take_take_prefix:
  assumes "take (length a) b = a" and "take (length b) c = b"
  shows "take (length a) c = a"
proof -
  from assms(1) have "length a = min (length b) (length a)" by (metis length_take)
  then have "length a \<le> length b" by arith
  then have "take (length a) c = take (length a) (take (length b) c)" by (simp add: min_def)
  with assms show ?thesis by simp
qed

lemma resolveMaterial_invariant:
  fixes rd :: "'f::zero Services"
  assumes inv: "importInv scene rd dir s"
  shows "\<exists>ta' s'. resolveMaterial scene rd dir material s = Some (ta', s')
           \<and> importInv scene rd dir s'
           \<and> list_all (descriptorOk (storage s')) ta'
           \<and> take (length (storage s)) (storage s') = storage s"
proof (cases "matOpacity material = Some 0")
  case True
  with inv show ?thesis by (simp add: resolveMaterial_def)
next
  case False
  from resolveDiffuse_result[OF inv, of "[]" material] obtain ok1 ta1 s1 where
    d: "resolveDiffuse scene rd dir material [] s = Some (ok1, ta1, s1)"
    and d1: "importInv scene rd dir s1" and d2: "list_all (descriptorOk (storage s1)) ta1"
    and d3: "take (length (storage s)) (storage s1) = storage s"
    by (auto elim!: resolverResultE)
  show ?thesis
  proof (cases ok1)
    case False
    with \<open>matOpacity material \<noteq> Some 0\<close> d d1 d2 d3 show ?thesis
      by (simp add: resolveMaterial_def)
  next
    case True
    note ok1 = True
    from resolveSpecular_result[OF d1 d2, of material] obtain ok2 ta2 s2 where
      p: "resolveSpecular scene rd dir material ta1 s1 = Some (ok2, ta2, s2)"
      and p1: "importInv scene rd dir s2" and p2: "list_all (descriptorOk (storage s2)) ta2"
      and p3: "take (length (storage s1)) (storage s2) = storage s1"
      by (auto elim!: resolverResultE)
    have p3': "take (length (storage s)) (storage s2) = storage s"
      using take_take_prefix[OF d3 p3] .
    show ?thesis
    proof (cases ok2)
      case False
      with \<open>matOpacity material \<noteq> Some 0\<close> d ok1 p p1 p2 p3' show ?thesis
        by (simp add: resolveMaterial_def)
    next
      case True
      from resolveNormal_result[OF p1 p2, of material] obtain ok3 ta3 s3 where
        n: "resolveNormal scene rd dir material ta2 s2 = Some (ok3, ta3, s3)"
        and n1: "importInv scene rd dir s3" and n2: "list_all (descriptorOk (storage s3)) ta3"
        and n3: "take (length (storage s2)) (storage s3) = storage s2"
        by (auto elim!: resolverResultE)
      have "take (length (storage s)) (storage s3) = storage s"
        using take_take_prefix[OF p3' n3] .
      with \<open>matOpacity material \<noteq> Some 0\<close> d ok1 p True n n1 n2 show ?thesis
        by (simp add: resolveMaterial_def)
    qed
  qed
qed

lemma processMesh_invariant:
  fixes rd :: "'f::{zero,one} Services"
  assumes "importInv scene rd dir s" and "processMesh scene rd dir mesh T s = Some (m, s')"
  shows "importInv scene rd dir s' \<and> list_all (descriptorOk (storage s')) (textures m)
           \<and> take (length (storage s)) (storage s') = storage s"
proof -
  from assms(2) obtain material where
    r: "resolveMaterial scene rd dir material s = Some (textures m, s')"
    by (auto simp: processMesh_def split: option.splits)
  from resolveMaterial_invariant[OF assms(1), of material] r show ?thesis by auto
qed

lemma processMesh_total:
  fixes rd :: "'f::{zero,one} Services"
  assumes "importInv scene rd dir s" and "arraysComplete mesh"
    and "mMaterialIndex mesh < length (mMaterials scene)"
  shows "processMesh scene rd dir mesh T s \<noteq> None"
proof -
  from buildVertices_total[OF assms(2), of rd T] obtain vs where
    v: "buildVertices rd T mesh = Some vs" by blast
  from resolveMaterial_invariant[OF assms(1), of "mMaterials scene ! mMaterialIndex mesh"]
  obtain ta' s' where
    "resolveMaterial scene rd dir (mMaterials scene ! mMaterialIndex mesh) s = Some (ta', s')"
    by blast
  with v assms(3) show ?thesis
    by (simp add: processMesh_def elemAt_def)
qed

lemma keepOrDrop_accOk:
  fixes rd :: "'f::{zero,one} Services"
  assumes acc: "accOk scene rd dir (ms, s)"
    and p: "processMesh scene rd dir mesh T s = Some (m, s')"
  shows "accOk scene rd dir (keepOrDrop force notify mesh m (ms, s'))"
proof -
  from acc have inv: "importInv scene rd dir s"
    and old: "list_all (\<lambda>m. list_all (descriptorOk (storage s)) (textures m)) ms"
    by (simp_all add: accOk_def)
  from processMesh_invariant[OF inv p] have inv': "importInv scene rd dir s'"
    and new: "list_all (descriptorOk (storage s')) (textures m)"
    and pre: "take (length (storage s)) (storage s') = storage s"
    by auto
  from old pre have old': "list_all (\<lambda>m. list_all (descriptorOk (storage s')) (textures m)) ms"
    by (auto simp: list_all_iff intro: descriptorOk_take)
  from inv' new old' show ?thesis
    by (auto simp: accOk_def keepOrDrop_def importInv_info descriptorOk_forcedColorTexture)
qed

lemma runJobs_accOk:
  fixes rd :: "'f::{zero,one} Services"
  assumes "accOk scene rd dir acc" and "runJobs scene rd force notify dir jobs acc = Some acc'"
  shows "accOk scene rd dir acc'"
proof (rule runJobs_invariant[where I = "accOk scene rd dir", OF _ assms])
  fix T :: "'f mat4" and i and mesh :: "'f aiMesh" and ms :: "'f ModelMesh list"
    and s s' :: ImportState and m :: "'f ModelMesh"
  assume "accOk scene rd dir (ms, s)" and "processMesh scene rd dir mesh T s = Some (m, s')"
  then show "accOk scene rd dir (keepOrDrop force notify mesh m (ms, s'))"
    by (rule keepOrDrop_accOk)
qed

lemma runJobs_total:
  fixes rd :: "'f::{zero,one} Services"
  assumes wf: "list_all (\<lambda>mesh. arraysComplete mesh \<and> mMaterialIndex mesh < length (mMaterials scene))
                 (mMeshes scene)"
    and "list_all (\<lambda>job. snd job < length (mMeshes scene)) jobs"
    and "accOk scene rd dir acc"
  shows "runJobs scene rd force notify dir jobs acc \<noteq> None"
  using assms(2,3)
proof (induction jobs arbitrary: acc)
  case Nil
  then show ?case by simp
next
  case (Cons job rest)
  let ?mesh = "mMeshes scene ! snd job"
  from Cons.prems(1) have i: "snd job < length (mMeshes scene)" by simp
  then have e: "elemAt (mMeshes scene) (snd job) = Some ?mesh" by (simp add: elemAt_def)
  from i wf have m: "arraysComplete ?mesh" "mMaterialIndex ?mesh < length (mMaterials scene)"
    by (auto simp: list_all_iff)
  from Cons.prems(2) have inv: "importInv scene rd dir (snd acc)" by (simp add: accOk_def)
  from processMesh_total[OF inv m, of "fst job"] obtain l s' where
    p: "processMesh scene rd dir ?mesh (fst job) (snd acc) = Some (l, s')" by auto
  from Cons.prems(2) have "accOk scene rd dir (fst acc, snd acc)" by simp
  from keepOrDrop_accOk[OF this p]
  have "accOk scene rd dir (keepOrDrop force notify ?mesh l (fst acc, s'))" .
  from Cons.IH[OF _ this] Cons.prems(1) e p show ?case by simp
qed

lemma map_snd_flattenChildren_aux:
  assumes "\<And>c T. c \<in> set cs \<Longrightarrow> map snd (flattenNode rd T c) = nodeMeshIndices c"
  shows "map snd (flattenChildren rd T cs) = childrenMeshIndices cs"
  using assms by (induction cs) auto

lemma map_snd_flattenNode:
  "map snd (flattenNode rd T node) = nodeMeshIndices node"
proof (induction node arbitrary: T)
  case (aiNode t ms cs)
  show ?case
    by (simp add: comp_def map_snd_flattenChildren_aux[OF aiNode.IH])
qed

lemma accOk_initial:
  "accOk scene rd dir ([], \<lparr>storage = [], events = []\<rparr>)"
  by (simp add: accOk_def importInv_def storageOk_def)

lemma loadModel_accOk:
  fixes rd :: "'f::{zero,one} Services"
  assumes "loadModel rd (Some scene) err dir force notify = Inr (g, evs)"
  shows "accOk scene rd dir (meshes g, \<lparr>storage = textureStorage g, events = evs\<rparr>)"
proof -
  from assms obtain rootNode s where
    r: "runJobs scene rd force notify dir (flattenNode rd (defaultMat4x4 rd) rootNode)
          ([], \<lparr>storage = [], events = []\<rparr>) = Some (meshes g, s)"
    and s: "textureStorage g = storage s" "evs = events s"
    by (auto simp: loadModel_def processNode_runJobs split: option.splits if_splits)
  have eq: "\<lparr>storage = textureStorage g, events = evs\<rparr> = s"
    using s by (cases s) simp
  show ?thesis
    unfolding eq using runJobs_accOk[OF accOk_initial r] .
qed

lemma loadModel_total:
  fixes rd :: "'f::{zero,one} Services"
  assumes "wellFormedScene scene"
  shows "\<exists>g evs. loadModel rd (Some scene) err dir force notify = Inr (g, evs)"
proof -
  from assms obtain rootNode where
    root: "mRootNode scene = Some rootNode"
    and idx: "list_all (\<lambda>i. i < length (mMeshes scene)) (nodeMeshIndices rootNode)"
    and wf: "list_all (\<lambda>mesh. arraysComplete mesh \<and> mMaterialIndex mesh < length (mMaterials scene))
                 (mMeshes scene)"
    and c: "\<not> mFlagsIncomplete scene"
    by (auto simp: wellFormedScene_def split: option.splits)
  have "list_all (\<lambda>job. snd job < length (mMeshes scene)) (flattenNode rd (defaultMat4x4 rd) rootNode)"
    using idx unfolding map_snd_flattenNode[of rd "defaultMat4x4 rd" rootNode, symmetric]
    by (simp add: list_all_iff)
  from runJobs_total[OF wf this accOk_initial] root c
  show ?thesis
    by (auto simp: loadModel_def processNode_runJobs split: option.splits)
qed

subsection \<open>Texture load failures\<close>

lemma loadTexture_failure:
  "snd (loadTexture scene rd dir p) = None \<longleftrightarrow>
     (case GetEmbeddedTexture scene p of
        Some t \<Rightarrow> mHeight t \<noteq> 0 \<or> loadTextureMemory rd t = MissingReaderException
                   \<or> loadTextureMemory rd t = TextureLoadException
      | None \<Rightarrow> loadTextureFile rd dir p = MissingReaderException
                  \<or> loadTextureFile rd dir p = TextureLoadException)"
  by (auto simp: loadTexture_def loadResult_def split: option.splits LoadResult.splits)

lemma loadMaterialTextures_failed:
  fixes rd :: "'f::zero Services"
  shows "loadMaterialTextures scene rd dir typeString paths ta s = Some (False, ta', s') \<Longrightarrow>
     \<exists>ta0. ta' = ta0 @ [forcedColorTexture]"
proof (induction paths arbitrary: ta s)
  case Nil
  then show ?case by simp
next
  case (Cons path rest)
  from Cons.prems show ?case
    by (auto split: option.splits bool.splits prod.splits if_splits dest: Cons.IH)
qed

lemma loadModel_recoverable:
  fixes rd :: "'f::{zero,one} Services"
  shows "wellFormedScene scene \<Longrightarrow>
     \<exists>g evs. loadModel rd (Some scene) err dir force notify = Inr (g, evs)"
  by (rule loadModel_total)

text \<open>
  C7. A texture load fails when the decoder is missing, when decoding fails, or when
  the texture is embedded and uncompressed. At the first failure in a channel
  \<^verbatim>\<open>loadMaterialTextures\<close> appends one descriptor with \<open>useForcedColor\<close>, without
  \<open>hasTexture\<close> and with the type \<^verbatim>\<open>color_diffuse\<close>, and returns \<^verbatim>\<open>false\<close> without looking
  at the remaining textures of the channel; \<^verbatim>\<open>processMesh\<close> then returns the mesh with the
  textures collected so far, without resolving the later channels. The failure never
  makes \<^verbatim>\<open>loadModel\<close> fail: on every well-formed scene it returns a geometry, whatever
  the decoding service does.
\<close>
theorem texture_load_failure:
  fixes rd :: "'f::{zero,one} Services"
  shows
   "(snd (loadTexture scene rd dir p) = None \<longleftrightarrow>
       (case GetEmbeddedTexture scene p of
          Some t \<Rightarrow> mHeight t \<noteq> 0 \<or> loadTextureMemory rd t = MissingReaderException
                     \<or> loadTextureMemory rd t = TextureLoadException
        | None \<Rightarrow> loadTextureFile rd dir p = MissingReaderException
                    \<or> loadTextureFile rd dir p = TextureLoadException))
    \<and> (loadedForMesh (storage s) ta path = Some False \<and> findByName (storage s) path 0 = None
        \<and> loadTexture scene rd dir (c_str path) = (evs, None) \<longrightarrow>
          loadMaterialTextures scene rd dir typeString (path # rest) ta s
            = Some (False, ta @ [forcedColorTexture], s\<lparr>events := events s @ evs\<rparr>))
    \<and> useForcedColor (forcedColorTexture :: 'f MeshTexture)
    \<and> \<not> hasTexture (forcedColorTexture :: 'f MeshTexture)
    \<and> type (forcedColorTexture :: 'f MeshTexture) = ''color_diffuse''
    \<and> (loadMaterialTextures scene rd dir typeString paths ta s = Some (False, ta', s') \<longrightarrow>
          ta' \<noteq> [] \<and> last ta' = forcedColorTexture)
    \<and> (buildVertices rd T mesh = Some vs
        \<and> elemAt (mMaterials scene) (mMaterialIndex mesh) = Some material
        \<and> matOpacity material \<noteq> Some 0
        \<and> resolveDiffuse scene rd dir material [] s = Some (False, ta1, s1) \<longrightarrow>
          processMesh scene rd dir mesh T s
            = Some (\<lparr>vertices = vs, indices = concat (mFaces mesh), textures = ta1\<rparr>, s1))
    \<and> (buildVertices rd T mesh = Some vs
        \<and> elemAt (mMaterials scene) (mMaterialIndex mesh) = Some material
        \<and> matOpacity material \<noteq> Some 0
        \<and> resolveDiffuse scene rd dir material [] s = Some (True, ta1, s1)
        \<and> resolveSpecular scene rd dir material ta1 s1 = Some (False, ta2, s2) \<longrightarrow>
          processMesh scene rd dir mesh T s
            = Some (\<lparr>vertices = vs, indices = concat (mFaces mesh), textures = ta2\<rparr>, s2))
    \<and> (wellFormedScene scene \<longrightarrow>
          (\<exists>g evs'. loadModel rd (Some scene) err dir force notify = Inr (g, evs')))"
proof (intro conjI impI)
  show "snd (loadTexture scene rd dir p) = None \<longleftrightarrow>
       (case GetEmbeddedTexture scene p of
          Some t \<Rightarrow> mHeight t \<noteq> 0 \<or> loadTextureMemory rd t = MissingReaderException
                     \<or> loadTextureMemory rd t = TextureLoadException
        | None \<Rightarrow> loadTextureFile rd dir p = MissingReaderException
                    \<or> loadTextureFile rd dir p = TextureLoadException)"
    by (rule loadTexture_failure)
  show "useForcedColor (forcedColorTexture :: 'f MeshTexture)"
    and "\<not> hasTexture (forcedColorTexture :: 'f MeshTexture)"
    and "type (forcedColorTexture :: 'f MeshTexture) = ''color_diffuse''"
    by (simp_all add: forcedColorTexture_def defaultTexture_def)
next
  assume "loadedForMesh (storage s) ta path = Some False \<and> findByName (storage s) path 0 = None
        \<and> loadTexture scene rd dir (c_str path) = (evs, None)"
  then show "loadMaterialTextures scene rd dir typeString (path # rest) ta s
            = Some (False, ta @ [forcedColorTexture], s\<lparr>events := events s @ evs\<rparr>)"
    by simp
next
  assume a: "loadMaterialTextures scene rd dir typeString paths ta s = Some (False, ta', s')"
  from loadMaterialTextures_failed[OF a]
  show "ta' \<noteq> []" and "last ta' = forcedColorTexture" by auto
next
  assume "buildVertices rd T mesh = Some vs
        \<and> elemAt (mMaterials scene) (mMaterialIndex mesh) = Some material
        \<and> matOpacity material \<noteq> Some 0
        \<and> resolveDiffuse scene rd dir material [] s = Some (False, ta1, s1)"
  then show "processMesh scene rd dir mesh T s
            = Some (\<lparr>vertices = vs, indices = concat (mFaces mesh), textures = ta1\<rparr>, s1)"
    by (simp add: processMesh_def resolveMaterial_def buildIndices_def)
next
  assume "buildVertices rd T mesh = Some vs
        \<and> elemAt (mMaterials scene) (mMaterialIndex mesh) = Some material
        \<and> matOpacity material \<noteq> Some 0
        \<and> resolveDiffuse scene rd dir material [] s = Some (True, ta1, s1)
        \<and> resolveSpecular scene rd dir material ta1 s1 = Some (False, ta2, s2)"
  then show "processMesh scene rd dir mesh T s
            = Some (\<lparr>vertices = vs, indices = concat (mFaces mesh), textures = ta2\<rparr>, s2)"
    by (simp add: processMesh_def resolveMaterial_def buildIndices_def)
next
  assume "wellFormedScene scene"
  then show "\<exists>g evs'. loadModel rd (Some scene) err dir force notify = Inr (g, evs')"
    by (rule loadModel_recoverable)
qed

lemma brokenScene_loadModel:
  "loadModel exampleServices (Some brokenScene) [] ''models'' False False
     = Inr (brokenGeometry, undecodedEvents)"
  by (simp add: mesh_eval texture_eval example_eval brokenScene_def brokenMaterial_def
        undecodedMaterial_def brokenGeometry_def brokenEvents_def undecodedEvents_def
        woodEntry_def woodDescriptor_def triangleMesh_def)

theorem texture_load_failure_witness:
  "snd (loadTexture brokenScene exampleServices ''models'' ''broken.png'') = None
   \<and> loadedForMesh [woodEntry] [woodDescriptor] ''broken.png'' = Some False
   \<and> findByName [woodEntry] ''broken.png'' 0 = None
   \<and> loadTexture brokenScene exampleServices ''models'' (c_str ''broken.png'')
       = ([LoadTextureCall ''broken.png'',
           LWARNING ''Failed to load texture: Replacing with flashy color.''], None)
   \<and> loadMaterialTextures brokenScene exampleServices ''models'' ''texture_diffuse''
        [''broken.png'', ''later.png''] [woodDescriptor]
        \<lparr>storage = [woodEntry], events = [LoadTextureCall ''wood.png'']\<rparr>
       = Some (False, [woodDescriptor, forcedColorTexture],
               \<lparr>storage = [woodEntry], events = brokenEvents\<rparr>)
   \<and> last [woodDescriptor, forcedColorTexture] = forcedColorTexture
   \<and> buildVertices exampleServices identity triangle = Some (vertices triangleMesh)
   \<and> elemAt (mMaterials brokenScene) (mMaterialIndex triangle) = Some brokenMaterial
   \<and> matOpacity brokenMaterial \<noteq> Some 0
   \<and> resolveDiffuse brokenScene exampleServices ''models'' brokenMaterial [] emptyState
       = Some (False, [woodDescriptor, forcedColorTexture],
               \<lparr>storage = [woodEntry], events = brokenEvents\<rparr>)
   \<and> processMesh brokenScene exampleServices ''models'' triangle identity emptyState
       = Some (triangleMesh\<lparr>textures := [woodDescriptor, forcedColorTexture]\<rparr>,
               \<lparr>storage = [woodEntry], events = brokenEvents\<rparr>)
   \<and> elemAt (mMaterials brokenScene) (mMaterialIndex (triangle\<lparr>mMaterialIndex := 1\<rparr>))
       = Some undecodedMaterial
   \<and> matOpacity undecodedMaterial \<noteq> Some 0
   \<and> resolveDiffuse brokenScene exampleServices ''models'' undecodedMaterial []
        \<lparr>storage = [woodEntry], events = brokenEvents\<rparr>
       = Some (True, [woodDescriptor], \<lparr>storage = [woodEntry], events = brokenEvents\<rparr>)
   \<and> resolveSpecular brokenScene exampleServices ''models'' undecodedMaterial [woodDescriptor]
        \<lparr>storage = [woodEntry], events = brokenEvents\<rparr>
       = Some (False, [woodDescriptor, forcedColorTexture],
               \<lparr>storage = [woodEntry], events = undecodedEvents\<rparr>)
   \<and> processMesh brokenScene exampleServices ''models'' (triangle\<lparr>mMaterialIndex := 1\<rparr>)
        identity \<lparr>storage = [woodEntry], events = brokenEvents\<rparr>
       = Some (triangleMesh\<lparr>textures := [woodDescriptor, forcedColorTexture]\<rparr>,
               \<lparr>storage = [woodEntry], events = undecodedEvents\<rparr>)
   \<and> wellFormedScene brokenScene
   \<and> loadModel exampleServices (Some brokenScene) [] ''models'' False False
       = Inr (brokenGeometry, undecodedEvents)"
proof -
  let ?s = "\<lparr>storage = [woodEntry], events = [LoadTextureCall ''wood.png'']\<rparr>"
  let ?s1 = "\<lparr>storage = [woodEntry], events = brokenEvents\<rparr>"
  let ?s2 = "\<lparr>storage = [woodEntry], events = undecodedEvents\<rparr>"
  let ?w = "LWARNING ''Failed to load texture: Replacing with flashy color.''"
  let ?ta = "[woodDescriptor, forcedColorTexture]"
  let ?tri = "triangle\<lparr>mMaterialIndex := 1\<rparr>"
  note ev = mesh_eval texture_eval example_eval brokenScene_def brokenMaterial_def
    undecodedMaterial_def brokenEvents_def undecodedEvents_def woodEntry_def woodDescriptor_def
    triangleMesh_def
  note t = texture_load_failure[of brokenScene exampleServices "''models''" "''broken.png''"
      ?s "[woodDescriptor]" "''broken.png''" "[LoadTextureCall ''broken.png'', ?w]"
      "''texture_diffuse''" "[''later.png'']" "[''broken.png'', ''later.png'']" ?ta ?s1
      identity triangle "vertices triangleMesh" brokenMaterial ?ta ?s1 ?ta ?s2 "[]" False False]
  note v = texture_load_failure[where scene = brokenScene and rd = exampleServices
      and dir = "''models''" and s = "\<lparr>storage = [], events = []\<rparr>" and T = identity
      and mesh = triangle and vs = "vertices triangleMesh" and material = brokenMaterial
      and ?ta1.0 = ?ta and ?s1.0 = ?s1]
  note u = texture_load_failure[where scene = brokenScene and rd = exampleServices
      and dir = "''models''" and s = ?s1 and T = identity
      and mesh = ?tri and vs = "vertices triangleMesh" and material = undecodedMaterial
      and ?ta1.0 = "[woodDescriptor]" and ?s1.0 = ?s1 and ?ta2.0 = ?ta and ?s2.0 = ?s2]
  have a: "loadedForMesh (storage ?s) [woodDescriptor] ''broken.png'' = Some False"
    by (simp add: ev)
  have b: "findByName (storage ?s) ''broken.png'' 0 = None"
    by (simp add: ev)
  have c: "loadTexture brokenScene exampleServices ''models'' (c_str ''broken.png'')
       = ([LoadTextureCall ''broken.png'', ?w], None)"
    by (simp add: ev)
  have c': "snd (loadTexture brokenScene exampleServices ''models'' ''broken.png'') = None"
    by (simp add: ev)
  from t[THEN conjunct2, THEN conjunct1, rule_format, OF conjI[OF a conjI[OF b c]]]
  have step: "loadMaterialTextures brokenScene exampleServices ''models'' ''texture_diffuse''
        [''broken.png'', ''later.png''] [woodDescriptor] ?s = Some (False, ?ta, ?s1)"
    by (simp add: brokenEvents_def)
  have l: "last ?ta = forcedColorTexture" by simp
  have e: "buildVertices exampleServices identity triangle = Some (vertices triangleMesh)"
    by (simp add: ev)
  have e': "buildVertices exampleServices identity ?tri = Some (vertices triangleMesh)"
    by (simp add: ev)
  have f: "elemAt (mMaterials brokenScene) (mMaterialIndex triangle) = Some brokenMaterial"
    by (simp add: brokenScene_def sceneOf_def triangle_def elemAt_def)
  have f': "elemAt (mMaterials brokenScene) (mMaterialIndex ?tri) = Some undecodedMaterial"
    by (simp add: brokenScene_def sceneOf_def triangle_def elemAt_def)
  have g: "matOpacity brokenMaterial \<noteq> Some 0"
    by (simp add: brokenMaterial_def woodMaterial_def)
  have g': "matOpacity undecodedMaterial \<noteq> Some 0"
    by (simp add: undecodedMaterial_def woodMaterial_def)
  have h: "resolveDiffuse brokenScene exampleServices ''models'' brokenMaterial [] emptyState
       = Some (False, ?ta, ?s1)"
    by (simp add: ev)
  have h1: "resolveDiffuse brokenScene exampleServices ''models'' undecodedMaterial [] ?s1
       = Some (True, [woodDescriptor], ?s1)"
    by (simp add: ev)
  have h2: "resolveSpecular brokenScene exampleServices ''models'' undecodedMaterial
        [woodDescriptor] ?s1 = Some (False, ?ta, ?s2)"
    by (simp add: ev)
  have m: "\<lparr>vertices = vertices triangleMesh, indices = concat (mFaces tri'), textures = ?ta\<rparr>
           = triangleMesh\<lparr>textures := ?ta\<rparr>" if "mFaces tri' = mFaces triangle"
    for tri' :: "int aiMesh"
    using that by (simp add: triangleMesh_def triangle_def)
  from v[THEN conjunct2, THEN conjunct2, THEN conjunct2, THEN conjunct2, THEN conjunct2,
      THEN conjunct2, THEN conjunct1, rule_format,
      OF conjI[OF e conjI[OF f conjI[OF g h[unfolded emptyState_def]]]]]
  have p: "processMesh brokenScene exampleServices ''models'' triangle identity emptyState
       = Some (triangleMesh\<lparr>textures := ?ta\<rparr>, ?s1)"
    by (simp add: m emptyState_def)
  from u[THEN conjunct2, THEN conjunct2, THEN conjunct2, THEN conjunct2, THEN conjunct2,
      THEN conjunct2, THEN conjunct2, THEN conjunct1, rule_format,
      OF conjI[OF e' conjI[OF f' conjI[OF g' conjI[OF h1 h2]]]]]
  have p': "processMesh brokenScene exampleServices ''models'' ?tri identity ?s1
       = Some (triangleMesh\<lparr>textures := ?ta\<rparr>, ?s2)"
    by (simp add: m)
  have d: "wellFormedScene brokenScene"
    by (simp add: wellFormedScene_def brokenScene_def sceneOf_def arraysComplete_def triangle_def)
  from a b have a': "loadedForMesh [woodEntry] [woodDescriptor] ''broken.png'' = Some False"
    and b': "findByName [woodEntry] ''broken.png'' 0 = None"
    by simp_all
  show ?thesis
    by (intro conjI c' a' b' c step l e f g h p f' g' h1 h2 p' d brokenScene_loadModel)
qed

subsection \<open>The transparency scan\<close>

lemma upToFirst_Nil [simp]: "upToFirst P [] = []"
  by (simp add: upToFirst_def)

lemma upToFirst_Cons:
  "upToFirst P (x # xs) = (if P x then [x] else x # upToFirst P xs)"
  by (simp add: upToFirst_def)

lemma upToFirst_none:
  "\<forall>x \<in> set xs. \<not> P x \<Longrightarrow> upToFirst P xs = xs"
  by (induction xs) (auto simp: upToFirst_Cons)

lemma upToFirst_append:
  "upToFirst P (xs @ ys) = (if \<exists>x \<in> set xs. P x then upToFirst P xs else xs @ upToFirst P ys)"
  by (induction xs) (auto simp: upToFirst_Cons)

lemma upToFirst_map:
  "upToFirst P (map f xs) = map f (upToFirst (\<lambda>x. P (f x)) xs)"
  by (simp add: upToFirst_def takeWhile_map dropWhile_map take_map comp_def)

lemma scanInner_found:
  "fst (scanInner a ks) \<longleftrightarrow> (\<exists>k \<in> set ks. a k \<noteq> 0)"
  by (induction ks) auto

lemma scanInner_read:
  "snd (scanInner a ks) = upToFirst (\<lambda>k. a k \<noteq> 0) ks"
  by (induction ks) (auto simp: upToFirst_Cons)

lemma scanOuter_True:
  "scanOuter a js ks True = (True, [])"
  by (cases js) auto

lemma scanOuter_found:
  "fst (scanOuter a js ks False) \<longleftrightarrow> (\<exists>j \<in> set js. \<exists>k \<in> set ks. a j k \<noteq> 0)"
proof (induction js)
  case Nil
  then show ?case by simp
next
  case (Cons j js)
  show ?case
  proof (cases "fst (scanInner (a j) ks)")
    case True
    then show ?thesis
      by (auto simp: scanOuter_True scanInner_found)
  next
    case False
    with Cons show ?thesis
      by (auto simp: scanInner_found)
  qed
qed

lemma scanOuter_read:
  "snd (scanOuter a js ks False)
     = upToFirst (\<lambda>(j, k). a j k \<noteq> 0) (concat (map (\<lambda>j. map (Pair j) ks) js))"
proof (induction js)
  case Nil
  then show ?case by simp
next
  case (Cons j js)
  have m: "map (Pair j) (snd (scanInner (a j) ks))
             = upToFirst (\<lambda>(j, k). a j k \<noteq> 0) (map (Pair j) ks)"
    by (simp add: scanInner_read upToFirst_map)
  show ?case
  proof (cases "fst (scanInner (a j) ks)")
    case True
    then have "\<exists>x \<in> set (map (Pair j) ks). (\<lambda>(j, k). a j k \<noteq> 0) x"
      by (auto simp: scanInner_found)
    then show ?thesis
      using True by (simp add: upToFirst_append scanOuter_True m del: set_map)
  next
    case False
    then have n: "\<not> (\<exists>x \<in> set (map (Pair j) ks). (\<lambda>(j, k). a j k \<noteq> 0) x)"
      by (auto simp: scanInner_found)
    have "snd (scanInner (a j) ks) = ks"
      using False by (simp add: scanInner_read scanInner_found upToFirst_none)
    with n False Cons show ?thesis
      by (simp add: upToFirst_append del: set_map)
  qed
qed

lemma isOpague_iff:
  "isOpague rd t \<longleftrightarrow>
     (\<exists>j < unat (fst (dimensions t)). \<exists>k < unat (fst (snd (dimensions t))).
        texelAlpha rd t j k \<noteq> 0)"
  by (cases "dimensions t") (fastforce simp: isOpague_def scanTexture_def scanOuter_found)

lemma scanTexture_read:
  "snd (scanTexture rd t)
     = upToFirst (\<lambda>(j, k). texelAlpha rd t j k \<noteq> 0)
         (texelOrder (unat (fst (dimensions t))) (unat (fst (snd (dimensions t)))))"
  by (cases "dimensions t") (simp add: scanTexture_def scanOuter_read texelOrder_def)

lemma loadModel_opaque:
  fixes rd :: "'f::{zero,one} Services"
  assumes "loadModel rd (Some scene) err dir force notify = Inr (g, evs)"
  shows "list_all (\<lambda>e. isOpague rd (texture e)) (textureStorage g)"
    and "\<forall>m \<in> set (meshes g). \<forall>d \<in> set (textures m). hasTexture d \<longrightarrow>
           (\<exists>i < length (textureStorage g). textureRef d = Some i
              \<and> isOpague rd (texture (textureStorage g ! i)))"
proof -
  from loadModel_accOk[OF assms] have
    inv: "importInv scene rd dir \<lparr>storage = textureStorage g, events = evs\<rparr>"
    and ds: "list_all (\<lambda>m. list_all (descriptorOk (textureStorage g)) (textures m)) (meshes g)"
    by (simp_all add: accOk_def)
  from inv show op: "list_all (\<lambda>e. isOpague rd (texture e)) (textureStorage g)"
    by (simp add: importInv_def)
  show "\<forall>m \<in> set (meshes g). \<forall>d \<in> set (textures m). hasTexture d \<longrightarrow>
           (\<exists>i < length (textureStorage g). textureRef d = Some i
              \<and> isOpague rd (texture (textureStorage g ! i)))"
  proof (intro ballI impI)
    fix m d assume "m \<in> set (meshes g)" "d \<in> set (textures m)" "hasTexture d"
    with ds have "descriptorOk (textureStorage g) d" by (auto simp: list_all_iff)
    with \<open>hasTexture d\<close> obtain i where "textureRef d = Some i" "i < length (textureStorage g)"
      by (auto simp: descriptorOk_def split: option.splits)
    with op show "\<exists>i < length (textureStorage g). textureRef d = Some i
              \<and> isOpague rd (texture (textureStorage g ! i))"
      by (auto simp: list_all_iff)
  qed
qed

text \<open>
  C5. After a successful load the scan reads the texels in order and stops at the first
  one whose alpha is not zero; the texture counts as opaque exactly when it has such a
  texel. A loaded texture all of whose texels have alpha zero is discarded: the step
  changes neither the texture array of the mesh nor the storage, in every channel. So
  no entry of the storage that \<^verbatim>\<open>loadModel\<close> returns is fully transparent, and every
  descriptor with \<open>hasTexture\<close> references such an entry.
\<close>
theorem transparent_texture_discarded:
  fixes rd :: "'f::{zero,one} Services"
  shows
   "(isOpague rd t \<longleftrightarrow>
       (\<exists>j < unat (fst (dimensions t)). \<exists>k < unat (fst (snd (dimensions t))).
          texelAlpha rd t j k \<noteq> 0))
    \<and> snd (scanTexture rd t)
        = upToFirst (\<lambda>(j, k). texelAlpha rd t j k \<noteq> 0)
            (texelOrder (unat (fst (dimensions t))) (unat (fst (snd (dimensions t)))))
    \<and> (loadedForMesh (storage s) ta path = Some False \<and> findByName (storage s) path 0 = None
        \<and> loadTexture scene rd dir (c_str path) = (evs, Some t') \<and> \<not> isOpague rd t' \<longrightarrow>
          loadMaterialTextures scene rd dir typeString (path # rest) ta s
            = loadMaterialTextures scene rd dir typeString rest ta
                (s\<lparr>events := events s @ evs\<rparr>))
    \<and> (loadModel rd (Some scene) err dir force notify = Inr (g, evs') \<longrightarrow>
          list_all (\<lambda>e. isOpague rd (texture e)) (textureStorage g)
          \<and> (\<forall>m \<in> set (meshes g). \<forall>d \<in> set (textures m). hasTexture d \<longrightarrow>
               (\<exists>i < length (textureStorage g). textureRef d = Some i
                  \<and> isOpague rd (texture (textureStorage g ! i)))))"
proof (intro conjI impI)
  show "isOpague rd t \<longleftrightarrow>
       (\<exists>j < unat (fst (dimensions t)). \<exists>k < unat (fst (snd (dimensions t))).
          texelAlpha rd t j k \<noteq> 0)"
    by (rule isOpague_iff)
  show "snd (scanTexture rd t)
        = upToFirst (\<lambda>(j, k). texelAlpha rd t j k \<noteq> 0)
            (texelOrder (unat (fst (dimensions t))) (unat (fst (snd (dimensions t)))))"
    by (rule scanTexture_read)
next
  assume "loadedForMesh (storage s) ta path = Some False \<and> findByName (storage s) path 0 = None
        \<and> loadTexture scene rd dir (c_str path) = (evs, Some t') \<and> \<not> isOpague rd t'"
  then show "loadMaterialTextures scene rd dir typeString (path # rest) ta s
            = loadMaterialTextures scene rd dir typeString rest ta
                (s\<lparr>events := events s @ evs\<rparr>)"
    by simp
next
  assume a: "loadModel rd (Some scene) err dir force notify = Inr (g, evs')"
  from loadModel_opaque[OF a]
  show "list_all (\<lambda>e. isOpague rd (texture e)) (textureStorage g)"
    and "\<forall>m \<in> set (meshes g). \<forall>d \<in> set (textures m). hasTexture d \<longrightarrow>
               (\<exists>i < length (textureStorage g). textureRef d = Some i
                  \<and> isOpague rd (texture (textureStorage g ! i)))"
    by auto
qed

lemma clearScene_loadModel:
  "loadModel exampleServices (Some clearScene) [] ''models'' True False
     = Inr (clearGeometry, [LoadTextureCall ''clear.png'', LoadTextureCall ''clear.png''])"
  by (simp add: mesh_eval texture_eval example_eval clearScene_def clearMaterial_def
        clearGeometry_def triangleMesh_def)

theorem transparent_texture_discarded_witness:
  "\<not> isOpague exampleServices ((texelOf [150, 100, 50, 0])\<lparr>texName := ''clear.png''\<rparr>)
   \<and> isOpague exampleServices striped
   \<and> snd (scanTexture exampleServices striped) = [(0, 0), (0, 1)]
   \<and> texelOrder 2 2 = [(0, 0), (0, 1), (1, 0), (1, 1)]
   \<and> loadedForMesh [] ([] :: int MeshTexture list) ''clear.png'' = Some False
   \<and> findByName [] ''clear.png'' 0 = None
   \<and> loadTexture clearScene exampleServices ''models'' (c_str ''clear.png'')
       = ([LoadTextureCall ''clear.png''],
          Some ((texelOf [150, 100, 50, 0])\<lparr>texName := ''clear.png''\<rparr>))
   \<and> loadMaterialTextures clearScene exampleServices ''models'' ''texture_diffuse''
        [''clear.png''] [] emptyState
       = Some (True, [], \<lparr>storage = [], events = [LoadTextureCall ''clear.png'']\<rparr>)
   \<and> loadModel exampleServices (Some clearScene) [] ''models'' True False
       = Inr (clearGeometry, [LoadTextureCall ''clear.png'', LoadTextureCall ''clear.png''])
   \<and> textureStorage clearGeometry = []
   \<and> loadModel exampleServices (Some woodScene) [] ''models'' False False
       = Inr (woodGeometry, [LoadTextureCall ''wood.png''])
   \<and> isOpague exampleServices (texture (textureStorage woodGeometry ! 0))"
proof -
  let ?clear = "(texelOf [150, 100, 50, 0])\<lparr>texName := ''clear.png''\<rparr>"
  note ev = mesh_eval texture_eval example_eval clearScene_def clearMaterial_def
  note c = transparent_texture_discarded[where rd = exampleServices and t = striped
      and s = emptyState and ta = "[]" and path = "''clear.png''" and scene = clearScene
      and dir = "''models''" and evs = "[LoadTextureCall ''clear.png'']" and t' = ?clear
      and typeString = "''texture_diffuse''" and rest = "[]"]
  note w = transparent_texture_discarded[where rd = exampleServices and scene = woodScene
      and err = "[]" and dir = "''models''" and force = False and notify = False
      and g = woodGeometry and evs' = "[LoadTextureCall ''wood.png'']"]
  have a: "\<not> isOpague exampleServices ?clear"
    by (simp add: ev)
  have two: "[0..<2] = [0, Suc 0]"
    by (simp add: numeral_2_eq_2)
  have b: "isOpague exampleServices striped"
    by (simp add: ev striped_def two)
  have o: "texelOrder 2 2 = [(0, 0), (0, 1), (1, 0), (1, 1)]"
    by (simp add: texelOrder_def numeral_2_eq_2)
  have d: "unat (fst (dimensions striped)) = 2" "unat (fst (snd (dimensions striped))) = 2"
    by (simp_all add: striped_def)
  from c[THEN conjunct2, THEN conjunct1]
  have r: "snd (scanTexture exampleServices striped) = [(0, 0), (0, 1)]"
    by (simp add: d o upToFirst_Cons) (simp add: exampleServices_def striped_def)
  have e: "loadedForMesh (storage emptyState) ([] :: int MeshTexture list) ''clear.png''
             = Some False"
    and f: "findByName (storage emptyState) ''clear.png'' 0 = None"
    by (simp_all add: emptyState_def)
  have l: "loadTexture clearScene exampleServices ''models'' (c_str ''clear.png'')
       = ([LoadTextureCall ''clear.png''], Some ?clear)"
    by (simp add: ev)
  from c[THEN conjunct2, THEN conjunct2, THEN conjunct1, rule_format,
      OF conjI[OF e conjI[OF f conjI[OF l a]]]]
  have st: "loadMaterialTextures clearScene exampleServices ''models'' ''texture_diffuse''
        [''clear.png''] [] emptyState
       = Some (True, [], \<lparr>storage = [], events = [LoadTextureCall ''clear.png'']\<rparr>)"
    by (simp add: emptyState_def)
  have g: "textureStorage clearGeometry = []"
    by (simp add: clearGeometry_def)
  from w[THEN conjunct2, THEN conjunct2, THEN conjunct2, rule_format, OF woodScene_loadModel]
  have h: "isOpague exampleServices (texture (textureStorage woodGeometry ! 0))"
    by (simp add: woodGeometry_def)
  from e f have e': "loadedForMesh [] ([] :: int MeshTexture list) ''clear.png'' = Some False"
    and f': "findByName [] ''clear.png'' 0 = None"
    by (simp_all add: emptyState_def)
  show ?thesis
    by (intro conjI a b r o e' f' l st clearScene_loadModel g woodScene_loadModel h)
qed

subsection \<open>Reuse of stored textures\<close>

lemma loadedForMesh_True:
  "loadedForMesh st ta p = Some True \<Longrightarrow>
     \<exists>d \<in> set ta. hasTexture d
       \<and> (\<exists>i < length st. textureRef d = Some i \<and> c_str (texName (texture (st ! i))) = c_str p)"
proof (induction ta)
  case Nil
  then show ?case by simp
next
  case (Cons t ts)
  then show ?case
    by (auto simp: textureName_def elemAt_def split: if_splits option.splits)
qed

lemma storageOk_index:
  assumes ok: "storageOk st" and i: "i < length st" and j: "j < length st"
    and eq: "c_str (name (st ! i)) = c_str (name (st ! j))"
  shows "i = j"
proof -
  from ok i j have "c_str (name (st ! i)) = name (st ! i)" "c_str (name (st ! j)) = name (st ! j)"
    by (auto simp: storageOk_def list_all_iff)
  with eq have e: "map name st ! i = map name st ! j" using i j by simp
  from ok have d: "distinct (map name st)" by (simp add: storageOk_def)
  from i j have "i < length (map name st)" "j < length (map name st)" by simp_all
  from nth_eq_iff_index_eq[OF d this] e show ?thesis by blast
qed

lemma storageOk_texName:
  "storageOk st \<Longrightarrow> i < length st \<Longrightarrow> texName (texture (st ! i)) = name (st ! i)"
  by (auto simp: storageOk_def list_all_iff)

lemma reuse_step:
  fixes rd :: "'f::zero Services"
  assumes inv: "importInv scene rd dir s"
    and ds: "list_all (descriptorOk (storage s)) ta"
    and f: "findByName (storage s) path 0 = Some j"
  shows "\<exists>ta'. loadMaterialTextures scene rd dir typeString (path # rest) ta s
                 = loadMaterialTextures scene rd dir typeString rest ta' s
           \<and> (ta' = ta \<or> ta' = ta @ [defaultTexture\<lparr>type := typeString, textureRef := Some j,
                                           hasTexture := True\<rparr>])
           \<and> (\<exists>d \<in> set ta'. hasTexture d \<and> textureRef d = Some j)"
proof -
  from inv have ok: "storageOk (storage s)" by (simp add: importInv_def)
  from findByName_zero[OF f] have j: "j < length (storage s)"
    and nj: "c_str (name (storage s ! j)) = c_str path" by auto
  from loadedForMesh_defined[OF ds] obtain b where
    b: "loadedForMesh (storage s) ta path = Some b" by blast
  show ?thesis
  proof (cases b)
    case True
    from b True have "loadedForMesh (storage s) ta path = Some True" by simp
    from loadedForMesh_True[OF this] obtain d i where
      d: "d \<in> set ta" "hasTexture d" and i: "i < length (storage s)" "textureRef d = Some i"
      and n: "c_str (texName (texture (storage s ! i))) = c_str path"
      by blast
    from n storageOk_texName[OF ok i(1)] nj
    have "c_str (name (storage s ! i)) = c_str (name (storage s ! j))" by simp
    from storageOk_index[OF ok i(1) j this] have "i = j" .
    with d i b True show ?thesis by auto
  next
    case False
    have upd: "s\<lparr>storage := (storage s)[j := (storage s ! j)\<lparr>texture :=
                   (texture (storage s ! j))\<lparr>texName := c_str path\<rparr>\<rparr>]\<rparr> = s"
      by (simp add: storage_update_id[OF ok f])
    let ?d = "defaultTexture\<lparr>type := typeString, textureRef := Some j, hasTexture := True\<rparr>
                :: 'f MeshTexture"
    have "loadMaterialTextures scene rd dir typeString (path # rest) ta s
            = loadMaterialTextures scene rd dir typeString rest (ta @ [?d]) s"
      using b False f by (simp add: upd)
    moreover have "\<exists>d \<in> set (ta @ [?d]). hasTexture d \<and> textureRef d = Some j"
      by simp
    ultimately show ?thesis by blast
  qed
qed

lemma loadModel_storage:
  fixes rd :: "'f::{zero,one} Services"
  assumes "loadModel rd (Some scene) err dir force notify = Inr (g, evs)"
  shows "distinct (map name (textureStorage g))"
    and "\<forall>e \<in> set (textureStorage g). count_list evs (LoadTextureCall (name e)) = 1"
    and "\<forall>m1 \<in> set (meshes g). \<forall>m2 \<in> set (meshes g).
           \<forall>d1 \<in> set (textures m1). \<forall>d2 \<in> set (textures m2).
             hasTexture d1 \<and> hasTexture d2
             \<and> textureName (textureStorage g) d1 = textureName (textureStorage g) d2 \<longrightarrow>
               textureRef d1 = textureRef d2"
proof -
  let ?st = "textureStorage g"
  from loadModel_accOk[OF assms] have
    inv: "importInv scene rd dir \<lparr>storage = ?st, events = evs\<rparr>"
    and ds: "list_all (\<lambda>m. list_all (descriptorOk ?st) (textures m)) (meshes g)"
    by (simp_all add: accOk_def)
  from inv have ok: "storageOk ?st" by (simp add: importInv_def)
  then show "distinct (map name ?st)" by (simp add: storageOk_def)
  from inv show "\<forall>e \<in> set ?st. count_list evs (LoadTextureCall (name e)) = 1"
    by (simp add: importInv_def list_all_iff)
  show "\<forall>m1 \<in> set (meshes g). \<forall>m2 \<in> set (meshes g).
           \<forall>d1 \<in> set (textures m1). \<forall>d2 \<in> set (textures m2).
             hasTexture d1 \<and> hasTexture d2 \<and> textureName ?st d1 = textureName ?st d2 \<longrightarrow>
               textureRef d1 = textureRef d2"
  proof (intro ballI impI, elim conjE)
    fix m1 m2 d1 d2
    assume m: "m1 \<in> set (meshes g)" "m2 \<in> set (meshes g)"
      and d: "d1 \<in> set (textures m1)" "d2 \<in> set (textures m2)"
      and h: "hasTexture d1" "hasTexture d2"
      and n: "textureName ?st d1 = textureName ?st d2"
    from ds m d have "descriptorOk ?st d1" "descriptorOk ?st d2"
      by (auto simp: list_all_iff)
    with h obtain i1 i2 where r: "textureRef d1 = Some i1" "textureRef d2 = Some i2"
      and i: "i1 < length ?st" "i2 < length ?st"
      by (auto simp: descriptorOk_def split: option.splits)
    from n r i have "texName (texture (?st ! i1)) = texName (texture (?st ! i2))"
      by (simp add: textureName_def elemAt_def)
    with storageOk_texName[OF ok] i have "name (?st ! i1) = name (?st ! i2)" by simp
    then have "c_str (name (?st ! i1)) = c_str (name (?st ! i2))" by simp
    from storageOk_index[OF ok i this] r show "textureRef d1 = textureRef d2" by simp
  qed
qed

lemma findByName_append:
  "findByName st p j0 = Some j \<Longrightarrow> findByName (st @ new) p j0 = Some j"
  by (induction st arbitrary: j0) (auto split: if_splits)

lemma findByName_snoc:
  "findByName st p j0 = None \<Longrightarrow> c_str (name e) = c_str p \<Longrightarrow>
     findByName (st @ [e]) p j0 = Some (j0 + length st)"
  by (induction st arbitrary: j0) (auto split: if_splits)

lemma findByName_c_str:
  "c_str p = c_str q \<Longrightarrow> findByName st p j = findByName st q j"
  by (induction st arbitrary: j) auto

lemma resolvesTo_mono:
  "resolvesTo st ta p \<Longrightarrow> resolvesTo (st @ new) (ta @ add) p"
  by (auto simp: resolvesTo_def findByName_append split: option.splits)

lemma resolvesTo_c_str:
  "c_str p = c_str q \<Longrightarrow> resolvesTo st ta p = resolvesTo st ta q"
  by (simp add: resolvesTo_def findByName_c_str[of p q])

lemma channel_resolves:
  fixes rd :: "'f::zero Services"
  assumes "importInv scene rd dir s"
    and "list_all (descriptorOk (storage s)) ta"
    and "loadMaterialTextures scene rd dir typeString paths ta s = Some (True, ta', s')"
  shows "\<forall>p \<in> set paths. storable scene rd dir (c_str p) \<longrightarrow> resolvesTo (storage s') ta' p"
  using assms
proof (induction paths arbitrary: ta s)
  case Nil
  then show ?case by simp
next
  case (Cons path rest)
  let ?st = "storage s"
  from Cons.prems(1) have sok: "storageOk ?st" by (simp add: importInv_def)
  from loadedForMesh_defined[OF Cons.prems(2)] obtain b where
    b: "loadedForMesh ?st ta path = Some b" by blast
  have step: "\<forall>p \<in> set (path # rest). storable scene rd dir (c_str p) \<longrightarrow>
                resolvesTo (storage s') ta' p"
    if e: "loadMaterialTextures scene rd dir typeString (path # rest) ta s
             = loadMaterialTextures scene rd dir typeString rest ta1 s1"
      and i: "importInv scene rd dir s1" and d: "list_all (descriptorOk (storage s1)) ta1"
      and r: "storable scene rd dir (c_str path) \<Longrightarrow> resolvesTo (storage s1) ta1 path"
    for ta1 s1
  proof -
    from e Cons.prems(3) have l: "loadMaterialTextures scene rd dir typeString rest ta1 s1
        = Some (True, ta', s')" by simp
    from Cons.IH[OF i d l] have rest: "\<forall>p \<in> set rest. storable scene rd dir (c_str p) \<longrightarrow>
        resolvesTo (storage s') ta' p" .
    from loadMaterialTextures_invariant[OF i d, of typeString rest] l obtain new add where
      "storage s' = storage s1 @ new" "ta' = ta1 @ add" by auto
    with r resolvesTo_mono[of "storage s1" ta1 path new add]
    have "storable scene rd dir (c_str path) \<longrightarrow> resolvesTo (storage s') ta' path" by auto
    with rest show ?thesis by simp
  qed
  show ?case
  proof (cases b)
    case True
    have "resolvesTo ?st ta path"
    proof -
      from b True have "loadedForMesh ?st ta path = Some True" by simp
      from loadedForMesh_True[OF this] obtain d i where
        d: "d \<in> set ta" "hasTexture d" and i: "i < length ?st" "textureRef d = Some i"
        and n: "c_str (texName (texture (?st ! i))) = c_str path"
        by blast
      from n storageOk_texName[OF sok i(1)] have m: "c_str (name (?st ! i)) = c_str path"
        by simp
      with i(1) have "findByName ?st path 0 \<noteq> None" by (auto simp: findByName_None)
      then obtain j where j: "findByName ?st path 0 = Some j" by auto
      from findByName_zero[OF j] m
      have "j < length ?st" "c_str (name (?st ! j)) = c_str (name (?st ! i))" by simp_all
      from storageOk_index[OF sok this(1) i(1) this(2)] have "j = i" .
      with j d i show ?thesis by (auto simp: resolvesTo_def list_ex_iff)
    qed
    with step[of ta s] b True Cons.prems show ?thesis by simp
  next
    case False
    note nb = False
    show ?thesis
    proof (cases "findByName ?st path 0")
      case (Some j)
      let ?d = "defaultTexture\<lparr>type := typeString, textureRef := Some j, hasTexture := True\<rparr>
                  :: 'f MeshTexture"
      from findByName_zero[OF Some] have "descriptorOk ?st ?d"
        by (simp add: descriptorOk_def defaultTexture_def)
      with Cons.prems(2) have ta: "list_all (descriptorOk ?st) (ta @ [?d])" by simp
      have upd: "s\<lparr>storage := (storage s)[j := (storage s ! j)\<lparr>texture :=
                   (texture (storage s ! j))\<lparr>texName := c_str path\<rparr>\<rparr>]\<rparr> = s"
        by (simp add: storage_update_id[OF sok Some])
      have e: "loadMaterialTextures scene rd dir typeString (path # rest) ta s
          = loadMaterialTextures scene rd dir typeString rest (ta @ [?d]) s"
        using b nb Some by (simp add: upd)
      have "resolvesTo ?st (ta @ [?d]) path"
        using Some by (simp add: resolvesTo_def)
      with step[OF e Cons.prems(1) ta] show ?thesis by simp
    next
      case None
      note nf = None
      obtain evs res where l: "loadTexture scene rd dir (c_str path) = (evs, res)"
        by (cases "loadTexture scene rd dir (c_str path)")
      show ?thesis
      proof (cases res)
        case None
        have "loadMaterialTextures scene rd dir typeString (path # rest) ta s
                = Some (False, ta @ [forcedColorTexture], s\<lparr>events := events s @ evs\<rparr>)"
          using b nb nf l None by simp
        with Cons.prems(3) show ?thesis by simp
      next
        case (Some t)
        show ?thesis
        proof (cases "isOpague rd t")
          case False
          have e: "loadMaterialTextures scene rd dir typeString (path # rest) ta s
                = loadMaterialTextures scene rd dir typeString rest ta (s\<lparr>events := events s @ evs\<rparr>)"
            using b nb nf l Some False by simp
          have i: "importInv scene rd dir (s\<lparr>events := events s @ evs\<rparr>)"
            using importInv_not_stored[OF Cons.prems(1) nf l] l Some False
            by (simp add: storable_def)
          have ns: "\<not> storable scene rd dir (c_str path)"
            using l Some False by (simp add: storable_def)
          from step[OF e i] Cons.prems(2) ns show ?thesis by simp
        next
          case True
          let ?d = "defaultTexture\<lparr>type := typeString, textureRef := Some (length ?st),
                      hasTexture := True\<rparr> :: 'f MeshTexture"
          let ?s = "s\<lparr>storage := ?st @ [\<lparr>name = c_str path, texture = t\<rparr>],
                      events := events s @ evs\<rparr>"
          have e: "loadMaterialTextures scene rd dir typeString (path # rest) ta s
                = loadMaterialTextures scene rd dir typeString rest (ta @ [?d]) ?s"
            using b nb nf l Some True by simp
          have 1: "importInv scene rd dir ?s"
            using importInv_stored[OF Cons.prems(1) nf l[unfolded Some] True] .
          have "descriptorOk (storage ?s) ?d"
            by (simp add: descriptorOk_def defaultTexture_def)
          moreover have "list_all (descriptorOk (storage ?s)) ta"
            using Cons.prems(2) by (auto simp: list_all_iff intro: descriptorOk_append)
          ultimately have 3: "list_all (descriptorOk (storage ?s)) (ta @ [?d])" by simp
          have "resolvesTo (storage ?s) (ta @ [?d]) path"
            using findByName_snoc[OF nf, of "\<lparr>name = c_str path, texture = t\<rparr>"]
            by (simp add: resolvesTo_def)
          with step[OF e 1 3] show ?thesis by simp
        qed
      qed
    qed
  qed
qed

lemma resolvesTo_take:
  assumes "resolvesTo st ta p" "take (length st) st' = st" "take (length ta) ta' = ta"
  shows "resolvesTo st' ta' p"
proof -
  from assms(2) have "st' = st @ drop (length st) st'" by (metis append_take_drop_id)
  moreover from assms(3) have "ta' = ta @ drop (length ta) ta'" by (metis append_take_drop_id)
  ultimately show ?thesis using resolvesTo_mono[OF assms(1)] by metis
qed

lemma resolveDiffuse_resolves:
  fixes rd :: "'f::zero Services"
  assumes "importInv scene rd dir s" and "list_all (descriptorOk (storage s)) ta"
    and "resolveDiffuse scene rd dir material ta s = Some (True, ta', s')"
  shows "\<forall>p \<in> set (texturesDiffuse material).
           storable scene rd dir (c_str p) \<longrightarrow> resolvesTo (storage s') ta' p"
proof (cases "texturesDiffuse material = []")
  case True
  then show ?thesis by simp
next
  case False
  with assms(3) channel_resolves[OF assms(1,2)] show ?thesis
    by (simp add: resolveDiffuse_def)
qed

lemma resolveSpecular_resolves:
  fixes rd :: "'f::zero Services"
  assumes "importInv scene rd dir s" and "list_all (descriptorOk (storage s)) ta"
    and "resolveSpecular scene rd dir material ta s = Some (True, ta', s')"
  shows "\<forall>p \<in> set (texturesSpecular material).
           storable scene rd dir (c_str p) \<longrightarrow> resolvesTo (storage s') ta' p"
proof (cases "texturesSpecular material = []")
  case True
  then show ?thesis by simp
next
  case False
  with assms(3) channel_resolves[OF assms(1,2)] show ?thesis
    by (simp add: resolveSpecular_def)
qed

lemma resolveNormal_resolves:
  fixes rd :: "'f::zero Services"
  assumes "importInv scene rd dir s" and "list_all (descriptorOk (storage s)) ta"
    and "resolveNormal scene rd dir material ta s = Some (True, ta', s')"
  shows "\<forall>p \<in> set (texturesNormals material).
           storable scene rd dir (c_str p) \<longrightarrow> resolvesTo (storage s') ta' p"
proof (cases "texturesNormals material = []")
  case True
  then show ?thesis by simp
next
  case False
  with assms(3) channel_resolves[OF assms(1,2)] show ?thesis
    by (simp add: resolveNormal_def)
qed

lemma forced_last:
  assumes "ta \<noteq> [] \<and> last ta = (forcedColorTexture :: 'f::zero MeshTexture)"
  shows "list_ex useForcedColor ta"
proof -
  from assms have "ta \<noteq> []" by simp
  then have "last ta \<in> set ta" by (rule last_in_set)
  moreover from assms have "useForcedColor (last ta)"
    by (simp add: forcedColorTexture_def defaultTexture_def)
  ultimately show ?thesis unfolding list_ex_iff by blast
qed

lemma resolveMaterial_resolves:
  fixes rd :: "'f::zero Services"
  assumes inv: "importInv scene rd dir s"
    and r: "resolveMaterial scene rd dir material s = Some (ta, s')"
    and op: "matOpacity material \<noteq> Some 0"
    and nf: "\<not> list_ex useForcedColor ta"
  shows "\<forall>p \<in> set (texturesDiffuse material @ texturesSpecular material
              @ texturesNormals material).
           storable scene rd dir (c_str p) \<longrightarrow> resolvesTo (storage s') ta p"
proof -
  have e: "list_all (descriptorOk (storage s)) ([] :: 'f MeshTexture list)" by simp
  from resolveDiffuse_result[OF inv e, of material] obtain ok1 ta1 s1 where
    d: "resolveDiffuse scene rd dir material [] s = Some (ok1, ta1, s1)"
    and d1: "importInv scene rd dir s1" and d2: "list_all (descriptorOk (storage s1)) ta1"
    and d5: "ok1 \<or> (ta1 \<noteq> [] \<and> last ta1 = forcedColorTexture)"
    by (elim resolverResultE) auto
  have ok1: ok1
  proof (rule ccontr)
    assume n: "\<not> ok1"
    with r op d have "ta = ta1" by (simp add: resolveMaterial_def)
    with n d5 forced_last[of ta1] nf show False by simp
  qed
  from resolveSpecular_result[OF d1 d2, of material] obtain ok2 ta2 s2 where
    sp: "resolveSpecular scene rd dir material ta1 s1 = Some (ok2, ta2, s2)"
    and s1: "importInv scene rd dir s2" and s2: "list_all (descriptorOk (storage s2)) ta2"
    and s3: "take (length (storage s1)) (storage s2) = storage s1"
    and s4: "take (length ta1) ta2 = ta1"
    and s5: "ok2 \<or> (ta2 \<noteq> [] \<and> last ta2 = forcedColorTexture)"
    by (elim resolverResultE) auto
  have ok2: ok2
  proof (rule ccontr)
    assume n: "\<not> ok2"
    with r op d ok1 sp have "ta = ta2" by (simp add: resolveMaterial_def)
    with n s5 forced_last[of ta2] nf show False by simp
  qed
  from resolveNormal_result[OF s1 s2, of material] obtain ok3 ta3 s3 where
    no: "resolveNormal scene rd dir material ta2 s2 = Some (ok3, ta3, s3)"
    and n3: "take (length (storage s2)) (storage s3) = storage s2"
    and n4: "take (length ta2) ta3 = ta2"
    and n5: "ok3 \<or> (ta3 \<noteq> [] \<and> last ta3 = forcedColorTexture)"
    by (elim resolverResultE) auto
  from r op d ok1 sp ok2 no have fin: "ta = ta3" "s' = s3" by (simp_all add: resolveMaterial_def)
  have ok3: ok3
  proof (rule ccontr)
    assume n: "\<not> ok3"
    with n5 forced_last[of ta3] nf fin show False by simp
  qed
  have a: "\<forall>p \<in> set (texturesDiffuse material).
      storable scene rd dir (c_str p) \<longrightarrow> resolvesTo (storage s1) ta1 p"
    using resolveDiffuse_resolves[OF inv e] ok1 d by simp
  have b: "\<forall>p \<in> set (texturesSpecular material).
      storable scene rd dir (c_str p) \<longrightarrow> resolvesTo (storage s2) ta2 p"
    using resolveSpecular_resolves[OF d1 d2] ok2 sp by simp
  have c: "\<forall>p \<in> set (texturesNormals material).
      storable scene rd dir (c_str p) \<longrightarrow> resolvesTo (storage s3) ta3 p"
    using resolveNormal_resolves[OF s1 s2] ok3 no by simp
  from a have a': "\<forall>p \<in> set (texturesDiffuse material).
      storable scene rd dir (c_str p) \<longrightarrow> resolvesTo (storage s3) ta3 p"
    using resolvesTo_take[OF resolvesTo_take[OF _ s3 s4] n3 n4] by blast
  from b have b': "\<forall>p \<in> set (texturesSpecular material).
      storable scene rd dir (c_str p) \<longrightarrow> resolvesTo (storage s3) ta3 p"
    using resolvesTo_take[OF _ n3 n4] by blast
  from a' b' c fin show ?thesis by auto
qed

lemma processMesh_resolves:
  fixes rd :: "'f::{zero,one} Services"
  assumes inv: "importInv scene rd dir s"
    and p: "processMesh scene rd dir mesh T s = Some (m, s')"
    and mat: "elemAt (mMaterials scene) (mMaterialIndex mesh) = Some material"
    and op: "matOpacity material \<noteq> Some 0"
    and nf: "\<not> list_ex useForcedColor (textures m)"
  shows "\<forall>p \<in> set (texturesDiffuse material @ texturesSpecular material
              @ texturesNormals material).
           storable scene rd dir (c_str p) \<longrightarrow> resolvesTo (storage s') (textures m) p"
proof -
  from p mat have "resolveMaterial scene rd dir material s = Some (textures m, s')"
    by (auto simp: processMesh_def split: option.splits)
  from resolveMaterial_resolves[OF inv this op nf] show ?thesis .
qed

lemma two_meshes_resolve:
  fixes rd :: "'f::{zero,one} Services"
  assumes i1: "importInv scene rd dir s1"
    and p1: "processMesh scene rd dir mesh1 T1 s1 = Some (m1, s1')"
    and mat1: "elemAt (mMaterials scene) (mMaterialIndex mesh1) = Some material1"
    and op1: "matOpacity material1 \<noteq> Some 0" and nf1: "\<not> list_ex useForcedColor (textures m1)"
    and later: "take (length (storage s1')) (storage s2) = storage s1'"
    and i2: "importInv scene rd dir s2"
    and p2: "processMesh scene rd dir mesh2 T2 s2 = Some (m2, s2')"
    and mat2: "elemAt (mMaterials scene) (mMaterialIndex mesh2) = Some material2"
    and op2: "matOpacity material2 \<noteq> Some 0" and nf2: "\<not> list_ex useForcedColor (textures m2)"
    and n1: "p \<in> set (texturesDiffuse material1 @ texturesSpecular material1
               @ texturesNormals material1)"
    and n2: "q \<in> set (texturesDiffuse material2 @ texturesSpecular material2
               @ texturesNormals material2)"
    and same: "c_str p = c_str q" and st: "storable scene rd dir (c_str p)"
  shows "\<exists>j < length (storage s2'). name (storage s2' ! j) = c_str p
           \<and> (\<exists>d \<in> set (textures m1). hasTexture d \<and> textureRef d = Some j)
           \<and> (\<exists>d \<in> set (textures m2). hasTexture d \<and> textureRef d = Some j)"
proof -
  from processMesh_resolves[OF i1 p1 mat1 op1 nf1] n1 st
  have "resolvesTo (storage s1') (textures m1) p" by blast
  then obtain j where j: "findByName (storage s1') p 0 = Some j"
    and d1: "\<exists>d \<in> set (textures m1). hasTexture d \<and> textureRef d = Some j"
    by (auto simp: resolvesTo_def list_ex_iff split: option.splits)
  from processMesh_invariant[OF i2 p2] have i2': "importInv scene rd dir s2'"
    and pre: "take (length (storage s2)) (storage s2') = storage s2" by auto
  from take_take_prefix[OF later pre] have "take (length (storage s1')) (storage s2') = storage s1'" .
  then have "storage s2' = storage s1' @ drop (length (storage s1')) (storage s2')"
    by (metis append_take_drop_id)
  with findByName_append[OF j] have j2: "findByName (storage s2') p 0 = Some j" by metis
  from processMesh_resolves[OF i2 p2 mat2 op2 nf2] n2 st same
  have "resolvesTo (storage s2') (textures m2) q" by simp
  with j2 findByName_c_str[OF same, of "storage s2'" 0]
  have d2: "\<exists>d \<in> set (textures m2). hasTexture d \<and> textureRef d = Some j"
    by (auto simp: resolvesTo_def list_ex_iff split: option.splits)
  from i2' have ok: "storageOk (storage s2')" by (simp add: importInv_def)
  from findByName_zero[OF j2] have jl: "j < length (storage s2')"
    and "c_str (name (storage s2' ! j)) = c_str p" by auto
  moreover from ok jl have "c_str (name (storage s2' ! j)) = name (storage s2' ! j)"
    by (auto simp: storageOk_def list_all_iff)
  ultimately have "name (storage s2' ! j) = c_str p" by simp
  with jl d1 d2 show ?thesis by blast
qed

lemma importInv_initial:
  "importInv scene rd dir \<lparr>storage = [], events = []\<rparr>"
  by (simp add: importInv_def storageOk_def)

text \<open>
  C4, as amended. During one import a texture reference whose name already names an
  entry of the storage is resolved to that entry: the step makes no load and changes
  neither the storage nor the log, and afterwards the mesh has a descriptor that
  references the entry. The states of an import are those of \<open>importInv\<close>: the initial
  state is one, \<^verbatim>\<open>processMesh\<close> leads from one to another, and it only appends to the
  storage. When a mesh is built and, later in the import, another, both from a material
  that is not fully transparent and without a failed load, and both materials refer to
  a texture of the same name that loads and is not fully transparent, then both meshes
  have a descriptor that references the one entry of that name. In the geometry that
  \<^verbatim>\<open>loadModel\<close> returns the entries of the storage have pairwise different names, and the
  texture of every entry was loaded exactly once.
\<close>
theorem stored_texture_reused:
  fixes rd :: "'f::{zero,one} Services"
  shows
   "(importInv scene rd dir s \<and> list_all (descriptorOk (storage s)) ta
      \<and> findByName (storage s) path 0 = Some j \<longrightarrow>
       (\<exists>ta'. loadMaterialTextures scene rd dir typeString (path # rest) ta s
                 = loadMaterialTextures scene rd dir typeString rest ta' s
           \<and> (ta' = ta \<or> ta' = ta @ [defaultTexture\<lparr>type := typeString, textureRef := Some j,
                                           hasTexture := True\<rparr>])
           \<and> (\<exists>d \<in> set ta'. hasTexture d \<and> textureRef d = Some j)))
    \<and> importInv scene rd dir \<lparr>storage = [], events = []\<rparr>
    \<and> (importInv scene rd dir s \<and> processMesh scene rd dir mesh T s = Some (m, s') \<longrightarrow>
         importInv scene rd dir s' \<and> take (length (storage s)) (storage s') = storage s)
    \<and> (importInv scene rd dir sA
       \<and> processMesh scene rd dir meshA TA sA = Some (mA, sA')
       \<and> elemAt (mMaterials scene) (mMaterialIndex meshA) = Some materialA
       \<and> matOpacity materialA \<noteq> Some 0 \<and> \<not> list_ex useForcedColor (textures mA)
       \<and> importInv scene rd dir sB \<and> take (length (storage sA')) (storage sB) = storage sA'
       \<and> processMesh scene rd dir meshB TB sB = Some (mB, sB')
       \<and> elemAt (mMaterials scene) (mMaterialIndex meshB) = Some materialB
       \<and> matOpacity materialB \<noteq> Some 0 \<and> \<not> list_ex useForcedColor (textures mB)
       \<and> p \<in> set (texturesDiffuse materialA @ texturesSpecular materialA
                   @ texturesNormals materialA)
       \<and> q \<in> set (texturesDiffuse materialB @ texturesSpecular materialB
                   @ texturesNormals materialB)
       \<and> c_str p = c_str q \<and> storable scene rd dir (c_str p) \<longrightarrow>
         (\<exists>k < length (storage sB'). name (storage sB' ! k) = c_str p
            \<and> (\<exists>d \<in> set (textures mA). hasTexture d \<and> textureRef d = Some k)
            \<and> (\<exists>d \<in> set (textures mB). hasTexture d \<and> textureRef d = Some k)))
    \<and> (loadModel rd (Some scene) err dir force notify = Inr (g, evs) \<longrightarrow>
         distinct (map name (textureStorage g))
         \<and> (\<forall>e \<in> set (textureStorage g). count_list evs (LoadTextureCall (name e)) = 1))"
proof (intro conjI impI)
  assume "importInv scene rd dir s \<and> list_all (descriptorOk (storage s)) ta
      \<and> findByName (storage s) path 0 = Some j"
  then show "\<exists>ta'. loadMaterialTextures scene rd dir typeString (path # rest) ta s
                 = loadMaterialTextures scene rd dir typeString rest ta' s
           \<and> (ta' = ta \<or> ta' = ta @ [defaultTexture\<lparr>type := typeString, textureRef := Some j,
                                           hasTexture := True\<rparr>])
           \<and> (\<exists>d \<in> set ta'. hasTexture d \<and> textureRef d = Some j)"
    using reuse_step[of scene rd dir s ta path j typeString rest] by blast
next
  show "importInv scene rd dir \<lparr>storage = [], events = []\<rparr>"
    by (rule importInv_initial)
next
  assume a: "importInv scene rd dir s \<and> processMesh scene rd dir mesh T s = Some (m, s')"
  then have "importInv scene rd dir s" "processMesh scene rd dir mesh T s = Some (m, s')"
    by simp_all
  from processMesh_invariant[OF this]
  show "importInv scene rd dir s'" "take (length (storage s)) (storage s') = storage s"
    by simp_all
next
  assume a: "importInv scene rd dir sA
       \<and> processMesh scene rd dir meshA TA sA = Some (mA, sA')
       \<and> elemAt (mMaterials scene) (mMaterialIndex meshA) = Some materialA
       \<and> matOpacity materialA \<noteq> Some 0 \<and> \<not> list_ex useForcedColor (textures mA)
       \<and> importInv scene rd dir sB \<and> take (length (storage sA')) (storage sB) = storage sA'
       \<and> processMesh scene rd dir meshB TB sB = Some (mB, sB')
       \<and> elemAt (mMaterials scene) (mMaterialIndex meshB) = Some materialB
       \<and> matOpacity materialB \<noteq> Some 0 \<and> \<not> list_ex useForcedColor (textures mB)
       \<and> p \<in> set (texturesDiffuse materialA @ texturesSpecular materialA
                   @ texturesNormals materialA)
       \<and> q \<in> set (texturesDiffuse materialB @ texturesSpecular materialB
                   @ texturesNormals materialB)
       \<and> c_str p = c_str q \<and> storable scene rd dir (c_str p)"
  then show "\<exists>k < length (storage sB'). name (storage sB' ! k) = c_str p
            \<and> (\<exists>d \<in> set (textures mA). hasTexture d \<and> textureRef d = Some k)
            \<and> (\<exists>d \<in> set (textures mB). hasTexture d \<and> textureRef d = Some k)"
    using two_meshes_resolve[of scene rd dir sA meshA TA mA sA' materialA sB meshB TB mB sB'
        materialB p q]
    by blast
next
  assume a: "loadModel rd (Some scene) err dir force notify = Inr (g, evs)"
  from loadModel_storage[OF a]
  show "distinct (map name (textureStorage g))"
    and "\<forall>e \<in> set (textureStorage g). count_list evs (LoadTextureCall (name e)) = 1"
    by blast+
qed

theorem stored_texture_reused_witness:
  "importInv woodScene exampleServices ''models''
     \<lparr>storage = [woodEntry], events = [LoadTextureCall ''wood.png'']\<rparr>
   \<and> list_all (descriptorOk [woodEntry]) ([] :: int MeshTexture list)
   \<and> findByName [woodEntry] ''wood.png'' 0 = Some 0
   \<and> loadMaterialTextures woodScene exampleServices ''models'' ''texture_diffuse''
        [''wood.png''] [] \<lparr>storage = [woodEntry], events = [LoadTextureCall ''wood.png'']\<rparr>
       = Some (True, [woodDescriptor],
               \<lparr>storage = [woodEntry], events = [LoadTextureCall ''wood.png'']\<rparr>)
   \<and> importInv woodScene exampleServices ''models'' emptyState
   \<and> processMesh woodScene exampleServices ''models'' triangle identity emptyState
       = Some (meshes woodGeometry ! 0,
               \<lparr>storage = [woodEntry], events = [LoadTextureCall ''wood.png'']\<rparr>)
   \<and> processMesh woodScene exampleServices ''models'' (triangle\<lparr>mName := ''tri2''\<rparr>)
        (nodeTransform (translationMatrix 1 0 0))
        \<lparr>storage = [woodEntry], events = [LoadTextureCall ''wood.png'']\<rparr>
       = Some (meshes woodGeometry ! 1,
               \<lparr>storage = [woodEntry], events = [LoadTextureCall ''wood.png'']\<rparr>)
   \<and> elemAt (mMaterials woodScene) (mMaterialIndex triangle) = Some woodMaterial
   \<and> matOpacity woodMaterial \<noteq> Some 0
   \<and> \<not> list_ex useForcedColor (textures (meshes woodGeometry ! 0))
   \<and> \<not> list_ex useForcedColor (textures (meshes woodGeometry ! 1))
   \<and> ''wood.png'' \<in> set (texturesDiffuse woodMaterial @ texturesSpecular woodMaterial
                           @ texturesNormals woodMaterial)
   \<and> storable woodScene exampleServices ''models'' (c_str ''wood.png'')
   \<and> name ([woodEntry] ! 0) = c_str ''wood.png''
   \<and> map textureRef (filter hasTexture (textures (meshes woodGeometry ! 0))) = [Some 0]
   \<and> map textureRef (filter hasTexture (textures (meshes woodGeometry ! 1))) = [Some 0]
   \<and> loadModel exampleServices (Some woodScene) [] ''models'' False False
       = Inr (woodGeometry, [LoadTextureCall ''wood.png''])
   \<and> map name (textureStorage woodGeometry) = [''wood.png'']
   \<and> count_list [LoadTextureCall ''wood.png''] (LoadTextureCall ''wood.png'') = 1"
proof -
  let ?s = "\<lparr>storage = [woodEntry], events = [LoadTextureCall ''wood.png'']\<rparr>"
  let ?tri2 = "triangle\<lparr>mName := ''tri2''\<rparr>"
  let ?T = "nodeTransform (translationMatrix 1 0 0) :: int mat4"
  note ev = mesh_eval texture_eval example_eval woodScene_def woodEntry_def woodDescriptor_def
  note t = stored_texture_reused[where scene = woodScene and rd = exampleServices
      and dir = "''models''" and s = ?s and ta = "[]" and path = "''wood.png''" and j = 0
      and typeString = "''texture_diffuse''" and rest = "[]" and err = "[]" and force = False
      and notify = False and g = woodGeometry and evs = "[LoadTextureCall ''wood.png'']"
      and sA = emptyState and meshA = triangle and TA = identity
      and mA = "meshes woodGeometry ! 0" and sA' = ?s and materialA = woodMaterial
      and sB = ?s and meshB = ?tri2 and TB = ?T and mB = "meshes woodGeometry ! 1"
      and sB' = ?s and materialB = woodMaterial and p = "''wood.png''" and q = "''wood.png''"]
  have st: "storable woodScene exampleServices ''models'' ''wood.png''"
    by (simp add: storable_def ev)
  have st': "storable woodScene exampleServices ''models'' (c_str ''wood.png'')"
    using st by (simp add: c_str_def)
  have a: "importInv woodScene exampleServices ''models'' ?s"
    using st by (simp add: importInv_def storageOk_def ev)
  have b: "list_all (descriptorOk (storage ?s)) ([] :: int MeshTexture list)"
    by simp
  have c: "findByName (storage ?s) ''wood.png'' 0 = Some 0"
    by (simp add: ev)
  from t[THEN conjunct1, rule_format, OF conjI[OF a conjI[OF b c]]]
  have d: "loadMaterialTextures woodScene exampleServices ''models'' ''texture_diffuse''
        [''wood.png''] [] ?s = Some (True, [woodDescriptor], ?s)"
    by (auto simp: woodDescriptor_def defaultTexture_def)
  have i0: "importInv woodScene exampleServices ''models'' emptyState"
    using t[THEN conjunct2, THEN conjunct1] by (simp add: emptyState_def)
  have p1: "processMesh woodScene exampleServices ''models'' triangle identity emptyState
       = Some (meshes woodGeometry ! 0, ?s)"
    by (simp add: ev woodGeometry_def triangleMesh_def)
  have p2: "processMesh woodScene exampleServices ''models'' ?tri2 ?T ?s
       = Some (meshes woodGeometry ! 1, ?s)"
    by (simp add: ev woodGeometry_def triangleMesh_def translationMatrix_def)
  have m: "elemAt (mMaterials woodScene) (mMaterialIndex triangle) = Some woodMaterial"
    "elemAt (mMaterials woodScene) (mMaterialIndex ?tri2) = Some woodMaterial"
    by (simp_all add: woodScene_def sceneOf_def triangle_def elemAt_def)
  have o: "matOpacity woodMaterial \<noteq> Some 0"
    by (simp add: woodMaterial_def)
  have nf: "\<not> list_ex useForcedColor (textures (meshes woodGeometry ! 0))"
    "\<not> list_ex useForcedColor (textures (meshes woodGeometry ! 1))"
    by (simp_all add: woodGeometry_def woodDescriptor_def triangleMesh_def)
  have n: "''wood.png'' \<in> set (texturesDiffuse woodMaterial @ texturesSpecular woodMaterial
                           @ texturesNormals woodMaterial)"
    by (simp add: woodMaterial_def)
  have later: "take (length (storage ?s)) (storage ?s) = storage ?s"
    by simp
  have same: "c_str ''wood.png'' = c_str ''wood.png''"
    by simp
  from t[THEN conjunct2, THEN conjunct2, THEN conjunct2, THEN conjunct1, rule_format,
      OF conjI[OF i0 conjI[OF p1 conjI[OF m(1) conjI[OF o conjI[OF nf(1) conjI[OF a
         conjI[OF later conjI[OF p2 conjI[OF m(2) conjI[OF o conjI[OF nf(2) conjI[OF n
         conjI[OF n conjI[OF same st']]]]]]]]]]]]]]]
  have two: "\<exists>k < length (storage ?s). name (storage ?s ! k) = c_str ''wood.png''
      \<and> (\<exists>d \<in> set (textures (meshes woodGeometry ! 0)). hasTexture d \<and> textureRef d = Some k)
      \<and> (\<exists>d \<in> set (textures (meshes woodGeometry ! 1)). hasTexture d \<and> textureRef d = Some k)" .
  then have k: "name ([woodEntry] ! 0) = c_str ''wood.png''"
    and r0: "map textureRef (filter hasTexture (textures (meshes woodGeometry ! 0))) = [Some 0]"
    and r1: "map textureRef (filter hasTexture (textures (meshes woodGeometry ! 1))) = [Some 0]"
    by (auto simp: woodGeometry_def woodDescriptor_def triangleMesh_def)
  from t[THEN conjunct2, THEN conjunct2, THEN conjunct2, THEN conjunct2, rule_format,
      OF woodScene_loadModel]
  have e: "distinct (map name (textureStorage woodGeometry))"
    by simp
  have f: "map name (textureStorage woodGeometry) = [''wood.png'']"
    by (simp add: woodGeometry_def woodEntry_def)
  have g: "count_list [LoadTextureCall ''wood.png''] (LoadTextureCall ''wood.png'') = 1"
    by simp
  from b c have b': "list_all (descriptorOk [woodEntry]) ([] :: int MeshTexture list)"
    and c': "findByName [woodEntry] ''wood.png'' 0 = Some 0"
    by simp_all
  show ?thesis
    by (intro conjI a b' c' d i0 p1 p2 m(1) o nf n st' k r0 r1 woodScene_loadModel f g)
qed

text \<open>
  The claim as stated fails where it says that the same bytes are never decoded twice:
  two meshes with the fully transparent \<^verbatim>\<open>clear.png\<close> make the import load it twice, and
  neither mesh resolves to an entry of the storage.
\<close>
theorem transparent_texture_loaded_twice:
  "loadModel exampleServices (Some clearScene) [] ''models'' True False
     = Inr (clearGeometry, [LoadTextureCall ''clear.png'', LoadTextureCall ''clear.png''])
   \<and> count_list [LoadTextureCall ''clear.png'', LoadTextureCall ''clear.png'']
        (LoadTextureCall ''clear.png'') = 2
   \<and> textureStorage clearGeometry = []
   \<and> GetTextures (mMaterials clearScene ! mMaterialIndex (mMeshes clearScene ! 0))
        aiTextureType_DIFFUSE = [''clear.png'']"
  by (simp add: clearScene_loadModel)
     (simp add: clearGeometry_def clearScene_def sceneOf_def triangle_def clearMaterial_def
        woodMaterial_def)

section \<open>The cache codec: decoding a layout, encoding to a layout\<close>

lemma dec32_enc32 [simp]: "dec32 (enc32 w) = w"
  unfolding enc32_def dec32.simps
proof (rule bit_word_eqI)
  fix n assume "n < LENGTH(32)"
  then show "bit (ucast (ucast w :: byte) OR push_bit 8 (ucast (ucast (drop_bit 8 w) :: byte))
      OR push_bit 16 (ucast (ucast (drop_bit 16 w) :: byte))
      OR push_bit 24 (ucast (ucast (drop_bit 24 w) :: byte)) :: 32 word) n = bit w n"
    by (cases "n < 8"; cases "n < 16"; cases "n < 24") (auto simp: bit_simps)
qed

lemma length_enc32 [simp]: "length (enc32 w) = 4"
  by (simp add: enc32_def)

lemma char_of_byte_of_char [simp]: "char_of_byte (byte_of_char c) = c"
  by (simp add: byte_of_char_def char_of_byte_def unat_of_nat)

lemma map_char_of_byte [simp]: "map char_of_byte (map byte_of_char s) = s"
  by (induction s) auto

lemma int32Size_unat [simp]: "int32Size n \<Longrightarrow> unat (of_nat n :: 32 word) = n"
  by (simp add: int32Size_def unat_of_nat)

lemma int32Size_zero [simp]: "int32Size n \<Longrightarrow> ((of_nat n :: 32 word) = 0) = (n = 0)"
proof
  assume a: "int32Size n" and z: "(of_nat n :: 32 word) = 0"
  from z have "unat (of_nat n :: 32 word) = 0" by simp
  with a show "n = 0" by (simp del: unat_eq_zero unsigned_eq_0_iff)
qed simp

lemma int32Size_sint [simp]: "int32Size n \<Longrightarrow> sint (of_nat n :: 32 word) = int n"
  by (simp add: int32Size_def signed_of_nat signed_take_bit_int_eq_self)

lemma int32Size_allocates [simp]: "int32Size n \<Longrightarrow> allocates (of_nat n)"
  by (simp add: allocates_def)

lemma streamRead_append [simp]:
  "length bs = n \<Longrightarrow> streamRead n init (bs @ rest) = (bs, rest)"
  by (simp add: streamRead_def)

lemma readInt32_enc32 [simp]: "readInt32 (enc32 w @ rest) = (w, rest)"
  by (simp add: readInt32_def)

lemma length_vertexBytes [simp]: "length (vertexBytes v) = 48"
  by (simp add: vertexBytes_def vertexWords_def split: prod.splits)

lemma words32_enc32: "words32 (Suc n) (enc32 w @ bs) = w # words32 n bs"
  by simp

lemma words32_enc32_last: "words32 (Suc n) (enc32 w) = w # words32 n []"
  by simp

lemma vertexOfBytes_vertexBytes [simp]: "vertexOfBytes (vertexBytes v) = v"
proof -
  obtain l0 l1 l2 l3 where l: "location v = (l0, l1, l2, l3)" by (cases "location v") auto
  obtain n0 n1 n2 where n: "normal v = (n0, n1, n2)" by (cases "normal v") auto
  obtain t0 t1 where t: "tex v = (t0, t1)" by (cases "tex v") auto
  obtain g0 g1 g2 where g: "tangent v = (g0, g1, g2)" by (cases "tangent v") auto
  have twelve: "12 = Suc (Suc (Suc (Suc (Suc (Suc (Suc (Suc (Suc (Suc (Suc (Suc 0)))))))))))"
    by simp
  have "words32 12 (vertexBytes v) = [l0, l1, l2, l3, n0, n1, n2, t0, t1, g0, g1, g2]"
    unfolding twelve vertexBytes_def vertexWords_def l n t g
    by (simp del: words32.simps add: words32_enc32 words32_enc32_last words32.simps(1))
  then have "vertexOfBytes (vertexBytes v)
      = \<lparr>location = (l0, l1, l2, l3), normal = (n0, n1, n2), tex = (t0, t1),
         tangent = (g0, g1, g2)\<rparr>"
    by (simp add: vertexOfBytes_def)
  with l n t g show ?thesis by (cases v) simp
qed

lemma readVertex_vertexBytes [simp]: "readVertex (vertexBytes v @ rest) = (v, rest)"
  by (simp add: readVertex_def sizeofVertex_def)

lemma formatToString_code: "f \<noteq> OtherFormat \<Longrightarrow> formatToString f = Inr (formatCode f)"
  by (cases f) (simp_all add: padded_def eval_nat_numeral)

lemma stringToFormat_code [simp]: "f \<noteq> OtherFormat \<Longrightarrow> stringToFormat (formatCode f) = Inr f"
  by (cases f) (simp_all add: stringToFormat_def)

lemma length_formatCode [simp]: "f \<noteq> OtherFormat \<Longrightarrow> length (formatCode f) = 4"
  by (cases f) simp_all

lemma dataTypeToString_code: "d \<noteq> GL_OTHER \<Longrightarrow> dataTypeToString d = Inr (dataTypeCode d)"
  by (cases d) (simp_all add: padded_def eval_nat_numeral)

lemma stringToDataType_code [simp]:
  "d \<noteq> GL_OTHER \<Longrightarrow> stringToDataType (dataTypeCode d) = Inr d"
  by (cases d) (simp_all add: stringToDataType_def)

lemma length_dataTypeCode [simp]: "d \<noteq> GL_OTHER \<Longrightarrow> length (dataTypeCode d) = 4"
  by (cases d) simp_all

lemma char_of_byte_comp [simp]: "char_of_byte \<circ> byte_of_char = id"
  by (simp add: fun_eq_iff)

lemma corruption_simps [simp]:
  "CacheCorruptionError (Inr x) = False"
  "CacheCorruptionError (Inl (ModelLoadException m)) = (m \<in> set corruptionMessages)"
  "CacheCorruptionError (Inl MissingCaseException) = False"
  "CacheCorruptionError (Inl AllocationFailure) = False"
  "CacheCorruptionError (Inl UndefinedBehaviour) = False"
  "CacheCorruptionError (Inl (ModelSaveException m)) = False"
  by (simp_all add: CacheCorruptionError_def)

lemma corruptionE:
  assumes "CacheCorruptionError r"
  obtains m where "r = Inl (ModelLoadException m)" "m \<in> set corruptionMessages"
  using assms by (auto simp: CacheCorruptionError_def split: sum.splits error.splits)

lemma loadTextureEntry_layout:
  assumes "entryLayoutable e" "\<not> entryZero e"
  shows "loadTextureEntry (layEntry e @ rest) = Inr (cachedEntry e, rest)"
proof -
  obtain x y z where d: "dimensions (texture e) = (x, y, z)"
    by (cases "dimensions (texture e)") auto
  from assms show ?thesis
    unfolding loadTextureEntry_def layEntry_def d entryLayoutable_def entryZero_def
    by (simp add: cachedEntry_def d)
qed

lemma loadTextureEntry_zero:
  assumes "entryLayoutable e" "entryZero e"
  shows "CacheCorruptionError (loadTextureEntry (layEntry e @ rest))"
proof -
  obtain x y z where d: "dimensions (texture e) = (x, y, z)"
    by (cases "dimensions (texture e)") auto
  from assms show ?thesis
    unfolding loadTextureEntry_def layEntry_def d entryLayoutable_def entryZero_def
    by (auto simp: corruptionMessages_def)
qed

lemma readBool_flag [simp]:
  "readBool (0 # rest) = Inr (False, rest)" "readBool (1 # rest) = Inr (True, rest)"
  by (simp_all add: readBool_def streamRead_def)

lemma loadMeshTexture_layout:
  assumes "textureLayoutable t" "type t \<noteq> []" "\<not> indexOutside n t"
  shows "loadMeshTexture n (layTexture t @ rest) = Inr (cachedTexture t, rest)"
proof -
  obtain r g b where c: "color t = (r, g, b)" by (cases "color t") auto
  show ?thesis
  proof (cases "hasTexture t")
    case False
    with assms show ?thesis
      unfolding loadMeshTexture_def layTexture_def c textureLayoutable_def
      by (simp add: cachedTexture_def c)
  next
    case True
    with assms obtain i where i: "textureRef t = Some i" "i < 2 ^ 32" "i < n"
      by (auto simp: textureLayoutable_def indexOutside_def split: option.splits)
    then have u: "unat (of_nat i :: 32 word) = i" by (simp add: unat_of_nat)
    from assms True i show ?thesis
      unfolding loadMeshTexture_def layTexture_def c textureLayoutable_def
      by (simp add: cachedTexture_def c u)
  qed
qed

lemma loadMeshTexture_defect:
  assumes "textureLayoutable t" "type t = [] \<or> indexOutside n t"
  shows "CacheCorruptionError (loadMeshTexture n (layTexture t @ rest))"
proof -
  obtain r g b where c: "color t = (r, g, b)" by (cases "color t") auto
  show ?thesis
  proof (cases "type t = []")
    case True
    then show ?thesis
      unfolding loadMeshTexture_def layTexture_def c
      by (simp add: corruptionMessages_def)
  next
    case False
    with assms have o: "indexOutside n t" by simp
    then obtain i where i: "hasTexture t" "textureRef t = Some i" "n \<le> i"
      by (auto simp: indexOutside_def split: option.splits)
    with assms have "i < 2 ^ 32" by (simp add: textureLayoutable_def)
    then have u: "unat (of_nat i :: 32 word) = i" by (simp add: unat_of_nat)
    from assms False i show ?thesis
      unfolding loadMeshTexture_def layTexture_def c textureLayoutable_def
      by (simp add: u corruptionMessages_def)
  qed
qed

lemma loadEach_layout:
  assumes "\<And>x rest. x \<in> set xs \<Longrightarrow> f (lay x @ rest) = Inr (h x, rest)"
  shows "loadEach f (length xs) (concat (map lay xs) @ rest) = Inr (map h xs, rest)"
  using assms by (induction xs arbitrary: rest) simp_all

lemma loadEach_defect:
  assumes "\<And>x rest. x \<in> set xs \<Longrightarrow> ok x \<Longrightarrow> f (lay x @ rest) = Inr (h x, rest)"
    and "\<And>x rest. x \<in> set xs \<Longrightarrow> \<not> ok x \<Longrightarrow> CacheCorruptionError (f (lay x @ rest))"
    and "\<not> list_all ok xs"
  shows "CacheCorruptionError (loadEach f (length xs) (concat (map lay xs) @ rest))"
  using assms
proof (induction xs arbitrary: rest)
  case Nil
  then show ?case by simp
next
  case (Cons x xs)
  show ?case
  proof (cases "ok x")
    case False
    with Cons.prems(2)[of x "concat (map lay xs) @ rest"]
    have "CacheCorruptionError (f (lay x @ concat (map lay xs) @ rest))" by simp
    then show ?thesis by (auto elim!: corruptionE)
  next
    case True
    with Cons.prems(1)[of x "concat (map lay xs) @ rest"]
    have x: "f (lay x @ concat (map lay xs) @ rest) = Inr (h x, concat (map lay xs) @ rest)"
      by simp
    from True Cons.prems(3) have "\<not> list_all ok xs" by simp
    with Cons.IH[of rest] Cons.prems(1,2)
    have "CacheCorruptionError (loadEach f (length xs) (concat (map lay xs) @ rest))"
      by simp
    with x show ?thesis by (auto elim!: corruptionE)
  qed
qed

lemma loadEach_vertices [simp]:
  "loadEach (\<lambda>s. Inr (readVertex s)) (length vs) (concat (map vertexBytes vs) @ rest)
     = Inr (vs, rest)"
  using loadEach_layout[where f = "\<lambda>s. Inr (readVertex s)" and lay = vertexBytes
      and h = "\<lambda>v. v" and xs = vs and rest = rest]
  by simp

lemma loadEach_indices [simp]:
  "loadEach (\<lambda>s. Inr (readInt32 s)) (length ns) (concat (map enc32 ns) @ rest)
     = Inr (ns, rest)"
  using loadEach_layout[where f = "\<lambda>s. Inr (readInt32 s)" and lay = enc32
      and h = "\<lambda>v. v" and xs = ns and rest = rest]
  by simp

lemma loadEach_textures:
  assumes "list_all textureLayoutable ts" "list_all (textureOk n) ts"
  shows "loadEach (loadMeshTexture n) (length ts) (concat (map layTexture ts) @ rest)
           = Inr (map cachedTexture ts, rest)"
  using assms
  by (intro loadEach_layout loadMeshTexture_layout) (auto simp: list_all_iff textureOk_def)

lemma loadEach_textures_defect:
  assumes "list_all textureLayoutable ts" "\<not> list_all (textureOk n) ts"
  shows "CacheCorruptionError
           (loadEach (loadMeshTexture n) (length ts) (concat (map layTexture ts) @ rest))"
proof (rule loadEach_defect[where ok = "textureOk n" and h = cachedTexture])
  fix x rest assume "x \<in> set ts" "textureOk n x"
  with assms(1) show "loadMeshTexture n (layTexture x @ rest) = Inr (cachedTexture x, rest)"
    by (intro loadMeshTexture_layout) (auto simp: list_all_iff textureOk_def)
next
  fix x rest assume "x \<in> set ts" "\<not> textureOk n x"
  with assms(1) show "CacheCorruptionError (loadMeshTexture n (layTexture x @ rest))"
    by (intro loadMeshTexture_defect) (auto simp: list_all_iff textureOk_def)
qed (rule assms(2))

lemma loadMesh_layout:
  assumes "meshLayoutable m" "meshOk n m"
  shows "loadMesh n (layMesh m @ rest) = Inr (cachedMesh m, rest)"
  using assms
  unfolding loadMesh_def layMesh_def meshLayoutable_def meshOk_def
  by (simp add: loadEach_textures cachedMesh_def)

lemma loadMesh_defect:
  assumes "meshLayoutable m" "\<not> meshOk n m"
  shows "CacheCorruptionError (loadMesh n (layMesh m @ rest))"
proof -
  from assms(1) have l: "list_all textureLayoutable (textures m)"
    by (simp add: meshLayoutable_def)
  consider "vertices m = []" | "vertices m \<noteq> []" "indices m = []"
    | "vertices m \<noteq> []" "indices m \<noteq> []" "textures m = []"
    | "vertices m \<noteq> []" "indices m \<noteq> []" "textures m \<noteq> []"
      "\<not> list_all (textureOk n) (textures m)"
    using assms(2) by (auto simp: meshOk_def)
  then show ?thesis
  proof cases
    case 1
    then show ?thesis
      unfolding loadMesh_def layMesh_def by (simp add: corruptionMessages_def)
  next
    case 2
    with assms(1) show ?thesis
      unfolding loadMesh_def layMesh_def meshLayoutable_def
      by (simp add: corruptionMessages_def)
  next
    case 3
    with assms(1) show ?thesis
      unfolding loadMesh_def layMesh_def meshLayoutable_def
      by (simp add: corruptionMessages_def)
  next
    case 4
    from loadEach_textures_defect[OF l 4(4), of rest] obtain msg where
      "loadEach (loadMeshTexture n) (length (textures m))
         (concat (map layTexture (textures m)) @ rest) = Inl (ModelLoadException msg)"
      "msg \<in> set corruptionMessages"
      by (rule corruptionE)
    with 4 assms(1) show ?thesis
      unfolding loadMesh_def layMesh_def meshLayoutable_def
      by simp
  qed
qed

lemma geometryOk_iff: "geometryOk g \<longleftrightarrow> \<not> zeroCount g \<and> \<not> indexOutOfRange g"
  unfolding geometryOk_def zeroCount_def indexOutOfRange_def meshOk_def meshZero_def
    textureOk_def list_all_iff list_ex_iff
  by blast

lemma loadEach_entries:
  assumes "list_all entryLayoutable es" "list_all (\<lambda>e. \<not> entryZero e) es"
  shows "loadEach loadTextureEntry (length es) (concat (map layEntry es) @ rest)
           = Inr (map cachedEntry es, rest)"
  using assms
  by (intro loadEach_layout loadTextureEntry_layout) (auto simp: list_all_iff)

lemma loadEach_entries_defect:
  assumes "list_all entryLayoutable es" "\<not> list_all (\<lambda>e. \<not> entryZero e) es"
  shows "CacheCorruptionError
           (loadEach loadTextureEntry (length es) (concat (map layEntry es) @ rest))"
proof (rule loadEach_defect[where ok = "\<lambda>e. \<not> entryZero e" and h = cachedEntry])
  fix x rest assume "x \<in> set es" "\<not> entryZero x"
  with assms(1) show "loadTextureEntry (layEntry x @ rest) = Inr (cachedEntry x, rest)"
    by (intro loadTextureEntry_layout) (auto simp: list_all_iff)
next
  fix x rest assume "x \<in> set es" "\<not> \<not> entryZero x"
  with assms(1) show "CacheCorruptionError (loadTextureEntry (layEntry x @ rest))"
    by (intro loadTextureEntry_zero) (auto simp: list_all_iff)
qed (rule assms(2))

lemma loadEach_meshes:
  assumes "list_all meshLayoutable ms" "list_all (meshOk n) ms"
  shows "loadEach (loadMesh n) (length ms) (concat (map layMesh ms) @ rest)
           = Inr (map cachedMesh ms, rest)"
  using assms
  by (intro loadEach_layout loadMesh_layout) (auto simp: list_all_iff)

lemma loadEach_meshes_defect:
  assumes "list_all meshLayoutable ms" "\<not> list_all (meshOk n) ms"
  shows "CacheCorruptionError
           (loadEach (loadMesh n) (length ms) (concat (map layMesh ms) @ rest))"
proof (rule loadEach_defect[where ok = "meshOk n" and h = cachedMesh])
  fix x rest assume "x \<in> set ms" "meshOk n x"
  with assms(1) show "loadMesh n (layMesh x @ rest) = Inr (cachedMesh x, rest)"
    by (intro loadMesh_layout) (auto simp: list_all_iff)
next
  fix x rest assume "x \<in> set ms" "\<not> meshOk n x"
  with assms(1) show "CacheCorruptionError (loadMesh n (layMesh x @ rest))"
    by (intro loadMesh_defect) (auto simp: list_all_iff)
qed (rule assms(2))

lemma loadCachedFile_version:
  "loadCachedFile (Some []) = Inl (ModelLoadException
     ''The format of the cached file has changed: deleting old cache'')"
  "v \<noteq> CurrentCacheVersion \<Longrightarrow> loadCachedFile (Some (v # rest)) = Inl (ModelLoadException
     ''The format of the cached file has changed: deleting old cache'')"
  by (simp_all add: loadCachedFile_def streamRead_def CurrentCacheVersion_def)

lemma loadCachedFile_layout:
  assumes "layoutable g" "geometryOk g"
  shows "loadCachedFile (Some (layout CurrentCacheVersion g @ rest)) = Inr (cachedGeometry g)"
  using assms
  unfolding loadCachedFile_def layout_def layoutable_def geometryOk_def
  by (simp add: streamRead_def loadEach_entries loadEach_meshes cachedGeometry_def)

lemma loadCachedFile_defect:
  assumes "layoutable g" "\<not> geometryOk g"
  shows "CacheCorruptionError (loadCachedFile (Some (layout CurrentCacheVersion g @ rest)))"
proof -
  let ?st = "textureStorage g"
  from assms(1) have l: "list_all entryLayoutable ?st" "list_all meshLayoutable (meshes g)"
    by (simp_all add: layoutable_def)
  consider "\<not> list_all (\<lambda>e. \<not> entryZero e) ?st"
    | "list_all (\<lambda>e. \<not> entryZero e) ?st" "meshes g = []"
    | "list_all (\<lambda>e. \<not> entryZero e) ?st" "meshes g \<noteq> []"
      "\<not> list_all (meshOk (length ?st)) (meshes g)"
    using assms(2) by (auto simp: geometryOk_def)
  then show ?thesis
  proof cases
    case 1
    from loadEach_entries_defect[OF l(1) 1] obtain msg where
      "loadEach loadTextureEntry (length ?st)
         (concat (map layEntry ?st) @ enc32 (of_nat (length (meshes g)))
            @ concat (map layMesh (meshes g)) @ rest) = Inl (ModelLoadException msg)"
      "msg \<in> set corruptionMessages"
      by (rule corruptionE)
    with assms(1) show ?thesis
      unfolding loadCachedFile_def layout_def layoutable_def
      by (simp add: streamRead_def)
  next
    case 2
    with assms(1) show ?thesis
      unfolding loadCachedFile_def layout_def layoutable_def
      by (simp add: streamRead_def loadEach_entries corruptionMessages_def)
  next
    case 3
    from loadEach_meshes_defect[OF l(2) 3(3), of rest] obtain msg where
      "loadEach (loadMesh (length ?st)) (length (meshes g))
         (concat (map layMesh (meshes g)) @ rest) = Inl (ModelLoadException msg)"
      "msg \<in> set corruptionMessages"
      by (rule corruptionE)
    with 3 assms(1) show ?thesis
      unfolding loadCachedFile_def layout_def layoutable_def
      by (simp add: streamRead_def loadEach_entries)
  qed
qed

lemma loadEach_result:
  assumes "loadEach f n s = Inr (xs, s')"
    and "\<And>s x s'. f s = Inr (x, s') \<Longrightarrow> P x"
  shows "length xs = n \<and> list_all P xs"
  using assms(1)
proof (induction n arbitrary: s xs)
  case 0
  then show ?case by simp
next
  case (Suc n)
  from Suc.prems obtain x s1 ys where
    x: "f s = Inr (x, s1)" and r: "loadEach f n s1 = Inr (ys, s')" and xs: "xs = x # ys"
    by (auto split: sum.splits prod.splits)
  from Suc.IH[OF r] assms(2)[OF x] xs show ?case by simp
qed

lemma length_streamRead:
  "streamRead n (replicate n b) s = (bs, s') \<Longrightarrow> length bs = n"
  by (auto simp: streamRead_def split: if_splits)

lemma loadTextureEntry_result:
  assumes "loadTextureEntry s = Inr (e, s')"
  shows "\<not> entryZero e"
proof -
  from assms obtain nameSize :: int32 and s1 nameBytes s2 and textureSize :: int32
    and s9 data s10 where
    n: "nameSize \<noteq> 0" "streamRead (unat nameSize) (replicate (unat nameSize) 0) s1
          = (nameBytes, s2)" "name e = map char_of_byte nameBytes"
    and p: "textureSize \<noteq> 0" "streamRead (unat textureSize) (replicate (unat textureSize) 0) s9
          = (data, s10)" "pixelData (texture e) = data"
    unfolding loadTextureEntry_def
    by (auto split: prod.splits sum.splits if_splits)
  from length_streamRead[OF n(2)] n(1) have "nameBytes \<noteq> []"
    by (auto simp: unat_eq_zero)
  moreover from length_streamRead[OF p(2)] p(1) have "data \<noteq> []"
    by (auto simp: unat_eq_zero)
  ultimately show ?thesis using n(3) p(3) by (simp add: entryZero_def)
qed

lemma loadMeshTexture_result:
  assumes "loadMeshTexture n s = Inr (t, s')"
  shows "textureOk n t \<and> referenceOk n t"
proof -
  from assms obtain typeSize :: int32 and s1 typeBytes s2 where
    n: "typeSize \<noteq> 0" "streamRead (unat typeSize) (replicate (unat typeSize) 0) s1
          = (typeBytes, s2)" "type t = map char_of_byte typeBytes"
    and r: "referenceOk n t"
    unfolding loadMeshTexture_def
    by (auto simp: referenceOk_def Let_def split: prod.splits sum.splits if_splits)
  from length_streamRead[OF n(2)] n(1) have "typeBytes \<noteq> []"
    by (auto simp: unat_eq_zero)
  with n(3) r show ?thesis
    by (auto simp: textureOk_def indexOutside_def referenceOk_def split: option.splits if_splits)
qed

lemma loadMesh_result:
  assumes "loadMesh n s = Inr (m, s')"
  shows "meshOk n m \<and> list_all (referenceOk n) (textures m)"
proof -
  from assms obtain nVertices :: int32 and s1 s2 and nIndices :: int32 and s3 s4
    and nTextures :: int32 and s5 where
    v: "nVertices \<noteq> 0"
      "loadEach (\<lambda>s. Inr (readVertex s)) (unat nVertices) s1 = Inr (vertices m, s2)"
    and i: "nIndices \<noteq> 0"
      "loadEach (\<lambda>s. Inr (readInt32 s)) (unat nIndices) s3 = Inr (indices m, s4)"
    and t: "nTextures \<noteq> 0"
      "loadEach (loadMeshTexture n) (unat nTextures) s5 = Inr (textures m, s')"
    unfolding loadMesh_def
    by (auto split: prod.splits sum.splits if_splits)
  from loadEach_result[OF v(2), of "\<lambda>x. True"] v(1) have "vertices m \<noteq> []"
    by (auto simp: unat_eq_zero)
  moreover from loadEach_result[OF i(2), of "\<lambda>x. True"] i(1) have "indices m \<noteq> []"
    by (auto simp: unat_eq_zero)
  moreover from loadEach_result[OF t(2), of "\<lambda>t. textureOk n t \<and> referenceOk n t"]
    loadMeshTexture_result t(1)
  have "textures m \<noteq> []" "list_all (\<lambda>t. textureOk n t \<and> referenceOk n t) (textures m)"
    by (auto simp: unat_eq_zero)
  ultimately show ?thesis by (auto simp: meshOk_def list_all_iff)
qed

lemma loadCachedFile_result:
  assumes "loadCachedFile file = Inr g"
  shows "geometryOk g"
    and "list_all (\<lambda>m. list_all (referenceOk (length (textureStorage g))) (textures m))
           (meshes g)"
proof -
  from assms obtain nTextureEntries :: int32 and s2 s3 and nMeshes :: int32 and s4 s5 where
    e: "loadEach loadTextureEntry (unat nTextureEntries) s2 = Inr (textureStorage g, s3)"
    and m: "nMeshes \<noteq> 0"
      "loadEach (loadMesh (length (textureStorage g))) (unat nMeshes) s4 = Inr (meshes g, s5)"
    unfolding loadCachedFile_def
    by (auto split: option.splits prod.splits sum.splits if_splits)
  from loadEach_result[OF e, of "\<lambda>e. \<not> entryZero e"] loadTextureEntry_result
  have 1: "list_all (\<lambda>e. \<not> entryZero e) (textureStorage g)" by blast
  let ?n = "length (textureStorage g)"
  from loadEach_result[OF m(2), of "\<lambda>m. meshOk ?n m \<and> list_all (referenceOk ?n) (textures m)"]
    loadMesh_result m(1)
  have 2: "meshes g \<noteq> []"
    "list_all (\<lambda>m. meshOk ?n m \<and> list_all (referenceOk ?n) (textures m)) (meshes g)"
    by (auto simp: unat_eq_zero)
  from 1 2 show "geometryOk g" by (auto simp: geometryOk_def list_all_iff)
  from 2 show "list_all (\<lambda>m. list_all (referenceOk ?n) (textures m)) (meshes g)"
    by (auto simp: list_all_iff)
qed

lemma writeError_simps [simp]:
  "CacheWriteError (Inr x) = False"
  "CacheWriteError (Inl (ModelSaveException m)) = True"
  "CacheWriteError (Inl notFound) = True"
  by (simp_all add: CacheWriteError_def notFound_def)

lemma writeErrorE:
  assumes "CacheWriteError r"
  obtains m where "r = Inl (ModelSaveException m)"
  using assms by (auto simp: CacheWriteError_def split: sum.splits error.splits)

lemma saveEach_layout:
  assumes "\<And>x. x \<in> set xs \<Longrightarrow> \<exists>ws. f x = Inr ws \<and> concat ws = lay x"
  shows "\<exists>ws. saveEach f xs = Inr ws \<and> concat ws = concat (map lay xs)"
  using assms
proof (induction xs)
  case Nil
  then show ?case by simp
next
  case (Cons x xs)
  from Cons.prems[of x] obtain ws where x: "f x = Inr ws" "concat ws = lay x" by auto
  from Cons.IH Cons.prems obtain ws' where
    xs: "saveEach f xs = Inr ws'" "concat ws' = concat (map lay xs)" by auto
  from x xs show ?case by simp
qed

lemma saveEach_zero:
  assumes "\<And>x. x \<in> set xs \<Longrightarrow> CacheWriteError (f x) \<or> (\<exists>ws. f x = Inr ws)"
    and "\<exists>x \<in> set xs. CacheWriteError (f x)"
  shows "CacheWriteError (saveEach f xs)"
  using assms
proof (induction xs)
  case Nil
  then show ?case by simp
next
  case (Cons x xs)
  show ?case
  proof (cases "CacheWriteError (f x)")
    case True
    then show ?thesis by (auto elim!: writeErrorE)
  next
    case False
    with Cons.prems(1)[of x] obtain ws where x: "f x = Inr ws" by auto
    from False Cons.prems(2) have "\<exists>x \<in> set xs. CacheWriteError (f x)" by auto
    with Cons.IH Cons.prems(1) have "CacheWriteError (saveEach f xs)" by auto
    with x show ?thesis by (auto elim!: writeErrorE)
  qed
qed

lemma saveEach_notFound:
  assumes "\<And>x. x \<in> set xs \<Longrightarrow> f x = Inl e \<or> (\<exists>ws. f x = Inr ws)"
    and "\<exists>x \<in> set xs. f x = Inl e"
  shows "saveEach f xs = Inl e"
  using assms
proof (induction xs)
  case Nil
  then show ?case by simp
next
  case (Cons x xs)
  show ?case
  proof (cases "f x = Inl e")
    case True
    then show ?thesis by simp
  next
    case False
    with Cons.prems(1)[of x] obtain ws where x: "f x = Inr ws" by auto
    from False Cons.prems(2) have "\<exists>x \<in> set xs. f x = Inl e" by auto
    with Cons.IH Cons.prems(1) have "saveEach f xs = Inl e" by auto
    with x show ?thesis by simp
  qed
qed

lemma saveTextureEntry_layout:
  assumes "entryLayoutable e" "\<not> entryZero e"
  shows "\<exists>ws. saveTextureEntry e = Inr ws \<and> concat ws = layEntry e"
proof -
  obtain x y z where d: "dimensions (texture e) = (x, y, z)"
    by (cases "dimensions (texture e)") auto
  from assms show ?thesis
    unfolding saveTextureEntry_def layEntry_def d entryLayoutable_def entryZero_def
    by (simp add: formatToString_code dataTypeToString_code expectedPixelDataSize_def)
qed

lemma saveTextureEntry_zero:
  assumes "entryLayoutable e" "entryZero e"
  shows "CacheWriteError (saveTextureEntry e)"
  using assms
  unfolding saveTextureEntry_def entryLayoutable_def entryZero_def
  by (auto simp: Let_def formatToString_code dataTypeToString_code expectedPixelDataSize_def)

lemma saveMeshTexture_layout:
  assumes "textureEncodable st t" "type t \<noteq> []" "textureFound st t"
  shows "\<exists>ws. saveMeshTexture st t = Inr ws \<and> concat ws = layTexture (resolvedTexture st t)"
proof -
  obtain r g b where c: "color t = (r, g, b)" by (cases "color t") auto
  show ?thesis
  proof (cases "hasTexture t")
    case False
    with assms show ?thesis
      unfolding saveMeshTexture_def layTexture_def c textureEncodable_def resolvedTexture_def
      by (simp add: c encBool_def)
  next
    case True
    with assms obtain n te where n: "textureName st t = Some n" "findByName st n 0 = Some te"
      by (auto simp: textureFound_def writtenIndex_def split: option.splits)
    with assms True show ?thesis
      unfolding saveMeshTexture_def layTexture_def c textureEncodable_def resolvedTexture_def
      by (simp add: c encBool_def writtenIndex_def)
  qed
qed

lemma saveMeshTexture_zero:
  assumes "type t = []"
  shows "CacheWriteError (saveMeshTexture st t)"
  using assms unfolding saveMeshTexture_def by simp

lemma saveMeshTexture_notFound:
  assumes "textureEncodable st t" "type t \<noteq> []" "\<not> textureFound st t"
  shows "saveMeshTexture st t = Inl notFound"
proof -
  obtain r g b where c: "color t = (r, g, b)" by (cases "color t") auto
  from assms obtain n where "hasTexture t" "textureName st t = Some n"
    "findByName st n 0 = None"
    by (auto simp: textureFound_def textureEncodable_def writtenIndex_def
        split: option.splits if_splits)
  with assms show ?thesis
    unfolding saveMeshTexture_def c textureEncodable_def
    by (simp add: notFound_def)
qed

lemma saveMeshTexture_cases:
  assumes "textureEncodable st t"
  shows "CacheWriteError (saveMeshTexture st t) \<or> (\<exists>ws. saveMeshTexture st t = Inr ws)"
proof (cases "type t = []")
  case True
  then show ?thesis by (simp add: saveMeshTexture_zero)
next
  case False
  show ?thesis
  proof (cases "textureFound st t")
    case True
    from saveMeshTexture_layout[OF assms False True] show ?thesis by blast
  next
    case False
    from saveMeshTexture_notFound[OF assms \<open>type t \<noteq> []\<close> False] show ?thesis by simp
  qed
qed

lemma saveEach_textures:
  assumes "list_all (textureEncodable st) ts"
  shows "list_all (\<lambda>t. type t \<noteq> []) ts \<Longrightarrow> list_all (textureFound st) ts \<Longrightarrow>
           \<exists>ws. saveEach (saveMeshTexture st) ts = Inr ws
              \<and> concat ws = concat (map layTexture (map (resolvedTexture st) ts))"
    and "list_ex (\<lambda>t. type t = []) ts \<Longrightarrow> CacheWriteError (saveEach (saveMeshTexture st) ts)"
    and "list_all (\<lambda>t. type t \<noteq> []) ts \<Longrightarrow> \<not> list_all (textureFound st) ts \<Longrightarrow>
           saveEach (saveMeshTexture st) ts = Inl notFound"
proof -
  assume a: "list_all (\<lambda>t. type t \<noteq> []) ts" "list_all (textureFound st) ts"
  have "\<exists>ws. saveEach (saveMeshTexture st) ts = Inr ws
          \<and> concat ws = concat (map (\<lambda>t. layTexture (resolvedTexture st t)) ts)"
  proof (rule saveEach_layout)
    fix x assume "x \<in> set ts"
    with assms a show "\<exists>ws. saveMeshTexture st x = Inr ws
        \<and> concat ws = layTexture (resolvedTexture st x)"
      by (intro saveMeshTexture_layout) (auto simp: list_all_iff)
  qed
  then show "\<exists>ws. saveEach (saveMeshTexture st) ts = Inr ws
      \<and> concat ws = concat (map layTexture (map (resolvedTexture st) ts))"
    by (simp add: comp_def)
next
  assume a: "list_ex (\<lambda>t. type t = []) ts"
  show "CacheWriteError (saveEach (saveMeshTexture st) ts)"
  proof (rule saveEach_zero)
    fix x assume "x \<in> set ts"
    with assms show "CacheWriteError (saveMeshTexture st x) \<or> (\<exists>ws. saveMeshTexture st x = Inr ws)"
      by (intro saveMeshTexture_cases) (auto simp: list_all_iff)
  next
    from a obtain x where "x \<in> set ts" "type x = []" by (auto simp: list_ex_iff)
    with saveMeshTexture_zero[of x st]
    show "\<exists>x \<in> set ts. CacheWriteError (saveMeshTexture st x)" by blast
  qed
next
  assume a: "list_all (\<lambda>t. type t \<noteq> []) ts" "\<not> list_all (textureFound st) ts"
  show "saveEach (saveMeshTexture st) ts = Inl notFound"
  proof (rule saveEach_notFound)
    fix x assume x: "x \<in> set ts"
    with assms a have e: "textureEncodable st x" "type x \<noteq> []" by (auto simp: list_all_iff)
    show "saveMeshTexture st x = Inl notFound \<or> (\<exists>ws. saveMeshTexture st x = Inr ws)"
    proof (cases "textureFound st x")
      case True
      from saveMeshTexture_layout[OF e True] show ?thesis by blast
    next
      case False
      from saveMeshTexture_notFound[OF e False] show ?thesis by simp
    qed
  next
    from a(2) obtain x where x: "x \<in> set ts" "\<not> textureFound st x"
      by (auto simp: list_all_iff)
    with assms a(1) have "textureEncodable st x" "type x \<noteq> []" by (auto simp: list_all_iff)
    from saveMeshTexture_notFound[OF this x(2)] x(1)
    show "\<exists>x \<in> set ts. saveMeshTexture st x = Inl notFound" by blast
  qed
qed

lemma concat_singleton_map [simp]: "concat (map (\<lambda>x. [f x]) xs) = map f xs"
  by (induction xs) auto

lemma saveMesh_layout:
  assumes "meshEncodable st m" "\<not> meshZero m" "meshFound st m"
  shows "\<exists>ws. saveMesh st m = Inr ws \<and> concat ws = layMesh (resolvedMesh st m)"
proof -
  from assms have t: "list_all (textureEncodable st) (textures m)"
    "list_all (\<lambda>t. type t \<noteq> []) (textures m)" "list_all (textureFound st) (textures m)"
    by (auto simp: meshEncodable_def meshZero_def meshFound_def list_all_iff list_ex_iff)
  from saveEach_textures(1)[OF t] obtain ws where
    ws: "saveEach (saveMeshTexture st) (textures m) = Inr ws"
      "concat ws = concat (map layTexture (map (resolvedTexture st) (textures m)))"
    by blast
  from assms ws show ?thesis
    unfolding saveMesh_def layMesh_def meshEncodable_def meshZero_def resolvedMesh_def
    by (simp add: Let_def)
qed

lemma saveMesh_zero:
  assumes "meshEncodable st m" "meshZero m"
  shows "CacheWriteError (saveMesh st m)"
proof (cases "vertices m = [] \<or> indices m = [] \<or> textures m = []")
  case True
  with assms(1) show ?thesis
    unfolding saveMesh_def meshEncodable_def
    by (auto simp: Let_def)
next
  case False
  with assms have t: "list_all (textureEncodable st) (textures m)"
    "list_ex (\<lambda>t. type t = []) (textures m)"
    by (auto simp: meshEncodable_def meshZero_def)
  from saveEach_textures(2)[OF t] obtain msg where
    "saveEach (saveMeshTexture st) (textures m) = Inl (ModelSaveException msg)"
    by (rule writeErrorE)
  with assms(1) False show ?thesis
    unfolding saveMesh_def meshEncodable_def
    by (simp add: Let_def)
qed

lemma saveMesh_notFound:
  assumes "meshEncodable st m" "\<not> meshZero m" "\<not> meshFound st m"
  shows "saveMesh st m = Inl notFound"
proof -
  from assms have t: "list_all (textureEncodable st) (textures m)"
    "list_all (\<lambda>t. type t \<noteq> []) (textures m)" "\<not> list_all (textureFound st) (textures m)"
    by (auto simp: meshEncodable_def meshZero_def meshFound_def list_all_iff list_ex_iff)
  from saveEach_textures(3)[OF t] assms(1,2) show ?thesis
    unfolding saveMesh_def meshEncodable_def meshZero_def
    by (simp add: Let_def)
qed

lemma saveEach_entries:
  assumes "list_all entryLayoutable es"
  shows "\<not> list_ex entryZero es \<Longrightarrow>
           \<exists>ws. saveEach saveTextureEntry es = Inr ws \<and> concat ws = concat (map layEntry es)"
    and "list_ex entryZero es \<Longrightarrow> CacheWriteError (saveEach saveTextureEntry es)"
proof -
  assume a: "\<not> list_ex entryZero es"
  show "\<exists>ws. saveEach saveTextureEntry es = Inr ws \<and> concat ws = concat (map layEntry es)"
  proof (rule saveEach_layout)
    fix x assume "x \<in> set es"
    with assms a show "\<exists>ws. saveTextureEntry x = Inr ws \<and> concat ws = layEntry x"
      by (intro saveTextureEntry_layout) (auto simp: list_all_iff list_ex_iff)
  qed
next
  assume a: "list_ex entryZero es"
  show "CacheWriteError (saveEach saveTextureEntry es)"
  proof (rule saveEach_zero)
    fix x assume x: "x \<in> set es"
    with assms have l: "entryLayoutable x" by (auto simp: list_all_iff)
    show "CacheWriteError (saveTextureEntry x) \<or> (\<exists>ws. saveTextureEntry x = Inr ws)"
    proof (cases "entryZero x")
      case True
      from saveTextureEntry_zero[OF l True] show ?thesis by simp
    next
      case False
      from saveTextureEntry_layout[OF l False] show ?thesis by blast
    qed
  next
    from a obtain x where x: "x \<in> set es" "entryZero x" by (auto simp: list_ex_iff)
    with assms have "entryLayoutable x" by (auto simp: list_all_iff)
    from saveTextureEntry_zero[OF this x(2)] x(1)
    show "\<exists>x \<in> set es. CacheWriteError (saveTextureEntry x)" by blast
  qed
qed

lemma saveMesh_cases:
  assumes "meshEncodable st m"
  shows "CacheWriteError (saveMesh st m) \<or> (\<exists>ws. saveMesh st m = Inr ws)"
proof (cases "meshZero m")
  case True
  from saveMesh_zero[OF assms True] show ?thesis by simp
next
  case False
  show ?thesis
  proof (cases "meshFound st m")
    case True
    from saveMesh_layout[OF assms False True] show ?thesis by blast
  next
    case nf: False
    from saveMesh_notFound[OF assms False nf] show ?thesis by simp
  qed
qed

lemma saveEach_meshes:
  assumes "list_all (meshEncodable st) ms"
  shows "\<not> list_ex meshZero ms \<Longrightarrow> list_all (meshFound st) ms \<Longrightarrow>
           \<exists>ws. saveEach (saveMesh st) ms = Inr ws
              \<and> concat ws = concat (map layMesh (map (resolvedMesh st) ms))"
    and "list_ex meshZero ms \<Longrightarrow> CacheWriteError (saveEach (saveMesh st) ms)"
    and "\<not> list_ex meshZero ms \<Longrightarrow> \<not> list_all (meshFound st) ms \<Longrightarrow>
           saveEach (saveMesh st) ms = Inl notFound"
proof -
  assume a: "\<not> list_ex meshZero ms" "list_all (meshFound st) ms"
  have "\<exists>ws. saveEach (saveMesh st) ms = Inr ws
          \<and> concat ws = concat (map (\<lambda>m. layMesh (resolvedMesh st m)) ms)"
  proof (rule saveEach_layout)
    fix x assume "x \<in> set ms"
    with assms a show "\<exists>ws. saveMesh st x = Inr ws \<and> concat ws = layMesh (resolvedMesh st x)"
      by (intro saveMesh_layout) (auto simp: list_all_iff list_ex_iff)
  qed
  then show "\<exists>ws. saveEach (saveMesh st) ms = Inr ws
      \<and> concat ws = concat (map layMesh (map (resolvedMesh st) ms))"
    by (simp add: comp_def)
next
  assume a: "list_ex meshZero ms"
  show "CacheWriteError (saveEach (saveMesh st) ms)"
  proof (rule saveEach_zero)
    fix x assume "x \<in> set ms"
    with assms show "CacheWriteError (saveMesh st x) \<or> (\<exists>ws. saveMesh st x = Inr ws)"
      by (intro saveMesh_cases) (auto simp: list_all_iff)
  next
    from a obtain x where x: "x \<in> set ms" "meshZero x" by (auto simp: list_ex_iff)
    with assms have "meshEncodable st x" by (auto simp: list_all_iff)
    from saveMesh_zero[OF this x(2)] x(1)
    show "\<exists>x \<in> set ms. CacheWriteError (saveMesh st x)" by blast
  qed
next
  assume a: "\<not> list_ex meshZero ms" "\<not> list_all (meshFound st) ms"
  show "saveEach (saveMesh st) ms = Inl notFound"
  proof (rule saveEach_notFound)
    fix x assume x: "x \<in> set ms"
    with assms a have e: "meshEncodable st x" "\<not> meshZero x"
      by (auto simp: list_all_iff list_ex_iff)
    show "saveMesh st x = Inl notFound \<or> (\<exists>ws. saveMesh st x = Inr ws)"
    proof (cases "meshFound st x")
      case True
      from saveMesh_layout[OF e True] show ?thesis by blast
    next
      case False
      from saveMesh_notFound[OF e False] show ?thesis by simp
    qed
  next
    from a(2) obtain x where x: "x \<in> set ms" "\<not> meshFound st x"
      by (auto simp: list_all_iff)
    with assms a(1) have "meshEncodable st x" "\<not> meshZero x"
      by (auto simp: list_all_iff list_ex_iff)
    from saveMesh_notFound[OF this x(2)] x(1)
    show "\<exists>x \<in> set ms. saveMesh st x = Inl notFound" by blast
  qed
qed

lemma cacheWrites_layout:
  assumes "encodable g" "\<not> zeroCount g" "namesFound g"
  shows "\<exists>ws. cacheWrites g = Inr ws
           \<and> concat ws = layout CurrentCacheVersion (resolvedGeometry g)"
proof -
  let ?st = "textureStorage g"
  from assms have e: "list_all entryLayoutable ?st" "\<not> list_ex entryZero ?st"
    and m: "list_all (meshEncodable ?st) (meshes g)" "\<not> list_ex meshZero (meshes g)"
      "list_all (meshFound ?st) (meshes g)"
    by (auto simp: encodable_def zeroCount_def namesFound_def)
  from saveEach_entries(1)[OF e] obtain ws where
    ws: "saveEach saveTextureEntry ?st = Inr ws" "concat ws = concat (map layEntry ?st)"
    by blast
  from saveEach_meshes(1)[OF m] obtain ws' where
    ws': "saveEach (saveMesh ?st) (meshes g) = Inr ws'"
      "concat ws' = concat (map layMesh (map (resolvedMesh ?st) (meshes g)))"
    by blast
  from assms(1,2) ws ws' show ?thesis
    unfolding cacheWrites_def layout_def encodable_def zeroCount_def resolvedGeometry_def
    by (simp add: Let_def)
qed

lemma cacheWrites_zero:
  assumes "encodable g" "zeroCount g"
  shows "CacheWriteError (cacheWrites g)"
proof -
  let ?st = "textureStorage g"
  from assms have e: "list_all entryLayoutable ?st"
    and m: "list_all (meshEncodable ?st) (meshes g)"
    by (auto simp: encodable_def)
  consider "list_ex entryZero ?st" | "\<not> list_ex entryZero ?st" "meshes g = []"
    | "\<not> list_ex entryZero ?st" "meshes g \<noteq> []" "list_ex meshZero (meshes g)"
    using assms(2) by (auto simp: zeroCount_def)
  then show ?thesis
  proof cases
    case 1
    from saveEach_entries(2)[OF e 1] obtain msg where
      "saveEach saveTextureEntry ?st = Inl (ModelSaveException msg)"
      by (rule writeErrorE)
    with assms(1) show ?thesis
      unfolding cacheWrites_def encodable_def by (simp add: Let_def)
  next
    case 2
    from saveEach_entries(1)[OF e 2(1)] obtain ws where
      "saveEach saveTextureEntry ?st = Inr ws" by blast
    with assms(1) 2 show ?thesis
      unfolding cacheWrites_def encodable_def by (simp add: Let_def)
  next
    case 3
    from saveEach_entries(1)[OF e 3(1)] obtain ws where
      ws: "saveEach saveTextureEntry ?st = Inr ws" by blast
    from saveEach_meshes(2)[OF m 3(3)] obtain msg where
      "saveEach (saveMesh ?st) (meshes g) = Inl (ModelSaveException msg)"
      by (rule writeErrorE)
    with assms(1) 3 ws show ?thesis
      unfolding cacheWrites_def encodable_def by (simp add: Let_def)
  qed
qed

lemma cacheWrites_notFound:
  assumes "encodable g" "\<not> zeroCount g" "\<not> namesFound g"
  shows "cacheWrites g = Inl notFound"
proof -
  let ?st = "textureStorage g"
  from assms have e: "list_all entryLayoutable ?st" "\<not> list_ex entryZero ?st"
    and m: "list_all (meshEncodable ?st) (meshes g)" "\<not> list_ex meshZero (meshes g)"
      "\<not> list_all (meshFound ?st) (meshes g)"
    by (auto simp: encodable_def zeroCount_def namesFound_def)
  from saveEach_entries(1)[OF e] obtain ws where
    ws: "saveEach saveTextureEntry ?st = Inr ws" by blast
  from saveEach_meshes(3)[OF m] assms(1,2) ws show ?thesis
    unfolding cacheWrites_def encodable_def zeroCount_def
    by (simp add: Let_def)
qed

lemma streamWrite_bad:
  "\<not> good f \<Longrightarrow> \<not> good (foldl streamWrite f ws)"
  by (induction ws arbitrary: f) (simp_all add: streamWrite_def)

lemma foldl_streamWrite_fits:
  assumes "good f"
    and "case capacity f of None \<Rightarrow> True
         | Some n \<Rightarrow> length (content f) + length (concat ws) \<le> n"
  shows "foldl streamWrite f ws = f\<lparr>content := content f @ concat ws\<rparr>"
  using assms
proof (induction ws arbitrary: f)
  case Nil
  then show ?case by simp
next
  case (Cons w ws)
  then have s: "streamWrite f w = f\<lparr>content := content f @ w\<rparr>"
    by (auto simp: streamWrite_def split: option.splits)
  from Cons.prems have "foldl streamWrite (f\<lparr>content := content f @ w\<rparr>) ws
      = (f\<lparr>content := content f @ w\<rparr>)\<lparr>content := content (f\<lparr>content := content f @ w\<rparr>)
          @ concat ws\<rparr>"
    by (intro Cons.IH) (auto split: option.splits)
  with s show ?case by simp
qed

lemma foldl_streamWrite_full:
  assumes "capacity f = Some n" "n < length (content f) + length (concat ws)"
    and "length (content f) \<le> n"
  shows "\<not> good (foldl streamWrite f ws)"
  using assms
proof (induction ws arbitrary: f)
  case Nil
  then show ?case by simp
next
  case (Cons w ws)
  show ?case
  proof (cases "good (streamWrite f w)")
    case False
    from streamWrite_bad[OF this, of ws] show ?thesis by simp
  next
    case True
    with Cons.prems have s: "streamWrite f w = f\<lparr>content := content f @ w\<rparr>"
      and l: "length (content f) + length w \<le> n"
      by (auto simp: streamWrite_def split: option.splits if_splits)
    from Cons.prems l have "\<not> good (foldl streamWrite (f\<lparr>content := content f @ w\<rparr>) ws)"
      by (intro Cons.IH) auto
    with s show ?thesis by simp
  qed
qed

lemma saveCachedFile_open:
  "CacheWriteError (saveCachedFile cachedFile CannotOpen g)"
  by (simp add: saveCachedFile_def)

lemma saveCachedFile_zero:
  assumes "encodable g" "zeroCount g"
  shows "CacheWriteError (saveCachedFile cachedFile (Device cap) g)"
proof -
  from cacheWrites_zero[OF assms] obtain msg where
    "cacheWrites g = Inl (ModelSaveException msg)" by (rule writeErrorE)
  then show ?thesis by (simp add: saveCachedFile_def)
qed

lemma saveCachedFile_notFound:
  assumes "encodable g" "\<not> zeroCount g" "\<not> namesFound g"
  shows "saveCachedFile cachedFile (Device cap) g = Inl notFound"
  using cacheWrites_notFound[OF assms] by (simp add: saveCachedFile_def)

lemma saveCachedFile_written:
  assumes "encodable g" "\<not> zeroCount g" "namesFound g"
    and "case cap of None \<Rightarrow> True
         | Some n \<Rightarrow> length (layout CurrentCacheVersion (resolvedGeometry g)) \<le> n"
  shows "saveCachedFile cachedFile (Device cap) g
           = Inr (True, layout CurrentCacheVersion (resolvedGeometry g))"
proof -
  from cacheWrites_layout[OF assms(1-3)] obtain ws where
    ws: "cacheWrites g = Inr ws" "concat ws = layout CurrentCacheVersion (resolvedGeometry g)"
    by blast
  let ?f = "\<lparr>good = True, content = [], capacity = cap\<rparr>"
  from assms(4) ws(2) have "foldl streamWrite ?f ws = ?f\<lparr>content := content ?f @ concat ws\<rparr>"
    by (intro foldl_streamWrite_fits) (auto split: option.splits)
  with ws show ?thesis by (simp add: saveCachedFile_def)
qed

lemma saveCachedFile_full:
  assumes "encodable g" "\<not> zeroCount g" "namesFound g"
    and "n < length (layout CurrentCacheVersion (resolvedGeometry g))"
  shows "\<exists>bs. saveCachedFile cachedFile (Device (Some n)) g = Inr (False, bs)"
proof -
  from cacheWrites_layout[OF assms(1-3)] obtain ws where
    ws: "cacheWrites g = Inr ws" "concat ws = layout CurrentCacheVersion (resolvedGeometry g)"
    by blast
  let ?f = "\<lparr>good = True, content = [], capacity = Some n\<rparr>"
  from assms(4) ws(2) have "\<not> good (foldl streamWrite ?f ws)"
    by (intro foldl_streamWrite_full[where n = n]) auto
  with ws show ?thesis by (simp add: saveCachedFile_def)
qed

lemma saveCachedFile_success:
  assumes "encodable g" "saveCachedFile cachedFile dest g = Inr (True, bytes)"
  shows "\<not> zeroCount g \<and> namesFound g
         \<and> bytes = layout CurrentCacheVersion (resolvedGeometry g)"
proof -
  from assms(2) obtain cap where d: "dest = Device cap"
    by (cases dest) (auto simp: saveCachedFile_def)
  have z: "\<not> zeroCount g"
  proof
    assume "zeroCount g"
    from saveCachedFile_zero[OF assms(1) this, of cachedFile cap] assms(2) d
    show False by simp
  qed
  have f: "namesFound g"
  proof (rule ccontr)
    assume "\<not> namesFound g"
    from saveCachedFile_notFound[OF assms(1) z this, of cachedFile cap] assms(2) d
    show False by simp
  qed
  let ?l = "layout CurrentCacheVersion (resolvedGeometry g)"
  have "case cap of None \<Rightarrow> True | Some n \<Rightarrow> length ?l \<le> n"
  proof (cases cap)
    case None
    then show ?thesis by simp
  next
    case (Some n)
    have "length ?l \<le> n"
    proof (rule ccontr)
      assume "\<not> length ?l \<le> n"
      then have "n < length ?l" by simp
      from saveCachedFile_full[OF assms(1) z f this, of cachedFile] assms(2) d Some
      show False by auto
    qed
    with Some show ?thesis by simp
  qed
  from saveCachedFile_written[OF assms(1) z f this, of cachedFile] assms(2) d z f
  show ?thesis by simp
qed

lemma writtenIndex_bound:
  "writtenIndex st t = Some i \<Longrightarrow> i < length st"
  by (auto simp: writtenIndex_def split: option.splits dest: findByName_zero)

lemma resolvedGeometry_layoutable:
  assumes "encodable g" "namesFound g"
  shows "layoutable (resolvedGeometry g)"
proof -
  let ?st = "textureStorage g"
  from assms(1) have n: "int32Size (length ?st)" by (simp add: encodable_def)
  have t: "textureLayoutable (resolvedTexture ?st t)"
    if "textureEncodable ?st t" "textureFound ?st t" for t :: "'a MeshTexture"
  proof (cases "hasTexture t")
    case False
    with that show ?thesis
      by (simp add: textureLayoutable_def resolvedTexture_def textureEncodable_def)
  next
    case True
    with that obtain i where i: "writtenIndex ?st t = Some i"
      by (auto simp: textureFound_def)
    from writtenIndex_bound[OF i] n have "i < 2 ^ 32" by (simp add: int32Size_def)
    with that True i show ?thesis
      by (simp add: textureLayoutable_def resolvedTexture_def textureEncodable_def)
  qed
  have m: "meshLayoutable (resolvedMesh ?st m)"
    if "meshEncodable ?st m" "meshFound ?st m" for m :: "'a ModelMesh"
    using that t
    by (auto simp: meshLayoutable_def resolvedMesh_def meshEncodable_def meshFound_def
        list_all_iff)
  from assms m show ?thesis
    by (auto simp: layoutable_def resolvedGeometry_def encodable_def namesFound_def
        list_all_iff)
qed

lemma resolvedGeometry_ok:
  assumes "\<not> zeroCount g" "namesFound g"
  shows "geometryOk (resolvedGeometry g)"
proof -
  let ?st = "textureStorage g"
  have t: "textureOk (length ?st) (resolvedTexture ?st t)"
    if "type t \<noteq> []" "textureFound ?st t" for t :: "'a MeshTexture"
  proof (cases "hasTexture t")
    case False
    with that show ?thesis
      by (simp add: textureOk_def resolvedTexture_def indexOutside_def)
  next
    case True
    with that obtain i where i: "writtenIndex ?st t = Some i"
      by (auto simp: textureFound_def)
    from writtenIndex_bound[OF i] that True i show ?thesis
      by (simp add: textureOk_def resolvedTexture_def indexOutside_def)
  qed
  have m: "meshOk (length ?st) (resolvedMesh ?st m)"
    if "\<not> meshZero m" "meshFound ?st m" for m :: "'a ModelMesh"
    using that t
    by (auto simp: meshOk_def resolvedMesh_def meshZero_def meshFound_def
        list_all_iff list_ex_iff)
  from assms m show ?thesis
    by (auto simp: geometryOk_def resolvedGeometry_def zeroCount_def namesFound_def
        list_all_iff list_ex_iff)
qed

lemma namesResolve_found: "namesResolve g \<Longrightarrow> namesFound g"
  by (auto simp: namesResolve_def namesFound_def meshFound_def textureFound_def
      textureResolves_def list_all_iff)

lemma namesResolve_resolved: "namesResolve g \<Longrightarrow> resolvedGeometry g = g"
proof -
  assume a: "namesResolve g"
  let ?st = "textureStorage g"
  have "map (resolvedMesh ?st) (meshes g) = meshes g"
  proof (rule map_idI)
    fix m assume m: "m \<in> set (meshes g)"
    have "map (resolvedTexture ?st) (textures m) = textures m"
    proof (rule map_idI)
      fix t assume "t \<in> set (textures m)"
      with a m have "textureResolves ?st t" by (auto simp: namesResolve_def list_all_iff)
      then show "resolvedTexture ?st t = t"
        by (auto simp: textureResolves_def resolvedTexture_def)
    qed
    then show "resolvedMesh ?st m = m" by (simp add: resolvedMesh_def)
  qed
  then show ?thesis by (simp add: resolvedGeometry_def)
qed

section \<open>Claims about the cache codec\<close>

lemmas cache_eval =
  cacheGeometry_def cacheMesh_def cacheVertices_def cacheEntry_def texturedBy_def
  forcedColor_def texelOf_def colorGeometry_def emptyGeometry_def danglingGeometry_def
  bothFlagsGeometry_def swappedGeometry_def

lemmas layoutable_eval =
  layoutable_def meshLayoutable_def textureLayoutable_def entryLayoutable_def int32Size_def
  zeroCount_def meshZero_def entryZero_def indexOutOfRange_def indexOutside_def

text \<open>
  C2. \<^verbatim>\<open>loadCachedFile\<close> fails with the read error when the file cannot be opened, and
  with a corruption error on an empty file and on every file whose version byte differs
  from the current version, whatever follows it. On a file with the current version that
  holds the layout of a geometry \<open>g\<close> (followed by anything), it fails with a corruption
  error exactly when a required count of \<open>g\<close> is zero (the meshes, or the vertices,
  indices or textures of a mesh, or a name, a type or a pixel buffer) or a stored texture
  index is outside the texture entries; otherwise it returns \<open>g\<close> as decoded, also when
  \<open>g\<close> has no texture entry. No geometry that it returns, from any file, has a zero
  count or an index out of range.
\<close>
theorem loadCachedFile_errors:
  "CacheReadError (loadCachedFile None)
   \<and> CacheCorruptionError (loadCachedFile (Some []))
   \<and> (\<forall>v content. v \<noteq> CurrentCacheVersion \<longrightarrow>
        CacheCorruptionError (loadCachedFile (Some (v # content))))
   \<and> (\<forall>g rest. layoutable g \<longrightarrow>
        (CacheCorruptionError (loadCachedFile (Some (layout CurrentCacheVersion g @ rest)))
           \<longleftrightarrow> zeroCount g \<or> indexOutOfRange g)
        \<and> (\<not> zeroCount g \<and> \<not> indexOutOfRange g \<longrightarrow>
             loadCachedFile (Some (layout CurrentCacheVersion g @ rest))
               = Inr (cachedGeometry g)))
   \<and> (\<forall>cache h. loadCachedFile cache = Inr h \<longrightarrow> \<not> zeroCount h \<and> \<not> indexOutOfRange h)"
proof (intro conjI allI impI)
  show "CacheReadError (loadCachedFile None)"
    by (simp add: CacheReadError_def loadCachedFile_def)
  show "CacheCorruptionError (loadCachedFile (Some []))"
    by (simp add: loadCachedFile_version corruptionMessages_def)
  show "CacheCorruptionError (loadCachedFile (Some (v # content)))"
    if "v \<noteq> CurrentCacheVersion" for v content
    using that by (simp add: loadCachedFile_version corruptionMessages_def)
next
  fix g :: "float32 ModelGeometry" and rest
  assume l: "layoutable g"
  show "CacheCorruptionError (loadCachedFile (Some (layout CurrentCacheVersion g @ rest)))
          \<longleftrightarrow> zeroCount g \<or> indexOutOfRange g"
  proof (cases "geometryOk g")
    case True
    from loadCachedFile_layout[OF l True, of rest] True show ?thesis
      by (simp add: geometryOk_iff)
  next
    case False
    from loadCachedFile_defect[OF l False, of rest] False show ?thesis
      by (simp add: geometryOk_iff)
  qed
  show "loadCachedFile (Some (layout CurrentCacheVersion g @ rest)) = Inr (cachedGeometry g)"
    if "\<not> zeroCount g \<and> \<not> indexOutOfRange g"
    using loadCachedFile_layout[OF l, of rest] that by (simp add: geometryOk_iff)
next
  fix cache and h :: "float32 ModelGeometry"
  assume "loadCachedFile cache = Inr h"
  from loadCachedFile_result(1)[OF this]
  show "\<not> zeroCount h" "\<not> indexOutOfRange h"
    by (simp_all add: geometryOk_iff)
qed

theorem loadCachedFile_errors_witness:
  "(2 :: byte) \<noteq> CurrentCacheVersion
   \<and> CacheCorruptionError (loadCachedFile (Some (2 # tl (layout CurrentCacheVersion cacheGeometry))))
   \<and> layoutable cacheGeometry \<and> \<not> zeroCount cacheGeometry \<and> \<not> indexOutOfRange cacheGeometry
   \<and> \<not> CacheCorruptionError (loadCachedFile (Some (layout CurrentCacheVersion cacheGeometry @ [])))
   \<and> loadCachedFile (Some (layout CurrentCacheVersion cacheGeometry @ []))
       = Inr (cachedGeometry cacheGeometry)
   \<and> layoutable colorGeometry \<and> \<not> zeroCount colorGeometry \<and> \<not> indexOutOfRange colorGeometry
   \<and> textureStorage colorGeometry = []
   \<and> loadCachedFile (Some (layout CurrentCacheVersion colorGeometry @ [7]))
       = Inr (cachedGeometry colorGeometry)
   \<and> layoutable emptyGeometry \<and> zeroCount emptyGeometry
   \<and> CacheCorruptionError
        (loadCachedFile (Some (layout CurrentCacheVersion emptyGeometry @ [7])))
   \<and> layoutable danglingGeometry \<and> indexOutOfRange danglingGeometry
   \<and> CacheCorruptionError
        (loadCachedFile (Some (layout CurrentCacheVersion danglingGeometry @ [])))
   \<and> \<not> zeroCount (cachedGeometry cacheGeometry)
   \<and> \<not> indexOutOfRange (cachedGeometry cacheGeometry)"
proof -
  note t = loadCachedFile_errors
  note version = t[THEN conjunct2, THEN conjunct2, THEN conjunct1, rule_format]
  note laid = t[THEN conjunct2, THEN conjunct2, THEN conjunct2, THEN conjunct1, rule_format]
  note returned = t[THEN conjunct2, THEN conjunct2, THEN conjunct2, THEN conjunct2, rule_format]
  have v: "(2 :: byte) \<noteq> CurrentCacheVersion" by (simp add: CurrentCacheVersion_def)
  have c: "layoutable cacheGeometry" "\<not> zeroCount cacheGeometry"
    "\<not> indexOutOfRange cacheGeometry"
    by (simp_all add: layoutable_eval cache_eval)
  have k: "layoutable colorGeometry" "\<not> zeroCount colorGeometry"
    "\<not> indexOutOfRange colorGeometry" "textureStorage colorGeometry = []"
    by (simp_all add: layoutable_eval cache_eval)
  have e: "layoutable emptyGeometry" "zeroCount emptyGeometry"
    by (simp_all add: layoutable_eval cache_eval)
  have d: "layoutable danglingGeometry" "indexOutOfRange danglingGeometry"
    by (simp_all add: layoutable_eval cache_eval)
  from laid[OF c(1), THEN conjunct1, of "[]"] c
  have c1: "\<not> CacheCorruptionError
      (loadCachedFile (Some (layout CurrentCacheVersion cacheGeometry @ [])))"
    by blast
  note c2 = laid[OF c(1), THEN conjunct2, rule_format, OF conjI[OF c(2,3)], of "[]"]
  note k2 = laid[OF k(1), THEN conjunct2, rule_format, OF conjI[OF k(2,3)], of "[7]"]
  from laid[OF e(1), THEN conjunct1, of "[7]"] e
  have e1: "CacheCorruptionError
      (loadCachedFile (Some (layout CurrentCacheVersion emptyGeometry @ [7])))"
    by blast
  from laid[OF d(1), THEN conjunct1, of "[]"] d
  have d1: "CacheCorruptionError
      (loadCachedFile (Some (layout CurrentCacheVersion danglingGeometry @ [])))"
    by blast
  note r = returned[OF c2]
  show ?thesis
    by (intro conjI v version[OF v] c c1 c2 k k2 e e1 d d1 r[THEN conjunct1] r[THEN conjunct2])
qed

end
